theory Spec2Isabelle
  imports Complex_Main "HOL-Library.Sublist" "HOL-Library.Char_ord" "HOL-Library.List_Lexorder"
begin

section \<open>JavaScript values and exceptions\<close>

text \<open>
  The handlers are asynchronous JavaScript. A call that throws is a value \<open>Inl e\<close> of a
  sum type, a call that returns is \<open>Inr v\<close>. Strings are byte strings; times are
  milliseconds since the epoch, as \<open>Date.now()\<close> returns them.
\<close>

datatype exn =
  ReferenceError string
  | TypeError string
  | Failure string

type_synonym 'a result = "exn + 'a"

section \<open>The environment of one request\<close>

text \<open>
  A JSON value as \<open>express.json()\<close> hands it to the handler. \<open>JUndefined\<close> is what
  reading an absent property gives.
\<close>

datatype jsval =
  JUndefined
  | JNull
  | JBool bool
  | JNum real
  | JStr string
  | JArr "jsval list"
  | JObj "(string \<times> jsval) list"

text \<open>What \<open>geoip.lookup\<close> returns for an address it knows.\<close>

record geo =
  geo_country :: string
  geo_city :: string
  geo_ll :: "real \<times> real"

text \<open>The result of \<open>UAParser.getResult()\<close>; \<open>None\<close> is \<open>undefined\<close>.\<close>

record ua =
  ua_browser_name :: "string option"
  ua_browser_version :: "string option"
  ua_engine_name :: "string option"
  ua_os_name :: "string option"
  ua_os_version :: "string option"
  ua_device_type :: "string option"
  ua_device_vendor :: "string option"
  ua_device_model :: "string option"
  ua_cpu_architecture :: "string option"

text \<open>
  Everything a request reads from outside the repository: the clock, the libraries
  (geoip-lite, ua-parser-js, crypto, bcryptjs, jsonwebtoken), the number formatting of
  the language, its double-precision arithmetic (\<open>fl\<close> rounds the exact result of one
  operation; \<open>Math.PI\<close>, \<open>Math.sin\<close>, \<open>Math.cos\<close> and \<open>Math.atan2\<close> are what the engine
  provides) and the one-time password \<open>generateOTP()\<close> draws.
\<close>

record env =
  date_now :: int
  date_hours :: int
  date_localeTimeString :: string
  geoip_lookup :: "string \<Rightarrow> geo option"
  ua_parse :: "string option \<Rightarrow> ua"
  sha256_hex :: "string \<Rightarrow> string"
  numToString :: "real \<Rightarrow> string"
  toFixed :: "real \<Rightarrow> nat \<Rightarrow> string"
  fl :: "real \<Rightarrow> real"
  Math_PI :: real
  Math_sin :: "real \<Rightarrow> real"
  Math_cos :: "real \<Rightarrow> real"
  Math_atan2 :: "real \<Rightarrow> real \<Rightarrow> real"
  bcrypt_compare :: "string \<Rightarrow> string \<Rightarrow> bool"
  jwt_sign :: "string \<times> string \<times> string \<Rightarrow> string"
  generateOTP :: string

record request =
  req_headers :: "string \<rightharpoonup> string"
  req_remoteAddress :: string
  req_email :: string
  req_password :: string
  req_fingerprint :: "(string \<times> jsval) list option"

subsection \<open>Operators of the language\<close>

fun truthy :: "jsval \<Rightarrow> bool" where
  "truthy JUndefined = False"
| "truthy JNull = False"
| "truthy (JBool b) = b"
| "truthy (JNum r) = (r \<noteq> 0)"
| "truthy (JStr s) = (s \<noteq> [])"
| "truthy (JArr xs) = True"
| "truthy (JObj kvs) = True"

definition js_or :: "jsval \<Rightarrow> jsval \<Rightarrow> jsval" where
  "js_or a b = (if truthy a then a else b)"

definition str_or :: "string option \<Rightarrow> string \<Rightarrow> string" where
  "str_or a b = (case a of Some s \<Rightarrow> (if s \<noteq> [] then s else b) | None \<Rightarrow> b)"

definition join :: "string \<Rightarrow> string list \<Rightarrow> string" where
  "join sep parts = (case parts of [] \<Rightarrow> [] | p # ps \<Rightarrow> p @ concat (map (\<lambda>q. sep @ q) ps))"

text \<open>String conversion as a template literal performs it.\<close>

fun js_toString :: "(real \<Rightarrow> string) \<Rightarrow> jsval \<Rightarrow> string" where
  "js_toString nf JUndefined = ''undefined''"
| "js_toString nf JNull = ''null''"
| "js_toString nf (JBool b) = (if b then ''true'' else ''false'')"
| "js_toString nf (JNum r) = nf r"
| "js_toString nf (JStr s) = s"
| "js_toString nf (JArr xs) =
     join '','' (map (\<lambda>x. if x = JUndefined \<or> x = JNull then [] else js_toString nf x) xs)"
| "js_toString nf (JObj kvs) = ''[object Object]''"

definition opt_toString :: "string option \<Rightarrow> string" where
  "opt_toString a = (case a of Some s \<Rightarrow> s | None \<Rightarrow> ''undefined'')"

definition toLowerCase :: "string \<Rightarrow> string" where
  "toLowerCase s =
     map (\<lambda>c. if CHR ''A'' \<le> c \<and> c \<le> CHR ''Z'' then char_of (of_char c + (32::nat)) else c) s"

fun js_includes :: "string \<Rightarrow> string \<Rightarrow> bool" where
  "js_includes [] t = (t = [])"
| "js_includes (c # cs) t = (prefix t (c # cs) \<or> js_includes cs t)"

definition startsWith :: "string \<Rightarrow> string \<Rightarrow> bool" where
  "startsWith s t = prefix t s"

text \<open>
  A \<open>let\<close> binding of a block is uninitialised from the start of the block to its
  declaration; reading it there throws.
\<close>

datatype 'a binding = Uninitialized | Initialized 'a

definition read_binding :: "string \<Rightarrow> 'a binding \<Rightarrow> 'a result" where
  "read_binding name b =
     (case b of
        Uninitialized \<Rightarrow>
          Inl (ReferenceError (''Cannot access '' @ [CHR 0x27] @ name @ [CHR 0x27]
                               @ '' before initialization''))
      | Initialized v \<Rightarrow> Inr v)"

definition exn_message :: "exn \<Rightarrow> string" where
  "exn_message e = (case e of ReferenceError m \<Rightarrow> m | TypeError m \<Rightarrow> m | Failure m \<Rightarrow> m)"

section \<open>Device fingerprints (src/unnamed/part_004)\<close>

definition getProp :: "(string \<times> jsval) list \<Rightarrow> string \<Rightarrow> jsval" where
  "getProp obj k = (case map_of obj k of Some v \<Rightarrow> v | None \<Rightarrow> JUndefined)"

definition clientIp :: "request \<Rightarrow> string" where
  "clientIp req = str_or (req_headers req ''x-forwarded-for'') (req_remoteAddress req)"

definition fingerprintComponents ::
  "env \<Rightarrow> request \<Rightarrow> (string \<times> jsval) list \<Rightarrow> (string \<times> jsval) list" where
  "fingerprintComponents e req clientFingerprint =
     (let u = ua_parse e (req_headers req ''user-agent'');
          client = (\<lambda>k. js_or (getProp clientFingerprint k) (JStr []))
      in [(''userAgent'', JStr (str_or (req_headers req ''user-agent'') [])),
          (''ip'', JStr (str_or (Some (clientIp req)) [])),
          (''browser'', JStr (str_or (ua_browser_name u) [])),
          (''browserVersion'', JStr (str_or (ua_browser_version u) [])),
          (''engine'', JStr (str_or (ua_engine_name u) [])),
          (''os'', JStr (str_or (ua_os_name u) [])),
          (''osVersion'', JStr (str_or (ua_os_version u) [])),
          (''deviceType'', JStr (str_or (ua_device_type u) ''desktop'')),
          (''deviceVendor'', JStr (str_or (ua_device_vendor u) [])),
          (''deviceModel'', JStr (str_or (ua_device_model u) [])),
          (''cpu'', JStr (str_or (ua_cpu_architecture u) [])),
          (''acceptLanguage'', JStr (str_or (req_headers req ''accept-language'') [])),
          (''acceptEncoding'', JStr (str_or (req_headers req ''accept-encoding'') [])),
          (''accept'', JStr (str_or (req_headers req ''accept'') [])),
          (''screenResolution'', client ''screenResolution''),
          (''timezone'', client ''timezone''),
          (''timezoneOffset'', client ''timezoneOffset''),
          (''canvas'', client ''canvas''),
          (''webgl'', client ''webgl''),
          (''fonts'', client ''fonts''),
          (''plugins'', client ''plugins''),
          (''audioContext'', client ''audioContext''),
          (''platform'', client ''platform''),
          (''hardwareConcurrency'', client ''hardwareConcurrency''),
          (''deviceMemory'', client ''deviceMemory''),
          (''colorDepth'', client ''colorDepth''),
          (''pixelRatio'', client ''pixelRatio'')])"

text \<open>
  The keys are ASCII and no two of them first differ at letters of different case, so
  \<open>localeCompare\<close> orders them as the bytes do.
\<close>

definition fingerprintString :: "env \<Rightarrow> (string \<times> jsval) list \<Rightarrow> string" where
  "fingerprintString e components =
     join ''|'' (map (\<lambda>(k, v). k @ '':'' @ js_toString (numToString e) v)
       (sort_key fst components))"

record fp_metadata =
  browserInfo :: string
  osInfo :: string
  deviceInfo :: string
  fp_timestamp :: int

record fingerprint =
  fp_deviceId :: string
  fp_components :: "(string \<times> jsval) list"
  fp_meta :: fp_metadata

definition generateEnhancedFingerprint ::
  "env \<Rightarrow> request \<Rightarrow> (string \<times> jsval) list option \<Rightarrow> fingerprint" where
  "generateEnhancedFingerprint e req clientFingerprint =
     (let u = ua_parse e (req_headers req ''user-agent'');
          components = fingerprintComponents e req
            (case clientFingerprint of Some f \<Rightarrow> f | None \<Rightarrow> [])
      in \<lparr> fp_deviceId = sha256_hex e (fingerprintString e components),
           fp_components = components,
           fp_meta = \<lparr> browserInfo = opt_toString (ua_browser_name u) @ '' ''
                          @ opt_toString (ua_browser_version u),
                       osInfo = opt_toString (ua_os_name u) @ '' '' @ opt_toString (ua_os_version u),
                       deviceInfo = str_or (ua_device_type u) ''desktop'',
                       fp_timestamp = date_now e \<rparr> \<rparr>)"

text \<open>\<open>generateDeviceId\<close> of src/utils/generateDeviceId.js, the legacy controller's id.\<close>

definition generateDeviceId :: "env \<Rightarrow> string \<Rightarrow> string \<Rightarrow> string" where
  "generateDeviceId e userAgent ip = sha256_hex e (userAgent @ ip)"

record spoofAssessment =
  isSuspicious :: bool
  riskScore :: int
  warnings :: "string list"

definition automationSignals :: "string list" where
  "automationSignals =
     [''headless'', ''phantom'', ''selenium'', ''webdriver'',
      ''puppeteer'', ''playwright'', ''automation'']"

fun scanSignals :: "string \<Rightarrow> string list \<Rightarrow> string list \<times> int \<Rightarrow> string list \<times> int" where
  "scanSignals uaLower [] acc = acc"
| "scanSignals uaLower (signal # rest) (ws, risk) =
     scanSignals uaLower rest
       (if js_includes uaLower signal
        then (ws @ [''Automation detected: '' @ signal], risk + 50)
        else (ws, risk))"

definition platformMismatch :: "string \<Rightarrow> string \<Rightarrow> bool" where
  "platformMismatch platform os =
     ((js_includes platform ''win'' \<and> \<not> js_includes os ''windows'')
      \<or> (js_includes platform ''mac'' \<and> \<not> js_includes os ''mac'')
      \<or> (js_includes platform ''linux'' \<and> \<not> js_includes os ''linux''))"

text \<open>The last check of \<open>detectSpoofing\<close> and its result.\<close>

definition clientSideCheck :: "(string \<times> jsval) list \<Rightarrow> string list \<times> int \<Rightarrow> spoofAssessment" where
  "clientSideCheck components acc =
     (let (ws, risk) =
            (if \<not> truthy (getProp components ''canvas'')
                \<and> \<not> truthy (getProp components ''webgl'')
                \<and> \<not> truthy (getProp components ''fonts'')
             then (fst acc @ [''No client-side fingerprint provided''], snd acc + 40)
             else acc)
      in \<lparr> isSuspicious = risk > 50, riskScore = min 100 risk, warnings = ws \<rparr>)"

text \<open>
  \<open>toLowerCase\<close> is called on \<open>components.userAgent\<close>, and on the platform and the
  operating system when both are truthy; on a value that is not a string the call
  throws, whatever the checks before it added.
\<close>

definition detectSpoofing :: "(string \<times> jsval) list \<Rightarrow> spoofAssessment result" where
  "detectSpoofing components =
     (case getProp components ''userAgent'' of
        JStr userAgent \<Rightarrow>
          (let acc1 = (if \<not> truthy (JStr userAgent) \<or> length userAgent < 20
                       then ([''Suspicious user agent''], 30) else ([], 0));
               acc2 = scanSignals (toLowerCase userAgent) automationSignals acc1;
               platform = getProp components ''platform'';
               os = getProp components ''os''
           in if truthy platform \<and> truthy os
              then (case platform of
                      JStr p \<Rightarrow>
                        (case os of
                           JStr os' \<Rightarrow>
                             Inr (clientSideCheck components
                               (if platformMismatch (toLowerCase p) (toLowerCase os')
                                then (fst acc2 @ [''Platform-OS mismatch''], snd acc2 + 25)
                                else acc2))
                         | _ \<Rightarrow> Inl (TypeError ''os.toLowerCase is not a function''))
                    | _ \<Rightarrow> Inl (TypeError ''platform.toLowerCase is not a function''))
              else Inr (clientSideCheck components acc2))
      | _ \<Rightarrow> Inl (TypeError ''userAgent.toLowerCase is not a function''))"

subsection \<open>The additive rule of the specification\<close>

text \<open>
  Not code of the repository: the risk as the specification words it, for a given list
  of automation tokens. 30 for a user agent shorter than 20 characters, 50 for each
  token the lower-cased user agent contains, 25 when platform and operating system are
  both given and inconsistent, 40 when canvas, webgl and fonts are all missing.
  \<open>claimedAutomationTokens\<close> are the six tokens the specification lists.
\<close>

definition additiveRisk :: "string list \<Rightarrow> (string \<times> jsval) list \<Rightarrow> int" where
  "additiveRisk tokens components =
     (case getProp components ''userAgent'' of
        JStr s \<Rightarrow>
          (if length s < 20 then 30 else 0)
          + 50 * int (length (filter (js_includes (toLowerCase s)) tokens))
          + (case (getProp components ''platform'', getProp components ''os'') of
               (JStr p, JStr os') \<Rightarrow>
                 (if p \<noteq> [] \<and> os' \<noteq> [] \<and> platformMismatch (toLowerCase p) (toLowerCase os')
                  then 25 else 0)
             | _ \<Rightarrow> 0)
          + (if \<not> truthy (getProp components ''canvas'')
                \<and> \<not> truthy (getProp components ''webgl'')
                \<and> \<not> truthy (getProp components ''fonts'')
             then 40 else 0)
      | _ \<Rightarrow> 0)"


section \<open>The keyed store and the documents\<close>

record location =
  loc_country :: string
  loc_city :: string
  loc_lat :: real
  loc_lon :: real
  loc_timestamp :: int

text \<open>The optional fourth argument of \<open>createSession\<close>, as the login handler fills it.\<close>

record metadata =
  md_ipAddress :: "string option"
  md_userAgent :: "string option"
  md_trustScore :: "int option"
  md_location :: "location option"

record session =
  s_token :: string
  s_deviceId :: string
  s_userId :: string
  s_createdAt :: int
  s_lastActivity :: int
  s_ipAddress :: "string option"
  s_userAgent :: "string option"
  s_trustScore :: "int option"
  s_location :: "location option"

record user =
  u_id :: string
  u_email :: string
  u_password :: string
  u_plan :: string
  u_otp :: "string option"
  u_otpExpiry :: "int option"

record device =
  d_userId :: string
  d_deviceId :: string
  d_userAgent :: "string option"
  d_ipAddress :: "string option"
  d_trusted :: bool
  d_lastLogin :: int
  d_createdAt :: int

record db_session =
  ds_userId :: string
  ds_deviceId :: string
  ds_token :: string
  ds_isActive :: bool
  ds_createdAt :: int

record trustCache =
  tc_score :: int
  tc_factors :: "(string \<times> int) list"
  tc_timestamp :: int

record historyEntry =
  lh_deviceId :: string
  lh_country :: string
  lh_city :: string
  lh_ip :: string
  lh_timestamp :: int

record alert =
  al_ruleId :: string
  al_ruleName :: string
  al_severity :: string
  al_message :: string
  al_timestamp :: int
  al_userId :: string
  al_email :: string
  al_deviceId :: string
  al_ipAddress :: "string option"
  al_location :: "location option"

record flagData =
  fl_reason :: string
  fl_severity :: string
  fl_timestamp :: int

text \<open>
  Calls that leave the process and writes that create or delete a session key, in the
  order in which they are made.
\<close>

datatype call =
  EmailAlert string
  | SlackAlert string
  | OtpEmail string string
  | SessionCreated string string
  | SessionDeleted string string

text \<open>
  The store is Redis. A key \<open>session:u:d\<close> is the pair \<open>(u, d)\<close>; a set such as
  \<open>user:u:sessions\<close> is a duplicate-free list in insertion order. Expiry of keys is
  not modelled: an expired key is an absent key of the state an operation starts from.
  The documents are the MongoDB collections: users by their unique email, devices and
  the backup copies of the sessions in insertion order.
\<close>

record world =
  kv_sessions :: "(string \<times> string) \<rightharpoonup> session"
  kv_user_sessions :: "string \<Rightarrow> string list"
  kv_blocked :: "string \<rightharpoonup> nat"
  kv_last_location :: "string \<rightharpoonup> location"
  kv_location_history :: "string \<Rightarrow> historyEntry list"
  kv_login_count :: "string \<rightharpoonup> int"
  kv_failed_attempts :: "string \<rightharpoonup> int"
  kv_countries :: "string \<Rightarrow> string list"
  kv_device_users :: "string \<Rightarrow> string list"
  kv_trust :: "(string \<times> string) \<rightharpoonup> trustCache"
  kv_alerts :: "int \<rightharpoonup> alert"
  kv_alerts_sorted :: "int list"
  kv_flagged :: "string \<rightharpoonup> flagData"
  kv_flagged_users :: "string list"
  db_users :: "string \<rightharpoonup> user"
  db_devices :: "device list"
  db_sessions :: "db_session list"
  calls :: "call list"
  console :: "string list"

definition sadd :: "string list \<Rightarrow> string \<Rightarrow> string list" where
  "sadd members x = (if x \<in> set members then members else members @ [x])"

definition srem :: "string list \<Rightarrow> string \<Rightarrow> string list" where
  "srem members x = filter (\<lambda>y. y \<noteq> x) members"

subsection \<open>sessionHelpers (src/config/redis.js)\<close>

definition createSession ::
  "int \<Rightarrow> string \<Rightarrow> string \<Rightarrow> string \<Rightarrow> metadata \<Rightarrow> world \<Rightarrow> session \<times> world" where
  "createSession now userId deviceId token md w =
     (let sessionData = \<lparr> s_token = token, s_deviceId = deviceId, s_userId = userId,
            s_createdAt = now, s_lastActivity = now,
            s_ipAddress = md_ipAddress md, s_userAgent = md_userAgent md,
            s_trustScore = md_trustScore md, s_location = md_location md \<rparr>
      in (sessionData,
          w\<lparr> kv_sessions := (kv_sessions w)((userId, deviceId) \<mapsto> sessionData),
             kv_user_sessions := (kv_user_sessions w)
               (userId := sadd (kv_user_sessions w userId) deviceId),
             calls := calls w @ [SessionCreated userId deviceId] \<rparr>))"

definition getSession :: "string \<Rightarrow> string \<Rightarrow> world \<Rightarrow> session option" where
  "getSession userId deviceId w = kv_sessions w (userId, deviceId)"

definition deleteSession :: "string \<Rightarrow> string \<Rightarrow> world \<Rightarrow> world" where
  "deleteSession userId deviceId w =
     w\<lparr> kv_sessions := (kv_sessions w)((userId, deviceId) := None),
        kv_user_sessions := (kv_user_sessions w)
          (userId := srem (kv_user_sessions w userId) deviceId),
        calls := calls w @ [SessionDeleted userId deviceId] \<rparr>"

text \<open>The loop of \<open>getUserSessions\<close>: stale members of the index are removed on the way.\<close>

fun collectSessions ::
  "string \<Rightarrow> string list \<Rightarrow> session list \<Rightarrow> world \<Rightarrow> session list \<times> world" where
  "collectSessions userId [] sessions w = (sessions, w)"
| "collectSessions userId (deviceId # rest) sessions w =
     (case getSession userId deviceId w of
        Some session \<Rightarrow> collectSessions userId rest (sessions @ [session]) w
      | None \<Rightarrow> collectSessions userId rest sessions
          (w\<lparr> kv_user_sessions := (kv_user_sessions w)
               (userId := srem (kv_user_sessions w userId) deviceId) \<rparr>))"

definition getUserSessions :: "string \<Rightarrow> world \<Rightarrow> session list \<times> world" where
  "getUserSessions userId w =
     (let (sessions, w') = collectSessions userId (kv_user_sessions w userId) [] w
      in (sort_key s_createdAt sessions, w'))"

definition updateActivity :: "int \<Rightarrow> string \<Rightarrow> string \<Rightarrow> world \<Rightarrow> world" where
  "updateActivity now userId deviceId w =
     (case getSession userId deviceId w of
        Some session \<Rightarrow>
          w\<lparr> kv_sessions := (kv_sessions w)
               ((userId, deviceId) \<mapsto> session\<lparr> s_lastActivity := now \<rparr>) \<rparr>
      | None \<Rightarrow> w)"

definition validateSession :: "string \<Rightarrow> string \<Rightarrow> string \<Rightarrow> world \<Rightarrow> bool" where
  "validateSession userId deviceId token w =
     (case getSession userId deviceId w of
        Some session \<Rightarrow> s_token session = token
      | None \<Rightarrow> False)"

section \<open>Blocking and device counters (src/middleware/rateLimiter.js)\<close>

definition blockUser :: "string \<Rightarrow> nat \<Rightarrow> world \<Rightarrow> world" where
  "blockUser userId durationSeconds w =
     w\<lparr> kv_blocked := (kv_blocked w)(userId \<mapsto> durationSeconds) \<rparr>"

definition checkUserBlocked :: "string \<Rightarrow> world \<Rightarrow> bool" where
  "checkUserBlocked userId w = (kv_blocked w userId \<noteq> None)"

definition incr :: "int option \<Rightarrow> int" where
  "incr v = (case v of Some c \<Rightarrow> c + 1 | None \<Rightarrow> 1)"

definition incrementLoginCount :: "string \<Rightarrow> world \<Rightarrow> world" where
  "incrementLoginCount deviceId w =
     w\<lparr> kv_login_count := (kv_login_count w)(deviceId \<mapsto> incr (kv_login_count w deviceId)) \<rparr>"

definition recordFailedAttempt :: "string \<Rightarrow> world \<Rightarrow> world" where
  "recordFailedAttempt deviceId w =
     w\<lparr> kv_failed_attempts :=
          (kv_failed_attempts w)(deviceId \<mapsto> incr (kv_failed_attempts w deviceId)) \<rparr>"

definition trackDeviceUser :: "string \<Rightarrow> string \<Rightarrow> world \<Rightarrow> world" where
  "trackDeviceUser deviceId userId w =
     w\<lparr> kv_device_users :=
          (kv_device_users w)(deviceId := sadd (kv_device_users w deviceId) userId) \<rparr>"

definition Device_findOne :: "string \<Rightarrow> string \<Rightarrow> world \<Rightarrow> device option" where
  "Device_findOne userId deviceId w =
     find (\<lambda>x. d_userId x = userId \<and> d_deviceId x = deviceId) (db_devices w)"

section \<open>The trust score (class DeviceTrustScorer, src/middleware/rateLimiter.js)\<close>

definition getLoginFrequencyScore :: "string \<Rightarrow> world \<Rightarrow> int" where
  "getLoginFrequencyScore deviceId w =
     (let count = (case kv_login_count w deviceId of Some c \<Rightarrow> c | None \<Rightarrow> 0)
      in if count \<ge> 50 then 20
         else if count \<ge> 30 then 15
         else if count \<ge> 15 then 10
         else if count \<ge> 5 then 5
         else 0)"

definition getDeviceAgeScore :: "env \<Rightarrow> string \<Rightarrow> string \<Rightarrow> world \<Rightarrow> int" where
  "getDeviceAgeScore e userId deviceId w =
     (case Device_findOne userId deviceId w of
        None \<Rightarrow> 0
      | Some dev \<Rightarrow>
          (let ageInDays = real_of_int (date_now e - d_createdAt dev) / (1000 * 60 * 60 * 24)
           in if ageInDays \<ge> 180 then 15
              else if ageInDays \<ge> 90 then 12
              else if ageInDays \<ge> 30 then 8
              else if ageInDays \<ge> 7 then 4
              else 0))"

definition getGeoConsistencyScore :: "env \<Rightarrow> string \<Rightarrow> string \<Rightarrow> world \<Rightarrow> int \<times> world" where
  "getGeoConsistencyScore e deviceId ipAddress w =
     (case geoip_lookup e ipAddress of
        None \<Rightarrow> (0, w)
      | Some g \<Rightarrow>
          (let countries = kv_countries w deviceId;
               added = w\<lparr> kv_countries :=
                          (kv_countries w)(deviceId := sadd countries (geo_country g)) \<rparr>
           in if length countries = 0 then (10, added)
              else if geo_country g \<in> set countries
              then (if length countries = 1 then 25
                    else if length countries = 2 then 15
                    else 5, w)
              else (if length countries > 3 then - 10 else 0, added)))"

definition getFailedAttemptsScore :: "string \<Rightarrow> world \<Rightarrow> int" where
  "getFailedAttemptsScore deviceId w =
     (let failures = (case kv_failed_attempts w deviceId of Some c \<Rightarrow> c | None \<Rightarrow> 0)
      in if failures = 0 then 0
         else if failures \<le> 2 then - 5
         else if failures \<le> 5 then - 15
         else - 30)"

definition getSuspiciousHoursScore :: "env \<Rightarrow> int" where
  "getSuspiciousHoursScore e =
     (let hour = date_hours e in if hour \<ge> 2 \<and> hour \<le> 6 then - 10 else 0)"

definition getDeviceSharingScore :: "string \<Rightarrow> world \<Rightarrow> int" where
  "getDeviceSharingScore deviceId w =
     (let users = kv_device_users w deviceId
      in if length users \<le> 1 then 0
         else if length users = 2 then - 10
         else - 25)"

fun scanRanges :: "string \<Rightarrow> string list \<Rightarrow> int" where
  "scanRanges ipAddress [] = 0"
| "scanRanges ipAddress (r # rest) =
     (if startsWith ipAddress r then - 15 else scanRanges ipAddress rest)"

definition getVPNScore :: "string \<Rightarrow> int" where
  "getVPNScore ipAddress = scanRanges ipAddress [''10.'', ''172.16.'', ''192.168.'']"

definition getTrustLevel :: "int \<Rightarrow> string" where
  "getTrustLevel score =
     (if score \<ge> 80 then ''HIGH''
      else if score \<ge> 60 then ''MEDIUM''
      else if score \<ge> 40 then ''LOW''
      else ''CRITICAL'')"

definition storeTrustScore ::
  "env \<Rightarrow> string \<Rightarrow> string \<Rightarrow> int \<Rightarrow> (string \<times> int) list \<Rightarrow> world \<Rightarrow> world" where
  "storeTrustScore e userId deviceId score factors w =
     w\<lparr> kv_trust := (kv_trust w)((userId, deviceId) \<mapsto>
          \<lparr> tc_score = score, tc_factors = factors, tc_timestamp = date_now e \<rparr>) \<rparr>"

record trustScore =
  ts_score :: int
  ts_level :: string
  ts_factors :: "(string \<times> int) list"
  ts_timestamp :: int

text \<open>
  The seven sub-scores are integers, so the sum is one and \<open>Math.round\<close> returns it
  as it is.
\<close>

definition calculateTrustScore ::
  "env \<Rightarrow> string \<Rightarrow> string \<Rightarrow> string \<Rightarrow> world \<Rightarrow> trustScore \<times> world" where
  "calculateTrustScore e userId deviceId ipAddress w =
     (let score0 = 50;
          frequencyScore = getLoginFrequencyScore deviceId w;
          score1 = score0 + frequencyScore;
          ageScore = getDeviceAgeScore e userId deviceId w;
          score2 = score1 + ageScore;
          (geoScore, w1) = getGeoConsistencyScore e deviceId ipAddress w;
          score3 = score2 + geoScore;
          failedScore = getFailedAttemptsScore deviceId w1;
          score4 = score3 + failedScore;
          hoursScore = getSuspiciousHoursScore e;
          score5 = score4 + hoursScore;
          sharingScore = getDeviceSharingScore deviceId w1;
          score6 = score5 + sharingScore;
          vpnScore = getVPNScore ipAddress;
          score7 = score6 + vpnScore;
          factors = [(''Login Frequency'', frequencyScore), (''Device Age'', ageScore),
                     (''Geo Consistency'', geoScore), (''Failed Attempts'', failedScore),
                     (''Login Hours'', hoursScore), (''Device Sharing'', sharingScore),
                     (''VPN Usage'', vpnScore)];
          score = max 0 (min 100 score7);
          w2 = storeTrustScore e userId deviceId score factors w1
      in (\<lparr> ts_score = score, ts_level = getTrustLevel score, ts_factors = factors,
             ts_timestamp = date_now e \<rparr>, w2))"

section \<open>Geographic impossibility (src/utils/geoDetection.js)\<close>

text \<open>
  A number of the language is a double: \<open>NaN\<close> or a finite value, which is a real number
  here. Infinities and the sign of zero are left out; no operation below overflows on
  coordinates in degrees. Every arithmetic operation rounds its exact result with \<open>fl\<close>
  of the environment, in the order in which the source evaluates it. \<open>Math.sqrt\<close> of a
  negative number is \<open>NaN\<close>, an operation on \<open>NaN\<close> is \<open>NaN\<close>, a comparison with \<open>NaN\<close>
  is false and \<open>NaN.toFixed(n)\<close> is the string \<open>NaN\<close>. Coordinates and timestamps are
  finite.
\<close>

datatype double = NaN | Finite real

fun js_less :: "double \<Rightarrow> double \<Rightarrow> bool" where
  "js_less (Finite x) (Finite y) = (x < y)"
| "js_less _ _ = False"

definition number_toFixed :: "env \<Rightarrow> double \<Rightarrow> nat \<Rightarrow> string" where
  "number_toFixed e d n = (case d of NaN \<Rightarrow> ''NaN'' | Finite x \<Rightarrow> toFixed e x n)"

text \<open>What \<open>Math.atan2\<close> approximates.\<close>

definition atan2 :: "real \<Rightarrow> real \<Rightarrow> real" where
  "atan2 y x =
     (if x > 0 then arctan (y / x)
      else if x < 0 then (if y \<ge> 0 then arctan (y / x) + pi else arctan (y / x) - pi)
      else if y > 0 then pi / 2
      else if y < 0 then - (pi / 2)
      else 0)"

definition Math_sqrt :: "env \<Rightarrow> real \<Rightarrow> double" where
  "Math_sqrt e x = (if x < 0 then NaN else Finite (fl e (sqrt x)))"

definition toRad :: "env \<Rightarrow> real \<Rightarrow> real" where
  "toRad e deg = fl e (deg * fl e (Math_PI e / 180))"

text \<open>The value \<open>a\<close> of \<open>calculateDistance\<close>, the square of the sine of half the angle.\<close>

definition calculateDistance_a :: "env \<Rightarrow> real \<Rightarrow> real \<Rightarrow> real \<Rightarrow> real \<Rightarrow> real" where
  "calculateDistance_a e lat1 lon1 lat2 lon2 =
     (let dLat = toRad e (fl e (lat2 - lat1));
          dLon = toRad e (fl e (lon2 - lon1))
      in fl e (fl e (Math_sin e (fl e (dLat / 2)) * Math_sin e (fl e (dLat / 2)))
               + fl e (fl e (fl e (Math_cos e (toRad e lat1) * Math_cos e (toRad e lat2))
                             * Math_sin e (fl e (dLon / 2)))
                       * Math_sin e (fl e (dLon / 2)))))"

definition calculateDistance :: "env \<Rightarrow> real \<Rightarrow> real \<Rightarrow> real \<Rightarrow> real \<Rightarrow> double" where
  "calculateDistance e lat1 lon1 lat2 lon2 =
     (let R = 6371;
          a = calculateDistance_a e lat1 lon1 lat2 lon2
      in case (Math_sqrt e a, Math_sqrt e (fl e (1 - a))) of
           (Finite y, Finite x) \<Rightarrow> Finite (fl e (R * fl e (2 * Math_atan2 e y x)))
         | _ \<Rightarrow> NaN)"

definition getMinTravelTime :: "env \<Rightarrow> double \<Rightarrow> double" where
  "getMinTravelTime e distanceKm =
     (let avgFlightSpeed = 900
      in case distanceKm of
           NaN \<Rightarrow> NaN
         | Finite d \<Rightarrow> Finite (fl e (fl e (fl e (d / avgFlightSpeed) * 3600) * 1000)))"

record geoCheck =
  gc_isImpossible :: bool
  gc_reason :: string
  gc_riskScore :: int
  gc_currentLocation :: "location option"
  gc_lastLocation :: "location option"
  gc_distance :: "string option"
  gc_timeDiff :: "string option"

definition arrow :: string where
  "arrow = [char_of (226::nat), char_of (134::nat), char_of (146::nat)]"

definition checkGeoImpossibility :: "env \<Rightarrow> string \<Rightarrow> string \<Rightarrow> world \<Rightarrow> geoCheck \<times> world" where
  "checkGeoImpossibility e userId ipAddress w =
     (case geoip_lookup e ipAddress of
        None \<Rightarrow>
          (\<lparr> gc_isImpossible = False, gc_reason = ''Could not determine location'',
             gc_riskScore = 0, gc_currentLocation = None, gc_lastLocation = None,
             gc_distance = None, gc_timeDiff = None \<rparr>, w)
      | Some g \<Rightarrow>
          (let currentLocation =
                 \<lparr> loc_country = geo_country g, loc_city = geo_city g,
                   loc_lat = fst (geo_ll g), loc_lon = snd (geo_ll g),
                   loc_timestamp = date_now e \<rparr>;
               updated = w\<lparr> kv_last_location :=
                            (kv_last_location w)(userId \<mapsto> currentLocation) \<rparr>
           in case kv_last_location w userId of
                None \<Rightarrow>
                  (\<lparr> gc_isImpossible = False, gc_reason = ''First location recorded'',
                     gc_riskScore = 0, gc_currentLocation = Some currentLocation,
                     gc_lastLocation = None, gc_distance = None, gc_timeDiff = None \<rparr>,
                   updated)
              | Some lastLocation \<Rightarrow>
                  (let distance = calculateDistance e (loc_lat lastLocation) (loc_lon lastLocation)
                         (loc_lat currentLocation) (loc_lon currentLocation);
                       timeDiff = loc_timestamp currentLocation - loc_timestamp lastLocation;
                       minTravelTime = getMinTravelTime e distance;
                       isImpossible = (js_less (Finite (real_of_int timeDiff)) minTravelTime
                                       \<and> js_less (Finite 500) distance);
                       minutes = toFixed e (fl e (real_of_int timeDiff / 60000)) 0;
                       (risk, reason) =
                         (if isImpossible
                          then (95, ''Impossible travel: '' @ number_toFixed e distance 0 @ ''km in ''
                                    @ minutes @ '' minutes'')
                          else if js_less (Finite 3000) distance \<and> timeDiff < 3600000
                          then (75, ''Suspicious: Long distance travel in short time'')
                          else if loc_country lastLocation \<noteq> loc_country currentLocation
                          then (40, ''Country changed: '' @ loc_country lastLocation @ '' ''
                                    @ arrow @ '' '' @ loc_country currentLocation)
                          else if js_less (Finite 100) distance
                          then (20, ''Location changed by '' @ number_toFixed e distance 0 @ ''km'')
                          else (0, []))
                   in (\<lparr> gc_isImpossible = isImpossible, gc_reason = reason,
                          gc_riskScore = risk, gc_currentLocation = Some currentLocation,
                          gc_lastLocation = Some lastLocation,
                          gc_distance = Some (number_toFixed e distance 2),
                          gc_timeDiff = Some minutes \<rparr>, updated))))"

definition storeLocationHistory :: "env \<Rightarrow> string \<Rightarrow> string \<Rightarrow> string \<Rightarrow> world \<Rightarrow> world" where
  "storeLocationHistory e userId ipAddress deviceId w =
     (case geoip_lookup e ipAddress of
        None \<Rightarrow> w
      | Some g \<Rightarrow>
          (let locationData =
                 \<lparr> lh_deviceId = deviceId, lh_country = geo_country g, lh_city = geo_city g,
                   lh_ip = ipAddress, lh_timestamp = date_now e \<rparr>
           in w\<lparr> kv_location_history := (kv_location_history w)
                  (userId := take 50 (locationData # kv_location_history w userId)) \<rparr>))"

subsection \<open>The arithmetic the check relies on\<close>

text \<open>
  The next four definitions are not code of the repository. \<open>accurate\<close> says what the
  check needs of the arithmetic: one operation on a value of magnitude at most one
  thousand million is off by at most one millionth and keeps a non-negative result
  non-negative, and the functions of \<open>Math\<close> are off by at most one millionth on the
  arguments that occur. Double precision with round-to-nearest is far inside these
  bounds. \<open>exact\<close> is the arithmetic without any rounding, and \<open>haversine\<close> is the
  great-circle distance of the haversine formula, in kilometres on a sphere of radius
  6371, which the comment of \<open>calculateDistance\<close> names.
\<close>

definition accurate :: "env \<Rightarrow> bool" where
  "accurate e \<longleftrightarrow>
     (\<forall>x. \<bar>x\<bar> \<le> 1000000000 \<longrightarrow> \<bar>fl e x - x\<bar> \<le> 1 / 1000000)
     \<and> (\<forall>x. 0 \<le> x \<longrightarrow> 0 \<le> fl e x)
     \<and> \<bar>Math_PI e - pi\<bar> \<le> 1 / 1000000
     \<and> (\<forall>x. \<bar>x\<bar> \<le> 10 \<longrightarrow> \<bar>Math_sin e x - sin x\<bar> \<le> 1 / 1000000)
     \<and> (\<forall>x. \<bar>x\<bar> \<le> 10 \<longrightarrow> \<bar>Math_cos e x - cos x\<bar> \<le> 1 / 1000000)
     \<and> (\<forall>y x. 0 \<le> y \<and> 0 \<le> x \<longrightarrow> \<bar>Math_atan2 e y x - atan2 y x\<bar> \<le> 1 / 1000000)"

definition exact :: "env \<Rightarrow> bool" where
  "exact e \<longleftrightarrow>
     fl e = (\<lambda>x. x) \<and> Math_PI e = pi \<and> Math_sin e = sin \<and> Math_cos e = cos
     \<and> Math_atan2 e = atan2"

definition haversine_a :: "real \<Rightarrow> real \<Rightarrow> real \<Rightarrow> real \<Rightarrow> real" where
  "haversine_a lat1 lon1 lat2 lon2 =
     (sin ((lat2 - lat1) * pi / 180 / 2))\<^sup>2
     + cos (lat1 * pi / 180) * cos (lat2 * pi / 180) * (sin ((lon2 - lon1) * pi / 180 / 2))\<^sup>2"


section \<open>The alert rules engine (src/utils/alertRulesEngine.js)\<close>

text \<open>
  An asynchronous call takes the state and either returns a value or throws, leaving
  the state as it was when it threw. \<open>bindE\<close> is \<open>await\<close> followed by the rest of the
  block: a thrown exception skips the rest. \<open>tryCatch\<close> is \<open>try { ... } catch (err) { ... }\<close>.
\<close>

type_synonym 'a io = "world \<Rightarrow> 'a result \<times> world"

definition returnE :: "'a \<Rightarrow> 'a io" where
  "returnE x = (\<lambda>w. (Inr x, w))"

definition throwE :: "exn \<Rightarrow> 'a io" where
  "throwE err = (\<lambda>w. (Inl err, w))"

definition bindE :: "'a io \<Rightarrow> ('a \<Rightarrow> 'b io) \<Rightarrow> 'b io" where
  "bindE m f = (\<lambda>w. case m w of (Inl err, w') \<Rightarrow> (Inl err, w') | (Inr x, w') \<Rightarrow> f x w')"

definition tryCatch :: "'a io \<Rightarrow> (exn \<Rightarrow> 'a io) \<Rightarrow> 'a io" where
  "tryCatch m handler =
     (\<lambda>w. case m w of (Inl err, w') \<Rightarrow> handler err w' | (Inr x, w') \<Rightarrow> (Inr x, w'))"

definition liftE :: "'a result \<Rightarrow> 'a io" where
  "liftE r = (\<lambda>w. (r, w))"

definition modify :: "(world \<Rightarrow> world) \<Rightarrow> unit io" where
  "modify f = (\<lambda>w. (Inr (), f w))"

definition console_line :: "string \<Rightarrow> unit io" where
  "console_line msg = modify (\<lambda>w. w\<lparr> console := console w @ [msg] \<rparr>)"

record alertContext =
  cx_userId :: string
  cx_email :: string
  cx_deviceId :: string
  cx_ipAddress :: string
  cx_geoCheck :: "geoCheck option"
  cx_trustScore :: int
  cx_location :: "location option"
  cx_isNewDevice :: bool
  cx_deviceUserCount :: "int option"
  cx_failedAttempts :: "int option"
  cx_activeSessions :: "int option"
  cx_maxSessions :: "int option"
  cx_isVPN :: "bool option"
  cx_locationChangeCount :: "int option"
  cx_passwordChanged :: "bool option"

record rule =
  r_id :: string
  r_name :: string
  r_condition :: "alertContext \<Rightarrow> bool result"
  r_severity :: string
  r_actions :: "string list"
  r_message :: "alertContext \<Rightarrow> string result"

text \<open>A comparison with \<open>undefined\<close> is false.\<close>

definition gt_num :: "int option \<Rightarrow> int option \<Rightarrow> bool" where
  "gt_num a b = (case (a, b) of (Some x, Some y) \<Rightarrow> x > y | _ \<Rightarrow> False)"

definition ge_num :: "int option \<Rightarrow> int option \<Rightarrow> bool" where
  "ge_num a b = (case (a, b) of (Some x, Some y) \<Rightarrow> x \<ge> y | _ \<Rightarrow> False)"

definition num_toString :: "env \<Rightarrow> int option \<Rightarrow> string" where
  "num_toString e a =
     (case a of Some x \<Rightarrow> numToString e (real_of_int x) | None \<Rightarrow> ''undefined'')"

definition rules :: "env \<Rightarrow> rule list" where
  "rules e =
     [\<lparr> r_id = ''geo_impossibility'',
        r_name = ''Geographic Impossibility Detected'',
        r_condition = (\<lambda>c. Inr (case cx_geoCheck c of
                                  Some g \<Rightarrow> gc_isImpossible g = True | None \<Rightarrow> False)),
        r_severity = ''CRITICAL'',
        r_actions = [''email'', ''slack'', ''block_session''],
        r_message = (\<lambda>c. case cx_geoCheck c of
            Some g \<Rightarrow> Inr (''User '' @ cx_email c
                        @ '' attempted login from impossible location: '' @ gc_reason g)
          | None \<Rightarrow> Inl (TypeError ''Cannot read properties of undefined'')) \<rparr>,
      \<lparr> r_id = ''trust_score_critical'',
        r_name = ''Critical Trust Score'',
        r_condition = (\<lambda>c. Inr (cx_trustScore c < 40)),
        r_severity = ''HIGH'',
        r_actions = [''email'', ''slack''],
        r_message = (\<lambda>c. Inr (''User '' @ cx_email c @ '' has critical trust score: ''
                        @ num_toString e (Some (cx_trustScore c)) @ ''/100'')) \<rparr>,
      \<lparr> r_id = ''device_sharing'',
        r_name = ''Device Sharing Detected'',
        r_condition = (\<lambda>c. Inr (gt_num (cx_deviceUserCount c) (Some 2))),
        r_severity = ''MEDIUM'',
        r_actions = [''email'', ''flag''],
        r_message = (\<lambda>c. Inr (''Device '' @ take 8 (cx_deviceId c) @ '' is being used by ''
                        @ num_toString e (cx_deviceUserCount c) @ '' accounts'')) \<rparr>,
      \<lparr> r_id = ''multiple_failed_logins'',
        r_name = ''Multiple Failed Login Attempts'',
        r_condition = (\<lambda>c. Inr (ge_num (cx_failedAttempts c) (Some 5))),
        r_severity = ''HIGH'',
        r_actions = [''email'', ''temporary_block''],
        r_message = (\<lambda>c. Inr (''User '' @ cx_email c @ '' has ''
                        @ num_toString e (cx_failedAttempts c) @ '' failed login attempts'')) \<rparr>,
      \<lparr> r_id = ''session_limit_exceeded'',
        r_name = ''Session Limit Exceeded'',
        r_condition = (\<lambda>c. Inr (gt_num (cx_activeSessions c) (cx_maxSessions c))),
        r_severity = ''MEDIUM'',
        r_actions = [''email''],
        r_message = (\<lambda>c. Inr (''User '' @ cx_email c @ '' exceeded session limit: ''
                        @ num_toString e (cx_activeSessions c) @ ''/''
                        @ num_toString e (cx_maxSessions c))) \<rparr>,
      \<lparr> r_id = ''unusual_login_hours'',
        r_name = ''Login During Unusual Hours'',
        r_condition = (\<lambda>c. let hour = date_hours e in Inr (hour \<ge> 2 \<and> hour \<le> 5)),
        r_severity = ''LOW'',
        r_actions = [''log''],
        r_message = (\<lambda>c. Inr (''User '' @ cx_email c @ '' logged in at unusual hour: ''
                        @ date_localeTimeString e)) \<rparr>,
      \<lparr> r_id = ''vpn_detected'',
        r_name = ''VPN/Proxy Usage Detected'',
        r_condition = (\<lambda>c. Inr (cx_isVPN c = Some True)),
        r_severity = ''MEDIUM'',
        r_actions = [''email'', ''flag''],
        r_message = (\<lambda>c. Inr (''User '' @ cx_email c @ '' is using VPN/Proxy from ''
                        @ (case cx_location c of Some l \<Rightarrow> loc_country l
                           | None \<Rightarrow> ''undefined''))) \<rparr>,
      \<lparr> r_id = ''rapid_location_changes'',
        r_name = ''Rapid Location Changes'',
        r_condition = (\<lambda>c. Inr (gt_num (cx_locationChangeCount c) (Some 3))),
        r_severity = ''HIGH'',
        r_actions = [''email'', ''slack'', ''flag''],
        r_message = (\<lambda>c. Inr (''User '' @ cx_email c @ '' changed locations ''
                        @ num_toString e (cx_locationChangeCount c) @ '' times in 24h'')) \<rparr>,
      \<lparr> r_id = ''new_device_high_risk'',
        r_name = ''New Device from High-Risk Location'',
        r_condition = (\<lambda>c. Inr (cx_isNewDevice c \<and> cx_trustScore c < 50)),
        r_severity = ''MEDIUM'',
        r_actions = [''email''],
        r_message = (\<lambda>c. Inr (''New device detected for '' @ cx_email c
                        @ '' with low trust score: ''
                        @ num_toString e (Some (cx_trustScore c)) @ ''/100'')) \<rparr>,
      \<lparr> r_id = ''account_takeover_attempt'',
        r_name = ''Potential Account Takeover'',
        r_condition = (\<lambda>c. Inr (cx_passwordChanged c = Some True \<and> cx_trustScore c < 60)),
        r_severity = ''CRITICAL'',
        r_actions = [''email'', ''slack'', ''temporary_block''],
        r_message = (\<lambda>c. Inr (''Potential account takeover for '' @ cx_email c
                        @ '' - password changed with low trust score'')) \<rparr>]"

text \<open>
  What \<open>executeActions\<close> and \<open>evaluateRules\<close> call: the two alert channels, the session
  registry, the block list, and the engine's own \<open>flagUser\<close> and \<open>storeAlert\<close>. Each is a
  call that may throw, for instance when the store does not answer.
\<close>

record collaborators =
  c_sendEmailAlert :: "alert \<Rightarrow> alertContext \<Rightarrow> unit io"
  c_sendSlackAlert :: "alert \<Rightarrow> alertContext \<Rightarrow> unit io"
  c_deleteSession :: "string \<Rightarrow> string \<Rightarrow> unit io"
  c_blockUser :: "string \<Rightarrow> nat \<Rightarrow> unit io"
  c_flagUser :: "string \<Rightarrow> alert \<Rightarrow> unit io"
  c_storeAlert :: "alert \<Rightarrow> unit io"

definition executeAction ::
  "collaborators \<Rightarrow> string \<Rightarrow> alert \<Rightarrow> alertContext \<Rightarrow> unit io" where
  "executeAction col action al c =
     (if action = ''email'' then c_sendEmailAlert col al c
      else if action = ''slack'' then c_sendSlackAlert col al c
      else if action = ''block_session'' then c_deleteSession col (cx_userId c) (cx_deviceId c)
      else if action = ''temporary_block'' then c_blockUser col (cx_userId c) 3600
      else if action = ''flag'' then c_flagUser col (cx_userId c) al
      else if action = ''log'' then console_line (al_message al)
      else console_line (''Unknown action: '' @ action))"

fun executeActions ::
  "collaborators \<Rightarrow> string list \<Rightarrow> alert \<Rightarrow> alertContext \<Rightarrow> unit io" where
  "executeActions col [] al c = returnE ()"
| "executeActions col (action # rest) al c =
     bindE (tryCatch (executeAction col action al c)
              (\<lambda>err. console_line (''Error executing action '' @ action @ '': ''
                                    @ exn_message err)))
       (\<lambda>_. executeActions col rest al c)"

definition makeAlert :: "env \<Rightarrow> rule \<Rightarrow> alertContext \<Rightarrow> string \<Rightarrow> alert" where
  "makeAlert e r c msg =
     \<lparr> al_ruleId = r_id r, al_ruleName = r_name r, al_severity = r_severity r,
       al_message = msg, al_timestamp = date_now e, al_userId = cx_userId c,
       al_email = cx_email c, al_deviceId = cx_deviceId c,
       al_ipAddress = Some (cx_ipAddress c), al_location = cx_location c \<rparr>"

text \<open>The body of the \<open>try\<close> inside the loop of \<open>evaluateRules\<close>.\<close>

definition ruleBody ::
  "collaborators \<Rightarrow> env \<Rightarrow> rule \<Rightarrow> alertContext \<Rightarrow> alert list \<Rightarrow> alert list io" where
  "ruleBody col e r c triggeredAlerts =
     bindE (liftE (r_condition r c)) (\<lambda>holds.
       if holds
       then bindE (liftE (r_message r c)) (\<lambda>msg.
              let al = makeAlert e r c msg
              in bindE (executeActions col (r_actions r) al c) (\<lambda>_.
                 bindE (c_storeAlert col al) (\<lambda>_.
                 bindE (console_line (''Alert triggered: '' @ r_name r @ '' for ''
                                      @ cx_email c)) (\<lambda>_.
                 returnE (triggeredAlerts @ [al])))))
       else returnE triggeredAlerts)"

fun evaluateRulesFrom ::
  "collaborators \<Rightarrow> env \<Rightarrow> rule list \<Rightarrow> alertContext \<Rightarrow> alert list \<Rightarrow> alert list io" where
  "evaluateRulesFrom col e [] c triggeredAlerts = returnE triggeredAlerts"
| "evaluateRulesFrom col e (r # rest) c triggeredAlerts =
     bindE (tryCatch (ruleBody col e r c triggeredAlerts)
              (\<lambda>err. bindE (console_line (''Error evaluating rule '' @ r_id r @ '': ''
                                          @ exn_message err))
                        (\<lambda>_. returnE triggeredAlerts)))
       (\<lambda>triggered. evaluateRulesFrom col e rest c triggered)"

definition evaluateRules :: "collaborators \<Rightarrow> env \<Rightarrow> alertContext \<Rightarrow> alert list io" where
  "evaluateRules col e c = evaluateRulesFrom col e (rules e) c []"

subsection \<open>The collaborators of the running system\<close>

text \<open>
  \<open>sendEmailAlert\<close> and \<open>sendSlackAlert\<close> (src/utils) wrap their work in a
  \<open>try\<close> of their own and return in every case; what the model keeps of a call is that
  the alert was handed to the channel. The store answers every command.
\<close>

definition sendEmailAlert :: "alert \<Rightarrow> alertContext \<Rightarrow> unit io" where
  "sendEmailAlert al c = modify (\<lambda>w. w\<lparr> calls := calls w @ [EmailAlert (al_ruleId al)] \<rparr>)"

definition sendSlackAlert :: "alert \<Rightarrow> alertContext \<Rightarrow> unit io" where
  "sendSlackAlert al c = modify (\<lambda>w. w\<lparr> calls := calls w @ [SlackAlert (al_ruleId al)] \<rparr>)"

definition flagUser :: "env \<Rightarrow> string \<Rightarrow> alert \<Rightarrow> world \<Rightarrow> world" where
  "flagUser e userId al w =
     w\<lparr> kv_flagged := (kv_flagged w)(userId \<mapsto>
          \<lparr> fl_reason = al_message al, fl_severity = al_severity al,
            fl_timestamp = date_now e \<rparr>),
        kv_flagged_users := sadd (kv_flagged_users w) userId \<rparr>"

text \<open>
  The key of a stored alert is \<open>alerts:\<close> followed by the time; the sorted index keeps
  the 1000 keys of highest score.
\<close>

definition storeAlert :: "env \<Rightarrow> alert \<Rightarrow> world \<Rightarrow> world" where
  "storeAlert e al w =
     (let key = date_now e;
          indexed = (if key \<in> set (kv_alerts_sorted w) then kv_alerts_sorted w
                     else insort key (kv_alerts_sorted w))
      in w\<lparr> kv_alerts := (kv_alerts w)(key \<mapsto> al),
            kv_alerts_sorted := drop (length indexed - 1000) indexed \<rparr>)"

definition production :: "env \<Rightarrow> collaborators" where
  "production e =
     \<lparr> c_sendEmailAlert = sendEmailAlert,
       c_sendSlackAlert = sendSlackAlert,
       c_deleteSession = (\<lambda>userId deviceId. modify (deleteSession userId deviceId)),
       c_blockUser = (\<lambda>userId secs. modify (blockUser userId secs)),
       c_flagUser = (\<lambda>userId al. modify (flagUser e userId al)),
       c_storeAlert = (\<lambda>al. modify (storeAlert e al)) \<rparr>"

subsection \<open>What the engine does with these collaborators, in closed form\<close>

text \<open>
  The next three definitions are not code of the repository. They say what one action
  and one rule do to the state when the collaborators are the ones above, and serve to
  state and prove the properties of \<open>executeActions\<close> and \<open>evaluateRules\<close>.
\<close>

definition actionEffect :: "env \<Rightarrow> string \<Rightarrow> alert \<Rightarrow> alertContext \<Rightarrow> world \<Rightarrow> world" where
  "actionEffect e action al c w =
     (if action = ''email'' then w\<lparr> calls := calls w @ [EmailAlert (al_ruleId al)] \<rparr>
      else if action = ''slack'' then w\<lparr> calls := calls w @ [SlackAlert (al_ruleId al)] \<rparr>
      else if action = ''block_session'' then deleteSession (cx_userId c) (cx_deviceId c) w
      else if action = ''temporary_block'' then blockUser (cx_userId c) 3600 w
      else if action = ''flag'' then flagUser e (cx_userId c) al w
      else if action = ''log'' then w\<lparr> console := console w @ [al_message al] \<rparr>
      else w\<lparr> console := console w @ [''Unknown action: '' @ action] \<rparr>)"

definition ruleStep ::
  "env \<Rightarrow> rule \<Rightarrow> alertContext \<Rightarrow> alert list \<times> world \<Rightarrow> alert list \<times> world" where
  "ruleStep e r c state =
     (let failed = (\<lambda>err. (fst state,
            (snd state)\<lparr> console := console (snd state)
               @ [''Error evaluating rule '' @ r_id r @ '': '' @ exn_message err] \<rparr>))
      in case r_condition r c of
           Inl err \<Rightarrow> failed err
         | Inr holds \<Rightarrow>
             if holds
             then (case r_message r c of
                     Inl err \<Rightarrow> failed err
                   | Inr msg \<Rightarrow>
                       (let al = makeAlert e r c msg;
                            w1 = foldl (\<lambda>w a. actionEffect e a al c w) (snd state) (r_actions r);
                            w2 = storeAlert e al w1
                        in (fst state @ [al],
                            w2\<lparr> console := console w2
                               @ [''Alert triggered: '' @ r_name r @ '' for '' @ cx_email c] \<rparr>)))
             else state)"

fun isSessionDeleted :: "call \<Rightarrow> bool" where
  "isSessionDeleted (SessionDeleted u d) = True"
| "isSessionDeleted other = False"

definition geoRuleCall :: "call \<Rightarrow> bool" where
  "geoRuleCall x =
     (x = EmailAlert ''geo_impossibility'' \<or> x = SlackAlert ''geo_impossibility''
      \<or> isSessionDeleted x)"

section \<open>The login handler (exports.login, src/unnamed/part_001)\<close>

text \<open>
  Of what the handler writes to the console, the state records the line of its
  \<open>catch\<close>; its four informational lines (suspicious login, impossible travel, the
  trust score, the forced logout) are left out.
\<close>

definition getMaxSessions :: "string \<Rightarrow> nat" where
  "getMaxSessions plan =
     (if plan = ''BASIC'' then 1
      else if plan = ''STANDARD'' then 2
      else if plan = ''PREMIUM'' then 4
      else 1)"

text \<open>
  The copy of \<open>getMaxSessions\<close> in the older controller (src/unnamed/part_000) has no
  last \<open>return\<close>: for any other plan it returns \<open>undefined\<close>, here \<open>None\<close>.
\<close>

definition legacy_getMaxSessions :: "string \<Rightarrow> nat option" where
  "legacy_getMaxSessions plan =
     (if plan = ''BASIC'' then Some 1
      else if plan = ''STANDARD'' then Some 2
      else if plan = ''PREMIUM'' then Some 4
      else None)"

record loginSuccess =
  ok_token :: string
  ok_deviceId :: string
  ok_trustScore :: int
  ok_trustLevel :: string
  ok_activeSessions :: nat
  ok_maxSessions :: nat
  ok_metadata :: fp_metadata

text \<open>
  The responses of the handler: 400 invalid credentials, 403 suspicious activity with
  the warnings, 200 with \<open>otpRequired\<close> for an unusual location (with the reason) or a
  new device (with score and level), 200 login successful, and the 500 of the handler's
  \<open>catch\<close> with the message of the exception.
\<close>

datatype response =
  InvalidCredentials
  | SuspiciousActivity "string list"
  | OtpRequiredLocation string
  | OtpRequiredNewDevice int string
  | LoginSuccessful loginSuccess
  | LoginFailed string

fun status :: "response \<Rightarrow> nat" where
  "status InvalidCredentials = 400"
| "status (SuspiciousActivity ws) = 403"
| "status (OtpRequiredLocation reason) = 200"
| "status (OtpRequiredNewDevice score level) = 200"
| "status (LoginSuccessful ok) = 200"
| "status (LoginFailed details) = 500"

text \<open>
  Setting the one-time password on the user document, saving the document, mailing the
  password. The schema of src/models/User.js has no path \<open>otp\<close> or \<open>otpExpiry\<close>: the two
  assignments change the document in memory only, \<open>save()\<close> stores nothing, and the
  stored user stays as it was.
\<close>

definition issueOtp :: "env \<Rightarrow> user \<Rightarrow> world \<Rightarrow> world" where
  "issueOtp e usr w =
     (let otp = generateOTP e;
          usr' = usr\<lparr> u_otp := Some otp, u_otpExpiry := Some (date_now e + 5 * 60 * 1000) \<rparr>
      in w\<lparr> calls := calls w @ [OtpEmail (u_email usr') otp] \<rparr>)"

fun updateFirst :: "('a \<Rightarrow> bool) \<Rightarrow> ('a \<Rightarrow> 'a) \<Rightarrow> 'a list \<Rightarrow> 'a list" where
  "updateFirst p f [] = []"
| "updateFirst p f (x # xs) = (if p x then f x # xs else x # updateFirst p f xs)"

definition Device_create ::
  "env \<Rightarrow> string \<Rightarrow> string \<Rightarrow> string option \<Rightarrow> string \<Rightarrow> world \<Rightarrow> device \<times> world" where
  "Device_create e userId deviceId userAgent ipAddress w =
     (let dev = \<lparr> d_userId = userId, d_deviceId = deviceId, d_userAgent = userAgent,
                  d_ipAddress = Some ipAddress, d_trusted = True,
                  d_lastLogin = date_now e, d_createdAt = date_now e \<rparr>
      in (dev, w\<lparr> db_devices := db_devices w @ [dev] \<rparr>))"

definition Device_save :: "device \<Rightarrow> world \<Rightarrow> world" where
  "Device_save dev w =
     w\<lparr> db_devices := updateFirst
          (\<lambda>x. d_userId x = d_userId dev \<and> d_deviceId x = d_deviceId dev) (\<lambda>_. dev)
          (db_devices w) \<rparr>"

definition Session_deactivate :: "string \<Rightarrow> string \<Rightarrow> world \<Rightarrow> world" where
  "Session_deactivate userId deviceId w =
     w\<lparr> db_sessions := updateFirst
          (\<lambda>x. ds_userId x = userId \<and> ds_deviceId x = deviceId)
          (\<lambda>x. x\<lparr> ds_isActive := False \<rparr>) (db_sessions w) \<rparr>"

definition Session_create :: "env \<Rightarrow> string \<Rightarrow> string \<Rightarrow> string \<Rightarrow> world \<Rightarrow> world" where
  "Session_create e userId deviceId token w =
     w\<lparr> db_sessions := db_sessions w @
          [\<lparr> ds_userId = userId, ds_deviceId = deviceId, ds_token = token,
             ds_isActive = True, ds_createdAt = date_now e \<rparr>] \<rparr>"

text \<open>
  Steps 9 to 12 of the handler and its answer: the active sessions are read, the oldest
  is deleted when the plan's maximum is reached, then the token is signed and the new
  session is created.
\<close>

definition login_sessionEnforcement ::
  "env \<Rightarrow> request \<Rightarrow> user \<Rightarrow> fingerprint \<Rightarrow> string \<Rightarrow> geoCheck \<Rightarrow> trustScore \<Rightarrow> response io" where
  "login_sessionEnforcement e req usr fp ipAddress geoCk ts w =
     (let deviceId = fp_deviceId fp;
          (activeSessions, w1) = getUserSessions (u_id usr) w;
          maxSessions = getMaxSessions (u_plan usr)
      in case (if length activeSessions \<ge> maxSessions
               then (case activeSessions of
                       [] \<Rightarrow> Inl (TypeError ''Cannot read properties of undefined'')
                     | oldestSession # _ \<Rightarrow>
                         Inr (Session_deactivate (u_id usr) (s_deviceId oldestSession)
                                (deleteSession (u_id usr) (s_deviceId oldestSession) w1)))
               else Inr w1) of
           Inl err \<Rightarrow> (Inl err, w1)
         | Inr w2 \<Rightarrow>
             (let token = jwt_sign e (u_id usr, deviceId, u_email usr);
                  (created, w3) = createSession (date_now e) (u_id usr) deviceId token
                     \<lparr> md_ipAddress = Some ipAddress,
                       md_userAgent = req_headers req ''user-agent'',
                       md_trustScore = Some (ts_score ts),
                       md_location = gc_currentLocation geoCk \<rparr> w2;
                  w4 = Session_create e (u_id usr) deviceId token w3
              in (Inr (LoginSuccessful
                    \<lparr> ok_token = token, ok_deviceId = deviceId,
                      ok_trustScore = ts_score ts, ok_trustLevel = ts_level ts,
                      ok_activeSessions = length activeSessions + 1,
                      ok_maxSessions = maxSessions,
                      ok_metadata = fp_meta fp \<rparr>), w4)))"

text \<open>Steps 7 and 8 for a device that is known or was just approved, then the steps above.\<close>

definition login_knownDevice ::
  "collaborators \<Rightarrow> env \<Rightarrow> request \<Rightarrow> user \<Rightarrow> fingerprint \<Rightarrow> string \<Rightarrow> geoCheck \<Rightarrow> trustScore
     \<Rightarrow> alertContext \<Rightarrow> device \<Rightarrow> response io" where
  "login_knownDevice col e req usr fp ipAddress geoCk ts c dev =
     bindE (evaluateRules col e c) (\<lambda>_ w.
       let w1 = Device_save (dev\<lparr> d_lastLogin := date_now e \<rparr>) w;
           w2 = incrementLoginCount (fp_deviceId fp) w1;
           w3 = trackDeviceUser (fp_deviceId fp) (u_id usr) w2;
           w4 = storeLocationHistory e (u_id usr) ipAddress (fp_deviceId fp) w3
       in login_sessionEnforcement e req usr fp ipAddress geoCk ts w4)"

text \<open>
  The handler from the assignment of \<open>isNewDevice\<close> on, given the value \<open>early\<close> that
  the read of \<open>device\<close> in that assignment produced.
\<close>

definition login_afterDeviceRead ::
  "collaborators \<Rightarrow> env \<Rightarrow> request \<Rightarrow> user \<Rightarrow> fingerprint \<Rightarrow> string \<Rightarrow> geoCheck \<Rightarrow> trustScore
     \<Rightarrow> alertContext \<Rightarrow> device option \<Rightarrow> response io" where
  "login_afterDeviceRead col e req usr fp ipAddress geoCk ts c1 early w =
     (let c2 = c1\<lparr> cx_isNewDevice := (early = None) \<rparr>;
          deviceUserCount = int (length (kv_device_users w (fp_deviceId fp)));
          c3 = c2\<lparr> cx_deviceUserCount := Some deviceUserCount \<rparr>
      in case Device_findOne (u_id usr) (fp_deviceId fp) w of
           None \<Rightarrow>
             (let c4 = c3\<lparr> cx_isNewDevice := True \<rparr>
              in bindE (evaluateRules col e c4) (\<lambda>_ w'.
                   if ts_score ts < 60
                   then (Inr (OtpRequiredNewDevice (ts_score ts) (ts_level ts)),
                         issueOtp e usr w')
                   else (let (dev, w'') = Device_create e (u_id usr) (fp_deviceId fp)
                                (req_headers req ''user-agent'') ipAddress w'
                         in login_knownDevice col e req usr fp ipAddress geoCk ts c4 dev w''))
                   w)
         | Some dev \<Rightarrow> login_knownDevice col e req usr fp ipAddress geoCk ts c3 dev w)"

text \<open>
  The alert context as the handler first builds it; the properties it never sets are
  \<open>undefined\<close>.
\<close>

definition initialAlertContext :: "user \<Rightarrow> fingerprint \<Rightarrow> string \<Rightarrow> geoCheck \<Rightarrow> alertContext" where
  "initialAlertContext usr fp ipAddress geoCk =
     \<lparr> cx_userId = u_id usr, cx_email = u_email usr,
       cx_deviceId = fp_deviceId fp, cx_ipAddress = ipAddress,
       cx_geoCheck = Some geoCk, cx_trustScore = 50,
       cx_location = gc_currentLocation geoCk,
       cx_isNewDevice = False, cx_deviceUserCount = None,
       cx_failedAttempts = None, cx_activeSessions = None,
       cx_maxSessions = None, cx_isVPN = None,
       cx_locationChangeCount = None, cx_passwordChanged = None \<rparr>"

text \<open>The message of the exception that a read of \<open>device\<close> before its declaration throws.\<close>

definition tdzMessage :: string where
  "tdzMessage =
     ''Cannot access '' @ [CHR 0x27] @ ''device'' @ [CHR 0x27] @ '' before initialization''"

text \<open>
  The body of the handler's \<open>try\<close>. The binding \<open>device\<close> is declared by the \<open>let\<close>
  of step 6, so where \<open>isNewDevice\<close> is first assigned it is still uninitialised.
\<close>

definition login_try :: "collaborators \<Rightarrow> env \<Rightarrow> request \<Rightarrow> response io" where
  "login_try col e req w =
     (case db_users w (req_email req) of
        None \<Rightarrow> (Inr InvalidCredentials, w)
      | Some usr \<Rightarrow>
          if \<not> bcrypt_compare e (req_password req) (u_password usr)
          then (Inr InvalidCredentials, w)
          else
            (let fp = generateEnhancedFingerprint e req (req_fingerprint req)
             in case detectSpoofing (fp_components fp) of
                  Inl err \<Rightarrow> (Inl err, w)
                | Inr spoofingCheck \<Rightarrow>
                    if isSuspicious spoofingCheck \<and> riskScore spoofingCheck > 70
                    then (Inr (SuspiciousActivity (warnings spoofingCheck)),
                          blockUser (u_id usr) 3600 w)
                    else
                      (let ipAddress = clientIp req;
                           (geoCk, w1) = checkGeoImpossibility e (u_id usr) ipAddress w;
                           c0 = initialAlertContext usr fp ipAddress geoCk
                       in if gc_isImpossible geoCk
                          then bindE (evaluateRules col e c0)
                                 (\<lambda>_ w'. (Inr (OtpRequiredLocation (gc_reason geoCk)),
                                           issueOtp e usr w')) w1
                          else
                            (let (ts, w2) = calculateTrustScore e (u_id usr) (fp_deviceId fp)
                                              ipAddress w1;
                                 c1 = c0\<lparr> cx_trustScore := ts_score ts \<rparr>
                             in case read_binding ''device''
                                       (Uninitialized :: device option binding) of
                                  Inl err \<Rightarrow> (Inl err, w2)
                                | Inr early \<Rightarrow>
                                    login_afterDeviceRead col e req usr fp ipAddress geoCk ts
                                      c1 early w2))))"

definition login :: "collaborators \<Rightarrow> env \<Rightarrow> request \<Rightarrow> world \<Rightarrow> response \<times> world" where
  "login col e req w =
     (case login_try col e req w of
        (Inr res, w') \<Rightarrow> (res, w')
      | (Inl err, w') \<Rightarrow>
          (LoginFailed (exn_message err),
           w'\<lparr> console := console w' @ [''Login error: '' @ exn_message err] \<rparr>))"

section \<open>Example states\<close>

definition emptyWorld :: world where
  "emptyWorld =
     \<lparr> kv_sessions = Map.empty, kv_user_sessions = (\<lambda>u. []), kv_blocked = Map.empty,
       kv_last_location = Map.empty, kv_location_history = (\<lambda>u. []),
       kv_login_count = Map.empty, kv_failed_attempts = Map.empty,
       kv_countries = (\<lambda>d. []), kv_device_users = (\<lambda>d. []), kv_trust = Map.empty,
       kv_alerts = Map.empty, kv_alerts_sorted = [], kv_flagged = Map.empty,
       kv_flagged_users = [], db_users = Map.empty, db_devices = [],
       db_sessions = [], calls = [], console = [] \<rparr>"

definition sessionA :: session where
  "sessionA =
     \<lparr> s_token = ''token-A'', s_deviceId = ''device-A'', s_userId = ''user-1'',
       s_createdAt = 1000, s_lastActivity = 1000,
       s_ipAddress = Some ''203.0.113.7'', s_userAgent = None,
       s_trustScore = Some 72, s_location = None \<rparr>"

definition worldA :: world where
  "worldA =
     emptyWorld\<lparr> kv_sessions := [(''user-1'', ''device-A'') \<mapsto> sessionA],
                 kv_user_sessions := (\<lambda>u. if u = ''user-1'' then [''device-A''] else []) \<rparr>"

definition noUa :: ua where
  "noUa =
     \<lparr> ua_browser_name = None, ua_browser_version = None, ua_engine_name = None,
       ua_os_name = None, ua_os_version = None, ua_device_type = None,
       ua_device_vendor = None, ua_device_model = None, ua_cpu_architecture = None \<rparr>"

text \<open>
  An environment for the examples: noon, two addresses the location database knows
  (Delhi and New York), arithmetic without rounding, and stand-ins for the libraries.
\<close>

definition env0 :: env where
  "env0 =
     \<lparr> date_now = 1700000000000, date_hours = 12, date_localeTimeString = ''12:00:00'',
       geoip_lookup = (\<lambda>ip.
         if ip = ''203.0.113.7''
         then Some \<lparr> geo_country = ''IN'', geo_city = ''Delhi'', geo_ll = (28.70, 77.10) \<rparr>
         else if ip = ''198.51.100.9''
         then Some \<lparr> geo_country = ''US'', geo_city = ''New York'', geo_ll = (40.71, - 74.01) \<rparr>
         else None),
       ua_parse = (\<lambda>h. noUa),
       sha256_hex = (\<lambda>s. ''digest-of:'' @ s),
       numToString = (\<lambda>r. ''#''),
       toFixed = (\<lambda>r n. ''#''),
       fl = (\<lambda>x. x), Math_PI = pi, Math_sin = sin, Math_cos = cos, Math_atan2 = atan2,
       bcrypt_compare = (\<lambda>password hash. hash = ''bcrypt:'' @ password),
       jwt_sign = (\<lambda>(userId, deviceId, email). ''jwt:'' @ userId @ '':'' @ deviceId),
       generateOTP = ''493817'' \<rparr>"

text \<open>A device with six failed attempts that three accounts have used.\<close>

definition worldPenalised :: world where
  "worldPenalised =
     emptyWorld\<lparr> kv_failed_attempts := [''device-A'' \<mapsto> 6],
                 kv_device_users :=
                   (\<lambda>d. if d = ''device-A'' then [''user-1'', ''user-2'', ''user-3''] else []) \<rparr>"

text \<open>A user last seen in Delhi two hours before the clock of \<open>env0\<close>.\<close>

definition worldDelhi :: world where
  "worldDelhi =
     emptyWorld\<lparr> kv_last_location :=
       [''user-1'' \<mapsto> \<lparr> loc_country = ''IN'', loc_city = ''Delhi'', loc_lat = 28.70,
                          loc_lon = 77.10, loc_timestamp = 1699992800000 \<rparr>] \<rparr>"

text \<open>An alert context whose geographic check says impossible, for the user of \<open>worldA\<close>.\<close>

definition geoCheckImpossible :: geoCheck where
  "geoCheckImpossible =
     \<lparr> gc_isImpossible = True, gc_reason = ''Impossible travel: 11760km in 120 minutes'',
       gc_riskScore = 95, gc_currentLocation = None, gc_lastLocation = None,
       gc_distance = Some ''11760.00'', gc_timeDiff = Some ''120'' \<rparr>"

definition ctxGeo :: alertContext where
  "ctxGeo =
     \<lparr> cx_userId = ''user-1'', cx_email = ''ann@example.com'', cx_deviceId = ''device-A'',
       cx_ipAddress = ''198.51.100.9'', cx_geoCheck = Some geoCheckImpossible,
       cx_trustScore = 50, cx_location = None, cx_isNewDevice = False,
       cx_deviceUserCount = None, cx_failedAttempts = None, cx_activeSessions = None,
       cx_maxSessions = None, cx_isVPN = None, cx_locationChangeCount = None,
       cx_passwordChanged = None \<rparr>"

text \<open>
  A user on the STANDARD plan, the browser and the request with the fingerprint the
  client script sends; a state that knows only the user; a request of a headless
  browser; and a component mapping whose user agent names an automation suite.
\<close>

definition userAnn :: user where
  "userAnn =
     \<lparr> u_id = ''user-1'', u_email = ''ann@example.com'', u_password = ''bcrypt:secret'',
       u_plan = ''STANDARD'', u_otp = None, u_otpExpiry = None \<rparr>"

definition envAnn :: env where
  "envAnn =
     env0\<lparr> ua_parse := (\<lambda>h. noUa\<lparr> ua_browser_name := Some ''Firefox'',
                                      ua_browser_version := Some ''120.0'',
                                      ua_os_name := Some ''Windows'',
                                      ua_os_version := Some ''10'' \<rparr>) \<rparr>"

definition fingerprintAnn :: "(string \<times> jsval) list" where
  "fingerprintAnn =
     [(''canvas'', JStr ''c4f3a1''), (''platform'', JStr ''Win32''),
      (''webgl'', JObj [(''vendor'', JStr ''Intel Inc.''), (''renderer'', JStr ''Intel Iris'')])]"

definition requestAnn :: request where
  "requestAnn =
     \<lparr> req_headers =
         [''user-agent'' \<mapsto> ''Mozilla/5.0 (Windows NT 10.0; Win64; x64) Firefox/120.0''],
       req_remoteAddress = ''203.0.113.7'',
       req_email = ''ann@example.com'',
       req_password = ''secret'',
       req_fingerprint = Some fingerprintAnn \<rparr>"

definition worldNew :: world where
  "worldNew = emptyWorld\<lparr> db_users := [''ann@example.com'' \<mapsto> userAnn] \<rparr>"



text \<open>
  Collaborators whose email channel and whose alert store fail, the alert the first rule
  builds for \<open>ctxGeo\<close>, and a request from New York by a user last seen in Delhi.
\<close>

definition brokenChannels :: collaborators where
  "brokenChannels =
     (production env0)
       \<lparr> c_sendEmailAlert := (\<lambda>al c. throwE (Failure ''SMTP connection refused'')),
         c_storeAlert := (\<lambda>al. throwE (Failure ''store unavailable'')) \<rparr>"

definition requestNY :: request where
  "requestNY = requestAnn\<lparr> req_remoteAddress := ''198.51.100.9'' \<rparr>"

definition worldAnnDelhi :: world where
  "worldAnnDelhi = worldDelhi\<lparr> db_users := [''ann@example.com'' \<mapsto> userAnn] \<rparr>"

definition alertGeo :: alert where
  "alertGeo = makeAlert env0 (hd (rules env0)) ctxGeo
     (''User ann@example.com attempted login from impossible location: ''
      @ ''Impossible travel: 11760km in 120 minutes'')"

text \<open>
  The scenario of a returning user: the device of \<open>requestAnn\<close> was registered a
  hundred days before, failed three logins and was only ever seen in India; the user has
  one session on another device and was last located in Delhi a day before. Then the
  results of the geographic check and of the trust score in that state.
\<close>

definition deviceAnn :: string where
  "deviceAnn = fp_deviceId (generateEnhancedFingerprint envAnn requestAnn (req_fingerprint requestAnn))"

definition deviceRecordAnn :: device where
  "deviceRecordAnn =
     \<lparr> d_userId = ''user-1'', d_deviceId = deviceAnn,
       d_userAgent = Some ''Mozilla/5.0 (Windows NT 10.0; Win64; x64) Firefox/120.0'',
       d_ipAddress = Some ''203.0.113.7'', d_trusted = True,
       d_lastLogin = 1699913600000, d_createdAt = 1691360000000 \<rparr>"

definition sessionB :: session where
  "sessionB =
     \<lparr> s_token = ''token-B'', s_deviceId = ''device-B'', s_userId = ''user-1'',
       s_createdAt = 1699990000000, s_lastActivity = 1699995000000,
       s_ipAddress = Some ''203.0.113.7'', s_userAgent = None,
       s_trustScore = Some 80, s_location = None \<rparr>"

definition worldAnn :: world where
  "worldAnn =
     emptyWorld
       \<lparr> kv_sessions := [(''user-1'', ''device-B'') \<mapsto> sessionB],
         kv_user_sessions := (\<lambda>u. if u = ''user-1'' then [''device-B''] else []),
         kv_last_location :=
           [''user-1'' \<mapsto> \<lparr> loc_country = ''IN'', loc_city = ''Delhi'', loc_lat = 28.70,
                              loc_lon = 77.10, loc_timestamp = 1699913600000 \<rparr>],
         kv_failed_attempts := [deviceAnn \<mapsto> 3],
         kv_countries := (\<lambda>d. if d = deviceAnn then [''IN''] else []),
         kv_device_users := (\<lambda>d. if d = deviceAnn then [''user-1''] else []),
         db_users := [''ann@example.com'' \<mapsto> userAnn],
         db_devices := [deviceRecordAnn] \<rparr>"

definition geoCheckAnn :: geoCheck where
  "geoCheckAnn = fst (checkGeoImpossibility envAnn ''user-1'' ''203.0.113.7'' worldAnn)"

definition trustAnn :: trustScore where
  "trustAnn = fst (calculateTrustScore envAnn ''user-1'' deviceAnn ''203.0.113.7''
                     (snd (checkGeoImpossibility envAnn ''user-1'' ''203.0.113.7'' worldAnn)))"

definition worldAnnScored :: world where
  "worldAnnScored = snd (calculateTrustScore envAnn ''user-1'' deviceAnn ''203.0.113.7''
                     (snd (checkGeoImpossibility envAnn ''user-1'' ''203.0.113.7'' worldAnn)))"

text \<open>
  Two sessions of one user, indexed in the order B, A: the one created first, on device
  A, is also the one used last. Then a fingerprint of a third device and the result of
  a geographic check that recorded a first location.
\<close>

definition worldFifo :: world where
  "worldFifo =
     emptyWorld
       \<lparr> kv_sessions := [(''user-1'', ''device-A'') \<mapsto> sessionA\<lparr> s_lastActivity := 1699999000000 \<rparr>,
                          (''user-1'', ''device-B'') \<mapsto> sessionB],
         kv_user_sessions := (\<lambda>u. if u = ''user-1'' then [''device-B'', ''device-A''] else []) \<rparr>"

definition fingerprintC :: fingerprint where
  "fingerprintC =
     \<lparr> fp_deviceId = ''device-C'', fp_components = [],
       fp_meta = \<lparr> browserInfo = ''Firefox 120.0'', osInfo = ''Windows 10'',
                   deviceInfo = ''desktop'', fp_timestamp = 1700000000000 \<rparr> \<rparr>"

definition geoCheckFirst :: geoCheck where
  "geoCheckFirst =
     \<lparr> gc_isImpossible = False, gc_reason = ''First location recorded'', gc_riskScore = 0,
       gc_currentLocation = None, gc_lastLocation = None, gc_distance = None,
       gc_timeDiff = None \<rparr>"

text \<open>
  The keys of the component mapping, in the order of the object literal of
  \<open>generateEnhancedFingerprint\<close>; and two more client fingerprints like
  \<open>fingerprintAnn\<close>, one with another graphics adapter and one with another canvas
  digest.
\<close>

definition componentKeys :: "string list" where
  "componentKeys =
     [''userAgent'', ''ip'', ''browser'', ''browserVersion'', ''engine'', ''os'', ''osVersion'',
      ''deviceType'', ''deviceVendor'', ''deviceModel'', ''cpu'', ''acceptLanguage'',
      ''acceptEncoding'', ''accept'', ''screenResolution'', ''timezone'', ''timezoneOffset'',
      ''canvas'', ''webgl'', ''fonts'', ''plugins'', ''audioContext'', ''platform'',
      ''hardwareConcurrency'', ''deviceMemory'', ''colorDepth'', ''pixelRatio'']"

definition fingerprintNvidia :: "(string \<times> jsval) list" where
  "fingerprintNvidia =
     [(''canvas'', JStr ''c4f3a1''), (''platform'', JStr ''Win32''),
      (''webgl'', JObj [(''vendor'', JStr ''NVIDIA Corporation''),
                        (''renderer'', JStr ''GeForce RTX 3080'')])]"

definition fingerprintCanvas :: "(string \<times> jsval) list" where
  "fingerprintCanvas =
     [(''canvas'', JStr ''9be027''), (''platform'', JStr ''Win32''),
      (''webgl'', JObj [(''vendor'', JStr ''Intel Inc.''), (''renderer'', JStr ''Intel Iris'')])]"



text \<open>
  The user of \<open>worldAnn\<close> on the BASIC plan, in the same state (the device of
  \<open>requestAnn\<close> registered, one session on another device) and in a state with no
  session at all.
\<close>

definition userBasic :: user where
  "userBasic = userAnn\<lparr> u_plan := ''BASIC'' \<rparr>"

definition worldBasic :: world where
  "worldBasic = worldAnn\<lparr> db_users := [''ann@example.com'' \<mapsto> userBasic] \<rparr>"

definition worldBasicNew :: world where
  "worldBasicNew = emptyWorld\<lparr> db_users := [''ann@example.com'' \<mapsto> userBasic] \<rparr>"

section \<open>Properties of the session registry\<close>

text \<open>
  C10. \<open>updateActivity\<close> on a stored session replaces it by the same session with
  \<open>lastActivity\<close> set to the time of the call, so \<open>createdAt\<close> and \<open>token\<close> stay
  as they were, and a later call at a later time leaves a later \<open>lastActivity\<close>. On a
  pair with no stored session the call returns the state it was given. No other session,
  no index and no call record changes.
\<close>

theorem updateActivity_touches_lastActivity_only:
  "(case getSession userId deviceId w of
      None \<Rightarrow> updateActivity t1 userId deviceId w = w
    | Some session \<Rightarrow>
        getSession userId deviceId (updateActivity t1 userId deviceId w)
          = Some (session\<lparr> s_lastActivity := t1 \<rparr>)
        \<and> s_createdAt (session\<lparr> s_lastActivity := t1 \<rparr>) = s_createdAt session
        \<and> s_token (session\<lparr> s_lastActivity := t1 \<rparr>) = s_token session
        \<and> getSession userId deviceId
              (updateActivity t2 userId deviceId (updateActivity t1 userId deviceId w))
            = Some (session\<lparr> s_lastActivity := t2 \<rparr>)
        \<and> (t1 \<le> t2 \<longrightarrow>
              s_lastActivity (session\<lparr> s_lastActivity := t1 \<rparr>)
                \<le> s_lastActivity (session\<lparr> s_lastActivity := t2 \<rparr>)))
   \<and> ((u, d) \<noteq> (userId, deviceId) \<longrightarrow>
        getSession u d (updateActivity t1 userId deviceId w) = getSession u d w)
   \<and> kv_user_sessions (updateActivity t1 userId deviceId w) = kv_user_sessions w
   \<and> calls (updateActivity t1 userId deviceId w) = calls w"
  by (auto simp: updateActivity_def getSession_def split: option.splits)

theorem updateActivity_witness:
  "getSession ''user-1'' ''device-A''
     (updateActivity 9000 ''user-1'' ''device-A'' (updateActivity 5000 ''user-1'' ''device-A'' worldA))
     = Some (sessionA\<lparr> s_lastActivity := 9000 \<rparr>)
   \<and> s_createdAt (sessionA\<lparr> s_lastActivity := 9000 \<rparr>) = 1000
   \<and> s_token (sessionA\<lparr> s_lastActivity := 9000 \<rparr>) = ''token-A''
   \<and> updateActivity 5000 ''user-1'' ''device-B'' worldA = worldA
   \<and> getSession ''user-1'' ''device-A'' (updateActivity 5000 ''user-2'' ''device-A'' worldA)
       = Some sessionA"
proof -
  have stored: "getSession ''user-1'' ''device-A'' worldA = Some sessionA"
    by (simp add: getSession_def worldA_def emptyWorld_def)
  have absent: "getSession ''user-1'' ''device-B'' worldA = None"
    by (simp add: getSession_def worldA_def emptyWorld_def)
  have other: "(''user-1'', ''device-A'') \<noteq> (''user-2'', ''device-A'')"
    by simp
  show ?thesis
    using updateActivity_touches_lastActivity_only
            [where userId = "''user-1''" and deviceId = "''device-A''" and w = worldA
               and ?t1.0 = 5000 and ?t2.0 = 9000 and u = "''user-1''" and d = "''device-A''"]
          updateActivity_touches_lastActivity_only
            [where userId = "''user-1''" and deviceId = "''device-B''" and w = worldA
               and ?t1.0 = 5000 and ?t2.0 = 9000 and u = "''user-1''" and d = "''device-A''"]
          updateActivity_touches_lastActivity_only
            [where userId = "''user-2''" and deviceId = "''device-A''" and w = worldA
               and ?t1.0 = 5000 and ?t2.0 = 9000 and u = "''user-1''" and d = "''device-A''"]
          stored absent other
    by (simp add: sessionA_def)
qed

section \<open>Properties of the trust score\<close>

lemma getTrustLevel_cases:
  "(getTrustLevel s = ''HIGH'' \<longleftrightarrow> s \<ge> 80)
   \<and> (getTrustLevel s = ''MEDIUM'' \<longleftrightarrow> 60 \<le> s \<and> s < 80)
   \<and> (getTrustLevel s = ''LOW'' \<longleftrightarrow> 40 \<le> s \<and> s < 60)
   \<and> (getTrustLevel s = ''CRITICAL'' \<longleftrightarrow> s < 40)"
  by (simp add: getTrustLevel_def)

lemma calculateTrustScore_score:
  "ts_score (fst (calculateTrustScore e userId deviceId ipAddress w))
     = max 0 (min 100 (50 + getLoginFrequencyScore deviceId w
         + getDeviceAgeScore e userId deviceId w
         + fst (getGeoConsistencyScore e deviceId ipAddress w)
         + getFailedAttemptsScore deviceId (snd (getGeoConsistencyScore e deviceId ipAddress w))
         + getSuspiciousHoursScore e
         + getDeviceSharingScore deviceId (snd (getGeoConsistencyScore e deviceId ipAddress w))
         + getVPNScore ipAddress))"
  by (simp add: calculateTrustScore_def Let_def case_prod_beta add.assoc
           del: max.absorb1 max.absorb2 min.absorb1 min.absorb2)

lemma calculateTrustScore_level:
  "ts_level (fst (calculateTrustScore e userId deviceId ipAddress w))
     = getTrustLevel (ts_score (fst (calculateTrustScore e userId deviceId ipAddress w)))"
  by (simp add: calculateTrustScore_def Let_def case_prod_beta add.assoc
           del: max.absorb1 max.absorb2 min.absorb1 min.absorb2)

lemma calculateTrustScore_factors:
  "ts_score (fst (calculateTrustScore e userId deviceId ipAddress w))
     = max 0 (min 100 (50 + sum_list (map snd
         (ts_factors (fst (calculateTrustScore e userId deviceId ipAddress w))))))
   \<and> length (ts_factors (fst (calculateTrustScore e userId deviceId ipAddress w))) = 7"
  by (simp add: calculateTrustScore_def Let_def case_prod_beta add.assoc
           del: max.absorb1 max.absorb2 min.absorb1 min.absorb2)

text \<open>
  C5. For every user, device, address, state and environment the returned score lies
  in [0,100]: it is the base 50 plus the seven recorded sub-scores, clamped. The level
  is HIGH exactly for scores from 80, MEDIUM from 60 to 79, LOW from 40 to 59 and
  CRITICAL below 40.
\<close>

theorem calculateTrustScore_clamped_and_levelled:
  "0 \<le> ts_score (fst (calculateTrustScore e userId deviceId ipAddress w))
   \<and> ts_score (fst (calculateTrustScore e userId deviceId ipAddress w)) \<le> 100
   \<and> ts_score (fst (calculateTrustScore e userId deviceId ipAddress w))
       = max 0 (min 100 (50 + sum_list (map snd
           (ts_factors (fst (calculateTrustScore e userId deviceId ipAddress w))))))
   \<and> length (ts_factors (fst (calculateTrustScore e userId deviceId ipAddress w))) = 7
   \<and> (ts_level (fst (calculateTrustScore e userId deviceId ipAddress w)) = ''HIGH''
        \<longleftrightarrow> ts_score (fst (calculateTrustScore e userId deviceId ipAddress w)) \<ge> 80)
   \<and> (ts_level (fst (calculateTrustScore e userId deviceId ipAddress w)) = ''MEDIUM''
        \<longleftrightarrow> 60 \<le> ts_score (fst (calculateTrustScore e userId deviceId ipAddress w))
            \<and> ts_score (fst (calculateTrustScore e userId deviceId ipAddress w)) < 80)
   \<and> (ts_level (fst (calculateTrustScore e userId deviceId ipAddress w)) = ''LOW''
        \<longleftrightarrow> 40 \<le> ts_score (fst (calculateTrustScore e userId deviceId ipAddress w))
            \<and> ts_score (fst (calculateTrustScore e userId deviceId ipAddress w)) < 60)
   \<and> (ts_level (fst (calculateTrustScore e userId deviceId ipAddress w)) = ''CRITICAL''
        \<longleftrightarrow> ts_score (fst (calculateTrustScore e userId deviceId ipAddress w)) < 40)"
  using calculateTrustScore_factors [of e userId deviceId ipAddress w]
        getTrustLevel_cases [of "ts_score (fst (calculateTrustScore e userId deviceId ipAddress w))"]
  by (simp only: calculateTrustScore_level) (simp add: calculateTrustScore_score)

lemma trust_all_penalties:
  "fst (calculateTrustScore (env0\<lparr> date_hours := 3 \<rparr>) ''user-1'' ''device-A'' ''10.0.0.1''
          worldPenalised)
   = \<lparr> ts_score = 0, ts_level = ''CRITICAL'',
       ts_factors = [(''Login Frequency'', 0), (''Device Age'', 0), (''Geo Consistency'', 0),
                     (''Failed Attempts'', - 30), (''Login Hours'', - 10),
                     (''Device Sharing'', - 25), (''VPN Usage'', - 15)],
       ts_timestamp = 1700000000000 \<rparr>"
proof -
  let ?e = "env0\<lparr> date_hours := 3 \<rparr>"
  have f: "getLoginFrequencyScore ''device-A'' worldPenalised = 0"
    by (simp add: getLoginFrequencyScore_def worldPenalised_def emptyWorld_def)
  have a: "getDeviceAgeScore ?e ''user-1'' ''device-A'' worldPenalised = 0"
    by (simp add: getDeviceAgeScore_def Device_findOne_def worldPenalised_def emptyWorld_def)
  have g: "getGeoConsistencyScore ?e ''device-A'' ''10.0.0.1'' worldPenalised
             = (0, worldPenalised)"
    by (simp add: getGeoConsistencyScore_def env0_def)
  have x: "getFailedAttemptsScore ''device-A'' worldPenalised = - 30"
    by (simp add: getFailedAttemptsScore_def worldPenalised_def emptyWorld_def)
  have h: "getSuspiciousHoursScore ?e = - 10"
    by (simp add: getSuspiciousHoursScore_def)
  have d: "getDeviceSharingScore ''device-A'' worldPenalised = - 25"
    by (simp add: getDeviceSharingScore_def worldPenalised_def emptyWorld_def)
  have v: "getVPNScore ''10.0.0.1'' = - 15"
    by (simp add: getVPNScore_def startsWith_def)
  have n: "date_now ?e = 1700000000000"
    by (simp add: env0_def)
  show ?thesis
    by (simp add: calculateTrustScore_def f a g x h d v n getTrustLevel_def Let_def)
qed

text \<open>
  Every penalty at once (six failed attempts, three accounts on the device, 3 a.m.,
  a private address): the sum 50 - 80 is clamped to 0.
\<close>

theorem calculateTrustScore_all_penalties_witness:
  "ts_score (fst (calculateTrustScore (env0\<lparr> date_hours := 3 \<rparr>) ''user-1'' ''device-A''
       ''10.0.0.1'' worldPenalised)) = 0
   \<and> ts_level (fst (calculateTrustScore (env0\<lparr> date_hours := 3 \<rparr>) ''user-1'' ''device-A''
       ''10.0.0.1'' worldPenalised)) = ''CRITICAL''
   \<and> 50 + sum_list (map snd (ts_factors (fst (calculateTrustScore (env0\<lparr> date_hours := 3 \<rparr>)
       ''user-1'' ''device-A'' ''10.0.0.1'' worldPenalised)))) = - 30"
  using calculateTrustScore_clamped_and_levelled
          [of "env0\<lparr> date_hours := 3 \<rparr>" "''user-1''" "''device-A''" "''10.0.0.1''"
              worldPenalised]
  unfolding trust_all_penalties by simp

section \<open>Properties of the geographic check\<close>

subsection \<open>Rounding errors of the distance\<close>

lemma fl_close: "accurate e \<Longrightarrow> \<bar>x\<bar> \<le> 1000000000 \<Longrightarrow> \<bar>fl e x - x\<bar> \<le> 1 / 1000000"
  by (simp add: accurate_def)


lemma fl_near:
  assumes "accurate e" and "\<bar>x - x'\<bar> \<le> \<alpha>" and "\<bar>x'\<bar> \<le> B" and "\<alpha> + B \<le> 1000000000"
  shows "\<bar>fl e x - x'\<bar> \<le> \<alpha> + 1 / 1000000"
proof -
  have "\<bar>x\<bar> \<le> 1000000000" using assms(2,3,4) by linarith
  then have "\<bar>fl e x - x\<bar> \<le> 1 / 1000000" by (rule fl_close[OF assms(1)])
  then show ?thesis using assms(2) by linarith
qed

lemma sin_lipschitz: "\<bar>sin x - sin y\<bar> \<le> \<bar>x - y\<bar>" for x y :: real
proof -
  have "\<bar>sin x - sin y\<bar> = 2 * \<bar>sin ((x - y) / 2)\<bar> * \<bar>cos ((x + y) / 2)\<bar>"
    by (simp add: sin_diff_sin abs_mult)
  also have "\<dots> \<le> 2 * \<bar>(x - y) / 2\<bar> * 1"
    by (intro mult_mono abs_sin_x_le_abs_x) simp_all
  finally show ?thesis by simp
qed

lemma cos_lipschitz: "\<bar>cos x - cos y\<bar> \<le> \<bar>x - y\<bar>" for x y :: real
proof -
  have "\<bar>cos x - cos y\<bar> = 2 * \<bar>sin ((x + y) / 2)\<bar> * \<bar>sin ((y - x) / 2)\<bar>"
    by (simp add: cos_diff_cos abs_mult)
  also have "\<dots> \<le> 2 * 1 * \<bar>(y - x) / 2\<bar>"
    by (intro mult_mono abs_sin_x_le_abs_x) simp_all
  finally show ?thesis by simp
qed

lemma mult_close:
  fixes x y x' y' :: real
  assumes "\<bar>x - x'\<bar> \<le> \<alpha>" and "\<bar>y - y'\<bar> \<le> \<beta>" and "\<bar>x'\<bar> \<le> 1" and "\<bar>y'\<bar> \<le> 1" and "\<alpha> \<le> 1"
  shows "\<bar>x * y - x' * y'\<bar> \<le> \<alpha> + 2 * \<beta>"
proof -
  have e: "x * y - x' * y' = x * (y - y') + y' * (x - x')" by (simp add: algebra_simps)
  have x: "\<bar>x\<bar> \<le> 2" using assms(1,3,5) by linarith
  have b: "0 \<le> \<beta>" using assms(2) by linarith
  have a: "0 \<le> \<alpha>" using assms(1) by linarith
  have "\<bar>x * (y - y')\<bar> \<le> 2 * \<beta>"
    unfolding abs_mult by (rule mult_mono[OF x assms(2)]) simp_all
  moreover have "\<bar>y' * (x - x')\<bar> \<le> 1 * \<alpha>"
    unfolding abs_mult by (rule mult_mono[OF assms(4) assms(1)]) simp_all
  ultimately show ?thesis unfolding e by linarith
qed

lemma pi_bounds: "2 \<le> pi" "pi \<le> 4"
  using pi_ge_two pi_less_4 by simp_all

lemma k_close:
  assumes "accurate e"
  shows "\<bar>fl e (Math_PI e / 180) - pi / 180\<bar> \<le> 2 / 1000000"
proof -
  have p: "\<bar>Math_PI e - pi\<bar> \<le> 1 / 1000000" using assms by (simp add: accurate_def)
  have "\<bar>Math_PI e / 180 - pi / 180\<bar> \<le> 1 / 1000000" using p by linarith
  moreover have "\<bar>pi / 180\<bar> \<le> 1" using pi_bounds by linarith
  ultimately have "\<bar>fl e (Math_PI e / 180) - pi / 180\<bar> \<le> 1 / 1000000 + 1 / 1000000"
    by (rule fl_near[OF assms]) simp
  then show ?thesis by simp
qed

lemma toRad_close:
  assumes "accurate e" and "\<bar>x - x'\<bar> \<le> 1 / 1000000" and "\<bar>x'\<bar> \<le> 360"
  shows "\<bar>toRad e x - x' * pi / 180\<bar> \<le> 1 / 1000"
proof -
  define k where "k = fl e (Math_PI e / 180)"
  have k: "\<bar>k - pi / 180\<bar> \<le> 2 / 1000000" unfolding k_def by (rule k_close[OF assms(1)])
  have x: "\<bar>x\<bar> \<le> 361" using assms(2,3) by linarith
  have e: "x * k - x' * (pi / 180) = x * (k - pi / 180) + (pi / 180) * (x - x')"
    by (simp add: right_diff_distrib)
  have "\<bar>x * (k - pi / 180)\<bar> \<le> 361 * (2 / 1000000)"
    unfolding abs_mult by (rule mult_mono[OF x k]) simp_all
  moreover have "\<bar>(pi / 180) * (x - x')\<bar> \<le> 1 * (1 / 1000000)"
    unfolding abs_mult by (rule mult_mono[OF _ assms(2)]) (use pi_bounds in simp_all)
  ultimately have d: "\<bar>x * k - x' * (pi / 180)\<bar> \<le> 723 / 1000000"
    unfolding e by linarith
  have "\<bar>x' * (pi / 180)\<bar> \<le> 360 * 1"
    unfolding abs_mult by (rule mult_mono[OF assms(3)]) (use pi_bounds in simp_all)
  then have b: "\<bar>x' * (pi / 180)\<bar> \<le> 360" by simp
  have "\<bar>fl e (x * k) - x' * (pi / 180)\<bar> \<le> 723 / 1000000 + 1 / 1000000"
    by (rule fl_near[OF assms(1) d b]) simp
  then show ?thesis unfolding toRad_def k_def by (simp add: field_simps)
qed

lemma sinHalf_close:
  assumes "accurate e" and "\<bar>x\<bar> \<le> 360"
  shows "\<bar>Math_sin e (fl e (toRad e (fl e x) / 2)) - sin (x * pi / 180 / 2)\<bar> \<le> 2 / 1000"
proof -
  have "\<bar>fl e x - x\<bar> \<le> 1 / 1000000" by (rule fl_close[OF assms(1)]) (use assms(2) in simp)
  then have t: "\<bar>toRad e (fl e x) - x * pi / 180\<bar> \<le> 1 / 1000"
    by (rule toRad_close[OF assms(1) _ assms(2)])
  have b: "\<bar>x * pi / 180 / 2\<bar> \<le> 4"
  proof -
    have "\<bar>x * pi\<bar> \<le> 360 * 4"
      unfolding abs_mult by (rule mult_mono[OF assms(2)]) (use pi_bounds in simp_all)
    then show ?thesis by linarith
  qed
  have "\<bar>toRad e (fl e x) / 2 - x * pi / 180 / 2\<bar> \<le> 1 / 1000" using t by linarith
  then have h: "\<bar>fl e (toRad e (fl e x) / 2) - x * pi / 180 / 2\<bar> \<le> 1 / 1000 + 1 / 1000000"
    by (rule fl_near[OF assms(1) _ b]) simp
  then have "\<bar>fl e (toRad e (fl e x) / 2)\<bar> \<le> 10" using b by linarith
  then have s: "\<bar>Math_sin e (fl e (toRad e (fl e x) / 2)) - sin (fl e (toRad e (fl e x) / 2))\<bar>
                  \<le> 1 / 1000000"
    using assms(1) by (simp add: accurate_def)
  have "\<bar>sin (fl e (toRad e (fl e x) / 2)) - sin (x * pi / 180 / 2)\<bar> \<le> 1 / 1000 + 1 / 1000000"
    using sin_lipschitz[of "fl e (toRad e (fl e x) / 2)" "x * pi / 180 / 2"] h by linarith
  then show ?thesis using s by linarith
qed

lemma cosLat_close:
  assumes "accurate e" and "\<bar>x\<bar> \<le> 360"
  shows "\<bar>Math_cos e (toRad e x) - cos (x * pi / 180)\<bar> \<le> 2 / 1000"
proof -
  have t: "\<bar>toRad e x - x * pi / 180\<bar> \<le> 1 / 1000"
    by (rule toRad_close[OF assms(1) _ assms(2)]) simp
  have b: "\<bar>x * pi / 180\<bar> \<le> 8"
  proof -
    have "\<bar>x * pi\<bar> \<le> 360 * 4"
      unfolding abs_mult by (rule mult_mono[OF assms(2)]) (use pi_bounds in simp_all)
    then show ?thesis by linarith
  qed
  have "\<bar>toRad e x\<bar> \<le> 10" using t b by linarith
  then have s: "\<bar>Math_cos e (toRad e x) - cos (toRad e x)\<bar> \<le> 1 / 1000000"
    using assms(1) by (simp add: accurate_def)
  have "\<bar>cos (toRad e x) - cos (x * pi / 180)\<bar> \<le> 1 / 1000"
    using cos_lipschitz[of "toRad e x" "x * pi / 180"] t by linarith
  then show ?thesis using s by linarith
qed


lemma fl_mult_close:
  assumes "accurate e" and "\<bar>x - x'\<bar> \<le> \<alpha>" and "\<bar>y - y'\<bar> \<le> \<beta>"
    and "\<bar>x'\<bar> \<le> 1" and "\<bar>y'\<bar> \<le> 1" and "\<alpha> \<le> 1" and "\<beta> \<le> 1"
  shows "\<bar>fl e (x * y) - x' * y'\<bar> \<le> \<alpha> + 2 * \<beta> + 1 / 1000000"
proof -
  have m: "\<bar>x * y - x' * y'\<bar> \<le> \<alpha> + 2 * \<beta>"
    by (rule mult_close[OF assms(2,3,4,5,6)])
  have "\<bar>x' * y'\<bar> \<le> 1 * 1"
    unfolding abs_mult by (rule mult_mono[OF assms(4,5)]) simp_all
  then have b: "\<bar>x' * y'\<bar> \<le> 1" by simp
  show ?thesis
    by (rule fl_near[OF assms(1) m b]) (use assms(6,7) in linarith)
qed

lemma a_close:
  assumes "accurate e" and "\<bar>lat1\<bar> \<le> 90" and "\<bar>lat2\<bar> \<le> 90"
    and "\<bar>lon1\<bar> \<le> 180" and "\<bar>lon2\<bar> \<le> 180"
  shows "\<bar>calculateDistance_a e lat1 lon1 lat2 lon2 - haversine_a lat1 lon1 lat2 lon2\<bar> \<le> 1 / 40"
proof -
  define s1 where "s1 = Math_sin e (fl e (toRad e (fl e (lat2 - lat1)) / 2))"
  define s2 where "s2 = Math_sin e (fl e (toRad e (fl e (lon2 - lon1)) / 2))"
  define c1 where "c1 = Math_cos e (toRad e lat1)"
  define c2 where "c2 = Math_cos e (toRad e lat2)"
  define s1' where "s1' = sin ((lat2 - lat1) * pi / 180 / 2)"
  define s2' where "s2' = sin ((lon2 - lon1) * pi / 180 / 2)"
  define c1' where "c1' = cos (lat1 * pi / 180)"
  define c2' where "c2' = cos (lat2 * pi / 180)"
  have dlat: "\<bar>lat2 - lat1\<bar> \<le> 360" and dlon: "\<bar>lon2 - lon1\<bar> \<le> 360"
    using assms(2-5) by linarith+
  have l1: "\<bar>lat1\<bar> \<le> 360" and l2: "\<bar>lat2\<bar> \<le> 360" using assms(2,3) by linarith+
  have e1: "\<bar>s1 - s1'\<bar> \<le> 2 / 1000" unfolding s1_def s1'_def
    by (rule sinHalf_close[OF assms(1) dlat])
  have e2: "\<bar>s2 - s2'\<bar> \<le> 2 / 1000" unfolding s2_def s2'_def
    by (rule sinHalf_close[OF assms(1) dlon])
  have e3: "\<bar>c1 - c1'\<bar> \<le> 2 / 1000" unfolding c1_def c1'_def
    by (rule cosLat_close[OF assms(1) l1])
  have e4: "\<bar>c2 - c2'\<bar> \<le> 2 / 1000" unfolding c2_def c2'_def
    by (rule cosLat_close[OF assms(1) l2])
  have b: "\<bar>s1'\<bar> \<le> 1" "\<bar>s2'\<bar> \<le> 1" "\<bar>c1'\<bar> \<le> 1" "\<bar>c2'\<bar> \<le> 1"
    unfolding s1'_def s2'_def c1'_def c2'_def by simp_all
  have p1: "\<bar>fl e (s1 * s1) - s1' * s1'\<bar> \<le> 2 / 1000 + 2 * (2 / 1000) + 1 / 1000000"
    by (rule fl_mult_close[OF assms(1) e1 e1 b(1) b(1)]) simp_all
  have m1: "\<bar>fl e (c1 * c2) - c1' * c2'\<bar> \<le> 2 / 1000 + 2 * (2 / 1000) + 1 / 1000000"
    by (rule fl_mult_close[OF assms(1) e3 e4 b(3) b(4)]) simp_all
  have bm1: "\<bar>c1' * c2'\<bar> \<le> 1"
    using mult_mono[OF b(3) b(4)] by (simp add: abs_mult)
  have m2: "\<bar>fl e (fl e (c1 * c2) * s2) - c1' * c2' * s2'\<bar>
              \<le> (2 / 1000 + 2 * (2 / 1000) + 1 / 1000000) + 2 * (2 / 1000) + 1 / 1000000"
    by (rule fl_mult_close[OF assms(1) m1 e2 bm1 b(2)]) simp_all
  have bm2: "\<bar>c1' * c2' * s2'\<bar> \<le> 1"
    using mult_mono[OF bm1 b(2)] by (simp add: abs_mult)
  have m3: "\<bar>fl e (fl e (fl e (c1 * c2) * s2) * s2) - c1' * c2' * s2' * s2'\<bar>
              \<le> ((2 / 1000 + 2 * (2 / 1000) + 1 / 1000000) + 2 * (2 / 1000) + 1 / 1000000)
                  + 2 * (2 / 1000) + 1 / 1000000"
    by (rule fl_mult_close[OF assms(1) m2 e2 bm2 b(2)]) simp_all
  have bp1: "\<bar>s1' * s1'\<bar> \<le> 1"
    using mult_mono[OF b(1) b(1)] by (simp add: abs_mult)
  have bm3: "\<bar>c1' * c2' * s2' * s2'\<bar> \<le> 1"
    using mult_mono[OF bm2 b(2)] by (simp add: abs_mult)
  have sum: "\<bar>(fl e (s1 * s1) + fl e (fl e (fl e (c1 * c2) * s2) * s2))
               - (s1' * s1' + c1' * c2' * s2' * s2')\<bar> \<le> 21 / 1000"
    using p1 m3 by linarith
  have bs: "\<bar>s1' * s1' + c1' * c2' * s2' * s2'\<bar> \<le> 2" using bp1 bm3 by linarith
  have "\<bar>fl e (fl e (s1 * s1) + fl e (fl e (fl e (c1 * c2) * s2) * s2))
          - (s1' * s1' + c1' * c2' * s2' * s2')\<bar> \<le> 21 / 1000 + 1 / 1000000"
    by (rule fl_near[OF assms(1) sum bs]) simp
  moreover have "calculateDistance_a e lat1 lon1 lat2 lon2
      = fl e (fl e (s1 * s1) + fl e (fl e (fl e (c1 * c2) * s2) * s2))"
    by (simp add: calculateDistance_a_def Let_def s1_def s2_def c1_def c2_def)
  moreover have "haversine_a lat1 lon1 lat2 lon2 = s1' * s1' + c1' * c2' * s2' * s2'"
    by (simp add: haversine_a_def s1'_def s2'_def c1'_def c2'_def power2_eq_square)
  ultimately show ?thesis by linarith
qed

lemma sqrt3_lower: "1732 / 1000 \<le> sqrt 3"
  by (rule real_le_rsqrt) (simp add: power2_eq_square)

lemma sqrt3_upper: "sqrt 3 \<le> 1733 / 1000"
  by (rule real_le_lsqrt) (simp_all add: power2_eq_square)

lemma sqrt2_lower: "1414 / 1000 \<le> sqrt 2"
  by (rule real_le_rsqrt) (simp add: power2_eq_square)

lemma haversine_a_delhi_newyork:
  assumes "2869 / 100 \<le> lat1" "lat1 \<le> 2871 / 100" "7709 / 100 \<le> lon1" "lon1 \<le> 7711 / 100"
    and "4070 / 100 \<le> lat2" "lat2 \<le> 4072 / 100" "- (7402 / 100) \<le> lon2" "lon2 \<le> - (7400 / 100)"
  shows "1 / 2 \<le> haversine_a lat1 lon1 lat2 lon2" and "haversine_a lat1 lon1 lat2 lon2 \<le> 9 / 10"
proof -
  define s1 where "s1 = sin ((lat2 - lat1) * pi / 180 / 2)"
  define s2 where "s2 = sin ((lon2 - lon1) * pi / 180 / 2)"
  define c1 where "c1 = cos (lat1 * pi / 180)"
  define c2 where "c2 = cos (lat2 * pi / 180)"
  have h: "haversine_a lat1 lon1 lat2 lon2 = s1\<^sup>2 + c1 * c2 * s2\<^sup>2"
    by (simp add: haversine_a_def s1_def s2_def c1_def c2_def)
  have pp: "0 < pi" by simp
  \<comment> \<open>the first latitude lies below 30 degrees\<close>
  have a1: "0 \<le> lat1 * pi / 180" "lat1 * pi / 180 \<le> pi / 6"
    using assms(1,2) pp by (simp_all add: field_simps)
  have "cos (pi / 6) \<le> cos (lat1 * pi / 180)"
    by (rule cos_monotone_0_pi_le) (use a1 pp in simp_all)
  then have c1l: "sqrt 3 / 2 \<le> c1" by (simp add: cos_30 c1_def)
  have c1u: "c1 \<le> 1" by (simp add: c1_def)
  \<comment> \<open>the second latitude lies between 30 and 45 degrees\<close>
  have a2: "pi / 6 \<le> lat2 * pi / 180" "lat2 * pi / 180 \<le> pi / 4"
    using assms(5,6) pp by (simp_all add: field_simps)
  have "cos (pi / 4) \<le> cos (lat2 * pi / 180)"
    by (rule cos_monotone_0_pi_le) (use a2 pp in simp_all)
  then have c2l: "sqrt 2 / 2 \<le> c2" by (simp add: cos_45 c2_def)
  have "cos (lat2 * pi / 180) \<le> cos (pi / 6)"
    by (rule cos_monotone_0_pi_le) (use a2 pp in simp_all)
  then have c2u: "c2 \<le> sqrt 3 / 2" by (simp add: cos_30 c2_def)
  \<comment> \<open>the longitudes differ by more than 150 degrees\<close>
  define t where "t = (lon1 - lon2) * pi / 180"
  have d: "150 \<le> lon1 - lon2" "lon1 - lon2 \<le> 180"
    using assms(3,4,7,8) by linarith+
  have d1: "150 * pi \<le> (lon1 - lon2) * pi"
    by (rule mult_right_mono[OF d(1)]) simp
  have d2: "(lon1 - lon2) * pi \<le> 180 * pi"
    by (rule mult_right_mono[OF d(2)]) simp
  have a3: "pi - pi / 6 \<le> t" "t \<le> pi"
    unfolding t_def using d1 d2 by linarith+
  have "cos t \<le> cos (pi - pi / 6)"
    by (rule cos_monotone_0_pi_le) (use a3 pp in simp_all)
  then have ct: "cos t \<le> - (sqrt 3 / 2)"
    by (simp only: cos_pi_minus cos_30)
  have "2 * ((lon2 - lon1) * pi / 180 / 2) = - t"
    by (simp add: t_def field_simps)
  then have "cos (2 * ((lon2 - lon1) * pi / 180 / 2)) = cos t"
    by (simp only: cos_minus)
  then have "cos t = 1 - 2 * s2\<^sup>2"
    by (simp only: cos_double_sin s2_def)
  then have "1 - 2 * s2\<^sup>2 \<le> - (sqrt 3 / 2)" using ct by simp
  then have s2l: "(2 + sqrt 3) / 4 \<le> s2\<^sup>2" by argo
  have s2u: "s2\<^sup>2 \<le> 1" unfolding s2_def by (simp add: sin_squared_eq)
  \<comment> \<open>the latitudes differ by about 12 degrees\<close>
  have "\<bar>s1\<bar> \<le> \<bar>(lat2 - lat1) * pi / 180 / 2\<bar>"
    unfolding s1_def by (rule abs_sin_x_le_abs_x)
  also have "\<dots> \<le> 14 / 100"
  proof -
    have "\<bar>lat2 - lat1\<bar> \<le> 1203 / 100" using assms(1,2,5,6) by linarith
    then have m: "\<bar>lat2 - lat1\<bar> * pi \<le> 1203 / 100 * 4"
      by (intro mult_mono) (use pi_bounds in simp_all)
    have "\<bar>(lat2 - lat1) * pi / 180 / 2\<bar> = \<bar>lat2 - lat1\<bar> * pi / 360"
      by (simp add: abs_mult)
    then show ?thesis using m by linarith
  qed
  finally have s1a: "\<bar>s1\<bar> \<le> 14 / 100" .
  then have "s1\<^sup>2 \<le> (14 / 100)\<^sup>2"
    by (simp add: abs_le_square_iff[symmetric])
  then have s1u: "s1\<^sup>2 \<le> 2 / 100" by (simp add: power2_eq_square)
  have s1l: "0 \<le> s1\<^sup>2" by simp
  \<comment> \<open>lower bound\<close>
  have p1: "(1732 / 1000) / 2 \<le> c1" using c1l sqrt3_lower by linarith
  have p2: "(1414 / 1000) / 2 \<le> c2" using c2l sqrt2_lower by linarith
  have p3: "(2 + 1732 / 1000) / 4 \<le> s2\<^sup>2" using s2l sqrt3_lower by argo
  have q1: "((1732 / 1000) / 2) * ((1414 / 1000) / 2) \<le> c1 * c2"
    by (rule mult_mono[OF p1 p2]) (use p1 in simp_all)
  have q2: "((1732 / 1000) / 2) * ((1414 / 1000) / 2) * ((2 + 1732 / 1000) / 4) \<le> c1 * c2 * s2\<^sup>2"
    by (rule mult_mono[OF q1 p3]) (use q1 in simp_all)
  have "(1::real) / 2 \<le> ((1732 / 1000) / 2) * ((1414 / 1000) / 2) * ((2 + 1732 / 1000) / 4)"
    by simp
  then show "1 / 2 \<le> haversine_a lat1 lon1 lat2 lon2"
    unfolding h using q2 s1l by argo
  \<comment> \<open>upper bound\<close>
  have c1n: "0 \<le> c1" using p1 by linarith
  have c2n: "0 \<le> c2" using p2 by linarith
  have "c1 * c2 \<le> 1 * c2" by (rule mult_right_mono[OF c1u c2n])
  then have r1: "c1 * c2 \<le> sqrt 3 / 2" using c2u by linarith
  have "c1 * c2 * s2\<^sup>2 \<le> (c1 * c2) * 1"
    by (rule mult_left_mono[OF s2u]) (simp add: c1n c2n)
  then have "c1 * c2 * s2\<^sup>2 \<le> 1733 / 2000" using r1 sqrt3_upper by argo
  then show "haversine_a lat1 lon1 lat2 lon2 \<le> 9 / 10"
    unfolding h using s1u by argo
qed


lemma atan2_quadrant:
  assumes "0 \<le> y" and "0 \<le> x"
  shows "0 \<le> atan2 y x" and "atan2 y x \<le> pi / 2"
proof -
  consider "0 < x" | "x = 0" "0 < y" | "x = 0" "y = 0" using assms by linarith
  then have "0 \<le> atan2 y x \<and> atan2 y x \<le> pi / 2"
  proof cases
    case 1
    have "0 \<le> y / x" using assms(1) 1 by simp
    then have "0 \<le> arctan (y / x)" by simp
    moreover have "arctan (y / x) < pi / 2" by (rule arctan_ubound)
    ultimately show ?thesis using 1 by (simp add: atan2_def)
  next
    case 2
    then show ?thesis by (simp add: atan2_def)
  next
    case 3
    then show ?thesis by (simp add: atan2_def)
  qed
  then show "0 \<le> atan2 y x" and "atan2 y x \<le> pi / 2" by simp_all
qed

lemma arctan_inverse_sqrt3: "arctan (1 / sqrt 3) = pi / 6"
  by (rule arctan_unique) (simp_all add: tan_30)

lemma atan2_ge_sixth_pi:
  assumes "0 < x" and "x \<le> sqrt 3 * y"
  shows "pi / 6 \<le> atan2 y x"
proof -
  have "1 / sqrt 3 \<le> y / x"
    using assms by (simp add: field_simps)
  then have "arctan (1 / sqrt 3) \<le> arctan (y / x)" by (rule arctan_monotone')
  then show ?thesis using assms(1) by (simp add: atan2_def arctan_inverse_sqrt3)
qed

lemma distance_from_a:
  assumes "accurate e" and "19 / 40 \<le> calculateDistance_a e lat1 lon1 lat2 lon2"
    and "calculateDistance_a e lat1 lon1 lat2 lon2 \<le> 37 / 40"
  shows "\<exists>x. calculateDistance e lat1 lon1 lat2 lon2 = Finite x \<and> 4000 \<le> x \<and> x \<le> 30000"
proof -
  define a where "a = calculateDistance_a e lat1 lon1 lat2 lon2"
  define q where "q = fl e (1 - a)"
  define r1 where "r1 = fl e (sqrt a)"
  define r2 where "r2 = fl e (sqrt q)"
  define t where "t = Math_atan2 e r1 r2"
  define c where "c = fl e (2 * t)"
  define x where "x = fl e (6371 * c)"
  have a: "19 / 40 \<le> a" "a \<le> 37 / 40" using assms(2,3) by (simp_all add: a_def)
  have "\<bar>fl e (1 - a) - (1 - a)\<bar> \<le> 1 / 1000000"
    by (rule fl_close[OF assms(1)]) (use a in linarith)
  then have q: "7 / 100 \<le> q" "q \<le> 526 / 1000" using a unfolding q_def by linarith+
  have sa: "68 / 100 \<le> sqrt a"
    by (rule real_le_rsqrt) (use a in \<open>simp add: power2_eq_square\<close>)
  have sa1: "sqrt a \<le> 1"
    by (rule real_le_lsqrt) (use a in simp_all)
  have "\<bar>fl e (sqrt a) - sqrt a\<bar> \<le> 1 / 1000000"
    by (rule fl_close[OF assms(1)]) (use sa sa1 in linarith)
  then have r1: "67 / 100 \<le> r1" "r1 \<le> 2" using sa sa1 unfolding r1_def by linarith+
  have sq: "26 / 100 \<le> sqrt q"
    by (rule real_le_rsqrt) (use q in \<open>simp add: power2_eq_square\<close>)
  have sq1: "sqrt q \<le> 726 / 1000"
    by (rule real_le_lsqrt) (use q in \<open>simp_all add: power2_eq_square\<close>)
  have "\<bar>fl e (sqrt q) - sqrt q\<bar> \<le> 1 / 1000000"
    by (rule fl_close[OF assms(1)]) (use sq sq1 in linarith)
  then have r2: "25 / 100 \<le> r2" "r2 \<le> 73 / 100" using sq sq1 unfolding r2_def by linarith+
  have "73 / 100 \<le> (1732 / 1000) * (67 / 100 :: real)" by simp
  also have "\<dots> \<le> sqrt 3 * r1"
    by (rule mult_mono[OF sqrt3_lower r1(1)]) simp_all
  finally have "r2 \<le> sqrt 3 * r1" using r2(2) by linarith
  then have lo: "pi / 6 \<le> atan2 r1 r2"
    by (rule atan2_ge_sixth_pi[rotated]) (use r2 in linarith)
  have hi: "atan2 r1 r2 \<le> pi / 2"
    by (rule atan2_quadrant) (use r1 r2 in linarith)+
  have "\<bar>Math_atan2 e r1 r2 - atan2 r1 r2\<bar> \<le> 1 / 1000000"
    using assms(1) r1 r2 by (simp add: accurate_def)
  then have t: "33 / 100 \<le> t" "t \<le> 201 / 100"
    using lo hi pi_bounds pi_half_less_two unfolding t_def by linarith+
  have "\<bar>fl e (2 * t) - 2 * t\<bar> \<le> 1 / 1000000"
    by (rule fl_close[OF assms(1)]) (use t in linarith)
  then have c: "65 / 100 \<le> c" "c \<le> 403 / 100" using t unfolding c_def by linarith+
  have "\<bar>fl e (6371 * c) - 6371 * c\<bar> \<le> 1 / 1000000"
    by (rule fl_close[OF assms(1)]) (use c in linarith)
  then have x: "4000 \<le> x" "x \<le> 30000" using c unfolding x_def by linarith+
  have "calculateDistance e lat1 lon1 lat2 lon2 = Finite x"
    using a q
    by (simp add: calculateDistance_def Let_def Math_sqrt_def a_def[symmetric] q_def[symmetric]
          r1_def r2_def t_def c_def x_def)
  then show ?thesis using x by blast
qed


lemma minTravel_lower:
  assumes "accurate e" and "3000 \<le> x" and "x \<le> 30000"
  shows "\<exists>t. getMinTravelTime e (Finite x) = Finite t \<and> 11000000 \<le> t"
proof -
  define q1 where "q1 = fl e (x / 900)"
  define q2 where "q2 = fl e (q1 * 3600)"
  define q3 where "q3 = fl e (q2 * 1000)"
  have "\<bar>fl e (x / 900) - x / 900\<bar> \<le> 1 / 1000000"
    by (rule fl_close[OF assms(1)]) (use assms(2,3) in linarith)
  then have q1: "333 / 100 \<le> q1" "q1 \<le> 34" using assms(2,3) unfolding q1_def by linarith+
  have "\<bar>fl e (q1 * 3600) - q1 * 3600\<bar> \<le> 1 / 1000000"
    by (rule fl_close[OF assms(1)]) (use q1 in linarith)
  then have q2: "11987 \<le> q2" "q2 \<le> 122401" using q1 unfolding q2_def by linarith+
  have "\<bar>fl e (q2 * 1000) - q2 * 1000\<bar> \<le> 1 / 1000000"
    by (rule fl_close[OF assms(1)]) (use q2 in linarith)
  then have q3: "11000000 \<le> q3" using q2 unfolding q3_def by linarith
  have "getMinTravelTime e (Finite x) = Finite q3"
    by (simp add: getMinTravelTime_def q1_def q2_def q3_def)
  then show ?thesis using q3 by blast
qed








lemma exact_accurate: "exact e \<Longrightarrow> accurate e"
  by (simp add: exact_def accurate_def)


subsection \<open>The check\<close>

lemma checkGeo_known:
  assumes "geoip_lookup e ip = Some g" and "kv_last_location w userId = Some prev"
  shows "gc_isImpossible (fst (checkGeoImpossibility e userId ip w))
           = (js_less (Finite (real_of_int (date_now e - loc_timestamp prev)))
                (getMinTravelTime e
                   (calculateDistance e (loc_lat prev) (loc_lon prev) (fst (geo_ll g)) (snd (geo_ll g))))
              \<and> js_less (Finite 500)
                  (calculateDistance e (loc_lat prev) (loc_lon prev) (fst (geo_ll g)) (snd (geo_ll g))))"
    and "gc_riskScore (fst (checkGeoImpossibility e userId ip w))
           = (if gc_isImpossible (fst (checkGeoImpossibility e userId ip w)) then 95
              else if js_less (Finite 3000)
                        (calculateDistance e (loc_lat prev) (loc_lon prev) (fst (geo_ll g)) (snd (geo_ll g)))
                      \<and> date_now e - loc_timestamp prev < 3600000 then 75
              else if loc_country prev \<noteq> geo_country g then 40
              else if js_less (Finite 100)
                        (calculateDistance e (loc_lat prev) (loc_lon prev) (fst (geo_ll g)) (snd (geo_ll g)))
                   then 20
              else 0)"
    and "gc_distance (fst (checkGeoImpossibility e userId ip w))
           = Some (number_toFixed e
                     (calculateDistance e (loc_lat prev) (loc_lon prev) (fst (geo_ll g)) (snd (geo_ll g))) 2)"
  using assms by (simp_all add: checkGeoImpossibility_def Let_def)

lemma checkGeo_finite:
  assumes "geoip_lookup e ip = Some g" and "kv_last_location w userId = Some prev"
    and "calculateDistance e (loc_lat prev) (loc_lon prev) (fst (geo_ll g)) (snd (geo_ll g)) = Finite x"
    and "getMinTravelTime e (Finite x) = Finite t"
  shows "gc_isImpossible (fst (checkGeoImpossibility e userId ip w))
           = (real_of_int (date_now e - loc_timestamp prev) < t \<and> 500 < x)"
    and "gc_riskScore (fst (checkGeoImpossibility e userId ip w))
           = (if real_of_int (date_now e - loc_timestamp prev) < t \<and> 500 < x then 95
              else if 3000 < x \<and> date_now e - loc_timestamp prev < 3600000 then 75
              else if loc_country prev \<noteq> geo_country g then 40
              else if 100 < x then 20
              else 0)"
  unfolding checkGeo_known[OF assms(1,2)] assms(3,4) by simp_all




lemma checkGeo_delhi_newyork:
  assumes "geoip_lookup e ip = Some g" and "kv_last_location w userId = Some prev"
    and "accurate e"
    and "\<bar>loc_lat prev - 287 / 10\<bar> \<le> 1 / 100" and "\<bar>loc_lon prev - 771 / 10\<bar> \<le> 1 / 100"
    and "\<bar>fst (geo_ll g) - 4071 / 100\<bar> \<le> 1 / 100"
    and "\<bar>snd (geo_ll g) - (- (7401 / 100))\<bar> \<le> 1 / 100"
    and "date_now e - loc_timestamp prev \<le> 2 * 60 * 60 * 1000"
  shows "gc_isImpossible (fst (checkGeoImpossibility e userId ip w))"
    and "gc_riskScore (fst (checkGeoImpossibility e userId ip w)) = 95"
proof -
  let ?lat1 = "loc_lat prev" and ?lon1 = "loc_lon prev"
  let ?lat2 = "fst (geo_ll g)" and ?lon2 = "snd (geo_ll g)"
  have w: "2869 / 100 \<le> ?lat1" "?lat1 \<le> 2871 / 100" "7709 / 100 \<le> ?lon1" "?lon1 \<le> 7711 / 100"
    "4070 / 100 \<le> ?lat2" "?lat2 \<le> 4072 / 100" "- (7402 / 100) \<le> ?lon2" "?lon2 \<le> - (7400 / 100)"
    using assms(4,5,6,7) by linarith+
  have h: "1 / 2 \<le> haversine_a ?lat1 ?lon1 ?lat2 ?lon2" "haversine_a ?lat1 ?lon1 ?lat2 ?lon2 \<le> 9 / 10"
    by (rule haversine_a_delhi_newyork[OF w])+
  have "\<bar>calculateDistance_a e ?lat1 ?lon1 ?lat2 ?lon2 - haversine_a ?lat1 ?lon1 ?lat2 ?lon2\<bar> \<le> 1 / 40"
    by (rule a_close[OF assms(3)]) (use w in linarith)+
  then have a: "19 / 40 \<le> calculateDistance_a e ?lat1 ?lon1 ?lat2 ?lon2"
    "calculateDistance_a e ?lat1 ?lon1 ?lat2 ?lon2 \<le> 37 / 40"
    using h by linarith+
  obtain x where x: "calculateDistance e ?lat1 ?lon1 ?lat2 ?lon2 = Finite x"
    and far: "4000 \<le> x" "x \<le> 30000"
    using distance_from_a[OF assms(3) a] by blast
  obtain t where t: "getMinTravelTime e (Finite x) = Finite t" and long: "11000000 \<le> t"
    using minTravel_lower[OF assms(3) _ far(2)] far(1) by fastforce
  have "real_of_int (date_now e - loc_timestamp prev) \<le> 7200000"
    using assms(8) by linarith
  then have i: "real_of_int (date_now e - loc_timestamp prev) < t \<and> 500 < x"
    using long far(1) by linarith
  show "gc_isImpossible (fst (checkGeoImpossibility e userId ip w))"
    unfolding checkGeo_finite(1)[OF assms(1,2) x t] by (rule i)
  show "gc_riskScore (fst (checkGeoImpossibility e userId ip w)) = 95"
    unfolding checkGeo_finite(2)[OF assms(1,2) x t] using i by simp
qed



lemma exact_envAnn: "exact envAnn"
  by (simp add: exact_def envAnn_def env0_def)





section \<open>Properties of the alert rules engine\<close>

lemma bindE_Inr [simp]: "m w = (Inr x, w') \<Longrightarrow> bindE m f w = f x w'"
  by (simp add: bindE_def)

lemma bindE_Inl [simp]: "m w = (Inl err, w') \<Longrightarrow> bindE m f w = (Inl err, w')"
  by (simp add: bindE_def)

lemma tryCatch_Inr [simp]: "m w = (Inr x, w') \<Longrightarrow> tryCatch m h w = (Inr x, w')"
  by (simp add: tryCatch_def)

lemma tryCatch_Inl [simp]: "m w = (Inl err, w') \<Longrightarrow> tryCatch m h w = h err w'"
  by (simp add: tryCatch_def)

lemma io_cases:
  obtains (throws) err w' where "m w = (Inl err, w')" | (returns) x w' where "m w = (Inr x, w')"
  by (cases "m w") (metis prod.collapse sum.exhaust_sel prod.inject old.prod.exhaust sum.collapse)

lemma executeActions_returns: "\<exists>w'. executeActions col as al c w = (Inr (), w')"
proof (induction as arbitrary: w)
  case Nil
  show ?case by (simp add: returnE_def)
next
  case (Cons a as)
  show ?case
  proof (cases rule: io_cases[of "executeAction col a al c" w])
    case (throws err w1)
    then show ?thesis using Cons by (simp add: console_line_def modify_def)
  next
    case (returns x w1)
    then show ?thesis using Cons by simp
  qed
qed

lemma ruleBody_cases:
  obtains (throws) err w' where "ruleBody col e r c acc w = (Inl err, w')"
  | (returns) acc' w' where "ruleBody col e r c acc w = (Inr acc', w')"
  by (rule io_cases)

lemma evaluateRulesFrom_returns:
  "\<exists>alerts w'. evaluateRulesFrom col e rs c acc w = (Inr alerts, w')"
proof (induction rs arbitrary: acc w)
  case Nil
  show ?case by (simp add: returnE_def)
next
  case (Cons r rs)
  show ?case
  proof (cases rule: ruleBody_cases[of col e r c acc w])
    case (throws err w1)
    then show ?thesis using Cons by (simp add: console_line_def modify_def returnE_def)
  next
    case (returns acc' w1)
    then show ?thesis using Cons by simp
  qed
qed

lemma executeAction_production:
  "executeAction (production e) a al c w = (Inr (), actionEffect e a al c w)"
  by (simp add: executeAction_def production_def actionEffect_def modify_def
        sendEmailAlert_def sendSlackAlert_def console_line_def)

lemma executeActions_production:
  "executeActions (production e) as al c w = (Inr (), foldl (\<lambda>w a. actionEffect e a al c w) w as)"
  by (induction as arbitrary: w) (simp_all add: returnE_def executeAction_production)


lemma storeAlert_production:
  "c_storeAlert (production e) al w = (Inr (), storeAlert e al w)"
  by (simp add: production_def modify_def)

lemma ruleBody_production:
  "ruleBody (production e) e r c acc w =
     (case r_condition r c of
        Inl err \<Rightarrow> (Inl err, w)
      | Inr holds \<Rightarrow>
          if holds
          then (case r_message r c of
                  Inl err \<Rightarrow> (Inl err, w)
                | Inr msg \<Rightarrow> (Inr (fst (ruleStep e r c (acc, w))), snd (ruleStep e r c (acc, w))))
          else (Inr acc, w))"
  by (simp add: ruleBody_def liftE_def bindE_def executeActions_production
           storeAlert_production modify_def console_line_def returnE_def ruleStep_def Let_def
         split: sum.splits)

lemma evaluateRulesFrom_production:
  "evaluateRulesFrom (production e) e rs c acc w
     = (Inr (fst (foldl (\<lambda>s r. ruleStep e r c s) (acc, w) rs)),
        snd (foldl (\<lambda>s r. ruleStep e r c s) (acc, w) rs))"
proof (induction rs arbitrary: acc w)
  case Nil
  show ?case by (simp add: returnE_def)
next
  case (Cons r rs)
  have step: "tryCatch (ruleBody (production e) e r c acc)
                (\<lambda>err. bindE (console_line (''Error evaluating rule '' @ r_id r @ '': ''
                                            @ exn_message err))
                          (\<lambda>_. returnE acc)) w
              = (Inr (fst (ruleStep e r c (acc, w))), snd (ruleStep e r c (acc, w)))"
    by (simp add: tryCatch_def ruleBody_production bindE_def console_line_def modify_def
             returnE_def ruleStep_def Let_def
           split: sum.splits)
  show ?case
    using step by (simp add: bindE_def Cons.IH)
qed

lemma foldl_actions_frame:
  assumes "\<forall>a\<in>set as. \<forall>w. f (actionEffect e a al c w) = f w"
  shows "f (foldl (\<lambda>w a. actionEffect e a al c w) w as) = f w"
  using assms by (induction as arbitrary: w) simp_all

lemma ruleStep_frame:
  assumes acts: "r_condition r c = Inr True \<Longrightarrow>
                 \<forall>a\<in>set (r_actions r). \<forall>al w. al_ruleId al = r_id r \<longrightarrow> f (actionEffect e a al c w) = f w"
    and store: "\<And>al w. f (storeAlert e al w) = f w"
    and cons: "\<And>m w. f (w\<lparr> console := m \<rparr>) = f w"
  shows "f (snd (ruleStep e r c (acc, w))) = f w"
proof (cases "r_condition r c")
  case (Inl err)
  then show ?thesis by (simp add: ruleStep_def cons)
next
  case (Inr holds)
  show ?thesis
  proof (cases holds)
    case False
    then show ?thesis using Inr by (simp add: ruleStep_def)
  next
    case True
    show ?thesis
    proof (cases "r_message r c")
      case (Inl err)
      then show ?thesis using Inr True by (simp add: ruleStep_def cons)
    next
      case msg: (Inr m)
      have "\<forall>a\<in>set (r_actions r). \<forall>w. f (actionEffect e a (makeAlert e r c m) c w) = f w"
        using acts Inr True by (simp add: makeAlert_def)
      then have "f (foldl (\<lambda>w a. actionEffect e a (makeAlert e r c m) c w) w (r_actions r)) = f w"
        by (rule foldl_actions_frame)
      then show ?thesis using Inr True msg by (simp add: ruleStep_def Let_def cons store)
    qed
  qed
qed

lemma rules_frame:
  assumes acts: "\<forall>r\<in>set rs. r_condition r c = Inr True \<longrightarrow>
                 (\<forall>a\<in>set (r_actions r). \<forall>al w. al_ruleId al = r_id r \<longrightarrow> f (actionEffect e a al c w) = f w)"
    and store: "\<And>al w. f (storeAlert e al w) = f w"
    and cons: "\<And>m w. f (w\<lparr> console := m \<rparr>) = f w"
  shows "f (snd (foldl (\<lambda>s r. ruleStep e r c s) (acc, w) rs)) = f w"
  using acts
proof (induction rs arbitrary: acc w)
  case Nil
  show ?case by simp
next
  case (Cons r rs)
  have one: "f (snd (ruleStep e r c (acc, w))) = f w"
    using Cons.prems by (intro ruleStep_frame store cons) simp
  have "f (snd (foldl (\<lambda>s r. ruleStep e r c s) (ruleStep e r c (acc, w)) rs))
          = f (snd (ruleStep e r c (acc, w)))"
    using Cons.IH[of "fst (ruleStep e r c (acc, w))" "snd (ruleStep e r c (acc, w))"] Cons.prems
    by simp
  then show ?case using one by simp
qed

lemma ruleStep_alerts:
  "\<exists>more. fst (ruleStep e r c (acc, w)) = acc @ more \<and> (\<forall>a\<in>set more. al_ruleId a = r_id r)"
  by (auto simp: ruleStep_def Let_def makeAlert_def split: sum.splits)

lemma rules_alerts:
  "\<exists>more. fst (foldl (\<lambda>s r. ruleStep e r c s) (acc, w) rs) = acc @ more
          \<and> (\<forall>a\<in>set more. al_ruleId a \<in> r_id ` set rs)"
proof (induction rs arbitrary: acc w)
  case Nil
  show ?case by simp
next
  case (Cons r rs)
  obtain m1 where m1: "fst (ruleStep e r c (acc, w)) = acc @ m1" "\<forall>a\<in>set m1. al_ruleId a = r_id r"
    using ruleStep_alerts by blast
  obtain m2 where m2: "fst (foldl (\<lambda>s r. ruleStep e r c s) (ruleStep e r c (acc, w)) rs)
                         = fst (ruleStep e r c (acc, w)) @ m2"
                      "\<forall>a\<in>set m2. al_ruleId a \<in> r_id ` set rs"
    using Cons.IH[of "fst (ruleStep e r c (acc, w))" "snd (ruleStep e r c (acc, w))"] by auto
  show ?case
    by (rule exI[of _ "m1 @ m2"]) (use m1 m2 in auto)
qed


lemma geo_rule_first:
  "\<exists>rs. rules e =
      \<lparr> r_id = ''geo_impossibility'',
        r_name = ''Geographic Impossibility Detected'',
        r_condition = (\<lambda>c. Inr (case cx_geoCheck c of
                                  Some g \<Rightarrow> gc_isImpossible g = True | None \<Rightarrow> False)),
        r_severity = ''CRITICAL'',
        r_actions = [''email'', ''slack'', ''block_session''],
        r_message = (\<lambda>c. case cx_geoCheck c of
            Some g \<Rightarrow> Inr (''User '' @ cx_email c
                        @ '' attempted login from impossible location: '' @ gc_reason g)
          | None \<Rightarrow> Inl (TypeError ''Cannot read properties of undefined'')) \<rparr> # rs
      \<and> (\<forall>r\<in>set rs. r_id r \<noteq> ''geo_impossibility''
            \<and> ''block_session'' \<notin> set (r_actions r))"
  by (simp add: rules_def)

lemma other_rule_frames:
  assumes "r_id r \<noteq> ''geo_impossibility''" and "''block_session'' \<notin> set (r_actions r)"
    and "a \<in> set (r_actions r)" and "al_ruleId al = r_id r"
  shows "filter geoRuleCall (calls (actionEffect e a al c w)) = filter geoRuleCall (calls w)"
    and "kv_sessions (actionEffect e a al c w) = kv_sessions w"
    and "kv_user_sessions (actionEffect e a al c w) = kv_user_sessions w"
  using assms
  by (auto simp: actionEffect_def geoRuleCall_def blockUser_def flagUser_def)

text \<open>
  C7. When the geographic check of the alert context says impossible, one evaluation
  with the collaborators of the running system returns normally with exactly one alert
  of the rule \<open>geo_impossibility\<close>. Of the calls of that rule and of session deletions,
  the evaluation adds exactly three, in the order the rule declares its actions: the
  alert is handed to the email channel, then to Slack, then the session of the
  context's user and device is deleted. That session is absent afterwards and no other
  session changes.
\<close>

theorem evaluateRules_geo_impossibility:
  assumes "cx_geoCheck c = Some g" and "gc_isImpossible g"
  shows "case evaluateRules (production e) e c w of
           (Inl err, w') \<Rightarrow> False
         | (Inr alerts, w') \<Rightarrow>
             length (filter (\<lambda>a. al_ruleId a = ''geo_impossibility'') alerts) = 1
             \<and> filter geoRuleCall (calls w')
                 = filter geoRuleCall (calls w)
                   @ [EmailAlert ''geo_impossibility'', SlackAlert ''geo_impossibility'',
                      SessionDeleted (cx_userId c) (cx_deviceId c)]
             \<and> getSession (cx_userId c) (cx_deviceId c) w' = None
             \<and> kv_sessions w' = (kv_sessions w)((cx_userId c, cx_deviceId c) := None)"
proof -
  obtain r0 rs where split: "rules e = r0 # rs"
    and r0: "r0 = \<lparr> r_id = ''geo_impossibility'',
        r_name = ''Geographic Impossibility Detected'',
        r_condition = (\<lambda>c. Inr (case cx_geoCheck c of
                                  Some g \<Rightarrow> gc_isImpossible g = True | None \<Rightarrow> False)),
        r_severity = ''CRITICAL'',
        r_actions = [''email'', ''slack'', ''block_session''],
        r_message = (\<lambda>c. case cx_geoCheck c of
            Some g \<Rightarrow> Inr (''User '' @ cx_email c
                        @ '' attempted login from impossible location: '' @ gc_reason g)
          | None \<Rightarrow> Inl (TypeError ''Cannot read properties of undefined'')) \<rparr>"
    and others: "\<forall>r\<in>set rs. r_id r \<noteq> ''geo_impossibility'' \<and> ''block_session'' \<notin> set (r_actions r)"
    using geo_rule_first[of e] by blast
  define s1 where "s1 = ruleStep e r0 c ([], w)"
  define al0 where "al0 = makeAlert e r0 c (''User '' @ cx_email c
                        @ '' attempted login from impossible location: '' @ gc_reason g)"
  have first_alerts: "fst s1 = [al0]"
    using assms by (simp add: s1_def al0_def ruleStep_def r0 Let_def)
  have id0: "al_ruleId al0 = ''geo_impossibility''"
    by (simp add: al0_def makeAlert_def r0)
  have first_calls: "filter geoRuleCall (calls (snd s1))
        = filter geoRuleCall (calls w)
          @ [EmailAlert ''geo_impossibility'', SlackAlert ''geo_impossibility'',
             SessionDeleted (cx_userId c) (cx_deviceId c)]"
    using assms
    by (simp add: s1_def ruleStep_def r0 Let_def actionEffect_def makeAlert_def storeAlert_def
          deleteSession_def geoRuleCall_def)
  have first_sessions: "kv_sessions (snd s1) = (kv_sessions w)((cx_userId c, cx_deviceId c) := None)"
    using assms
    by (simp add: s1_def ruleStep_def r0 Let_def actionEffect_def makeAlert_def storeAlert_def
          deleteSession_def)
  let ?final = "foldl (\<lambda>s r. ruleStep e r c s) s1 rs"
  have result: "evaluateRules (production e) e c w = (Inr (fst ?final), snd ?final)"
    unfolding evaluateRules_def evaluateRulesFrom_production split s1_def by simp
  have keep_calls: "filter geoRuleCall (calls (snd ?final)) = filter geoRuleCall (calls (snd s1))"
  proof -
    have "filter geoRuleCall (calls (snd (foldl (\<lambda>s r. ruleStep e r c s) (fst s1, snd s1) rs)))
            = filter geoRuleCall (calls (snd s1))"
    proof (rule rules_frame[where f = "\<lambda>w. filter geoRuleCall (calls w)"])
      show "\<forall>r\<in>set rs. r_condition r c = Inr True \<longrightarrow>
              (\<forall>a\<in>set (r_actions r). \<forall>al w. al_ruleId al = r_id r \<longrightarrow>
                 filter geoRuleCall (calls (actionEffect e a al c w)) = filter geoRuleCall (calls w))"
        using others other_rule_frames(1) by blast
      show "\<And>al w. filter geoRuleCall (calls (storeAlert e al w)) = filter geoRuleCall (calls w)"
        by (simp add: storeAlert_def Let_def)
      show "\<And>m w. filter geoRuleCall (calls (w\<lparr> console := m \<rparr>)) = filter geoRuleCall (calls w)"
        by simp
    qed
    then show ?thesis by simp
  qed
  have keep_sessions: "kv_sessions (snd ?final) = kv_sessions (snd s1)"
  proof -
    have "kv_sessions (snd (foldl (\<lambda>s r. ruleStep e r c s) (fst s1, snd s1) rs))
            = kv_sessions (snd s1)"
    proof (rule rules_frame[where f = kv_sessions])
      show "\<forall>r\<in>set rs. r_condition r c = Inr True \<longrightarrow>
              (\<forall>a\<in>set (r_actions r). \<forall>al w. al_ruleId al = r_id r \<longrightarrow>
                 kv_sessions (actionEffect e a al c w) = kv_sessions w)"
        using others other_rule_frames(2) by blast
      show "\<And>al w. kv_sessions (storeAlert e al w) = kv_sessions w"
        by (simp add: storeAlert_def Let_def)
      show "\<And>m w. kv_sessions (w\<lparr> console := m \<rparr>) = kv_sessions w"
        by simp
    qed
    then show ?thesis by simp
  qed
  obtain more where more: "fst ?final = fst s1 @ more" "\<forall>a\<in>set more. al_ruleId a \<in> r_id ` set rs"
    using rules_alerts[of e c "fst s1" "snd s1" rs] by auto
  have "\<forall>a\<in>set more. al_ruleId a \<noteq> ''geo_impossibility''"
    using more(2) others by auto
  then have "filter (\<lambda>a. al_ruleId a = ''geo_impossibility'') more = []"
    by (simp add: filter_empty_conv)
  then have one: "length (filter (\<lambda>a. al_ruleId a = ''geo_impossibility'') (fst ?final)) = 1"
    by (simp add: more(1) first_alerts id0)
  show ?thesis
    unfolding result
    by (simp add: one keep_calls first_calls keep_sessions first_sessions getSession_def)
qed


lemma rule_failure_contained:
  assumes "ruleBody col e r c acc w = (Inl err, w1)"
  shows "evaluateRulesFrom col e (r # rest) c acc w
           = evaluateRulesFrom col e rest c acc
               (w1\<lparr> console := console w1
                  @ [''Error evaluating rule '' @ r_id r @ '': '' @ exn_message err] \<rparr>)"
  using assms by (simp add: console_line_def modify_def returnE_def)

lemma rule_success_continues:
  assumes "ruleBody col e r c acc w = (Inr acc1, w1)"
  shows "evaluateRulesFrom col e (r # rest) c acc w = evaluateRulesFrom col e rest c acc1 w1"
  using assms by simp

lemma action_failure_contained:
  assumes "executeAction col a al c w = (Inl err, w1)"
  shows "executeActions col (a # later) al c w
           = executeActions col later al c
               (w1\<lparr> console := console w1
                  @ [''Error executing action '' @ a @ '': '' @ exn_message err] \<rparr>)"
  using assms by (simp add: console_line_def modify_def)

lemma login_knownDevice_continues:
  "login_knownDevice col e req usr fp ipAddress geoCk ts c dev w
     = login_sessionEnforcement e req usr fp ipAddress geoCk ts
         (storeLocationHistory e (u_id usr) ipAddress (fp_deviceId fp)
           (trackDeviceUser (fp_deviceId fp) (u_id usr)
             (incrementLoginCount (fp_deviceId fp)
               (Device_save (dev\<lparr> d_lastLogin := date_now e \<rparr>)
                 (snd (evaluateRules col e c w))))))"
proof -
  obtain alerts w1 where ev: "evaluateRules col e c w = (Inr alerts, w1)"
    using evaluateRulesFrom_returns[of col e "rules e" c "[]" w] by (auto simp: evaluateRules_def)
  show ?thesis
    by (simp add: login_knownDevice_def bindE_Inr[where m = "evaluateRules col e c", OF ev] ev Let_def)
qed


theorem evaluateRules_geo_impossibility_witness:
  "(case fst (evaluateRules (production env0) env0 ctxGeo worldA) of
      Inl err \<Rightarrow> False
    | Inr alerts \<Rightarrow> length (filter (\<lambda>a. al_ruleId a = ''geo_impossibility'') alerts) = 1)
   \<and> filter geoRuleCall (calls (snd (evaluateRules (production env0) env0 ctxGeo worldA)))
       = [EmailAlert ''geo_impossibility'', SlackAlert ''geo_impossibility'',
          SessionDeleted ''user-1'' ''device-A'']
   \<and> getSession ''user-1'' ''device-A'' worldA = Some sessionA
   \<and> getSession ''user-1'' ''device-A''
         (snd (evaluateRules (production env0) env0 ctxGeo worldA)) = None"
proof -
  have h1: "cx_geoCheck ctxGeo = Some geoCheckImpossible"
    by (simp add: ctxGeo_def)
  have h2: "gc_isImpossible geoCheckImpossible"
    by (simp add: geoCheckImpossible_def)
  have h3: "calls worldA = []" "cx_userId ctxGeo = ''user-1''" "cx_deviceId ctxGeo = ''device-A''"
    by (simp_all add: worldA_def emptyWorld_def ctxGeo_def)
  have h4: "getSession ''user-1'' ''device-A'' worldA = Some sessionA"
    by (simp add: getSession_def worldA_def emptyWorld_def)
  show ?thesis
    using evaluateRules_geo_impossibility [OF h1 h2, where e = env0 and w = worldA] h4
    by (auto simp: h3 split: prod.splits sum.splits)
qed

section \<open>Properties of spoofing detection and of the login handler\<close>

lemma read_device_throws:
  "read_binding ''device'' (Uninitialized :: device option binding) = Inl (ReferenceError tdzMessage)"
  by (simp add: read_binding_def tdzMessage_def)

lemma login_try_credentials:
  assumes "db_users w (req_email req) = Some usr"
    and "bcrypt_compare e (req_password req) (u_password usr)"
    and "generateEnhancedFingerprint e req (req_fingerprint req) = fp"
    and "detectSpoofing (fp_components fp) = Inr sp"
    and "checkGeoImpossibility e (u_id usr) (clientIp req) w = (geoCk, w1)"
  shows "login_try col e req w =
    (if isSuspicious sp \<and> riskScore sp > 70
     then (Inr (SuspiciousActivity (warnings sp)), blockUser (u_id usr) 3600 w)
     else if gc_isImpossible geoCk
     then bindE (evaluateRules col e (initialAlertContext usr fp (clientIp req) geoCk))
            (\<lambda>_ w'. (Inr (OtpRequiredLocation (gc_reason geoCk)), issueOtp e usr w')) w1
     else (Inl (ReferenceError tdzMessage),
           snd (calculateTrustScore e (u_id usr) (fp_deviceId fp) (clientIp req) w1)))"
  using assms
  by (simp add: login_try_def Let_def case_prod_beta read_device_throws)

lemma scanSignals_sum:
  "scanSignals u ts (ws, r)
     = (ws @ map (\<lambda>t. ''Automation detected: '' @ t) (filter (js_includes u) ts),
        r + 50 * int (length (filter (js_includes u) ts)))"
  by (induction ts arbitrary: ws r) simp_all

lemma detectSpoofing_additive:
  assumes "detectSpoofing c = Inr a"
  shows "riskScore a = min 100 (additiveRisk automationSignals c)
         \<and> isSuspicious a = (additiveRisk automationSignals c > 50)"
proof (cases "getProp c ''userAgent''")
  case (JStr s)
  obtain ws r where acc: "scanSignals (toLowerCase s) automationSignals
       (if s = [] \<or> length s < 20 then ([''Suspicious user agent''], 30) else ([], 0))
       = (ws, r)"
    by (cases "scanSignals (toLowerCase s) automationSignals
       (if s = [] \<or> length s < 20 then ([''Suspicious user agent''], 30) else ([], 0))") 
  have r: "r = (if length s < 20 then 30 else 0)
               + 50 * int (length (filter (js_includes (toLowerCase s)) automationSignals))"
    using acc by (auto simp: scanSignals_sum split: if_splits)
  show ?thesis
  proof (cases "truthy (getProp c ''platform'') \<and> truthy (getProp c ''os'')")
    case True
    then obtain p where p: "getProp c ''platform'' = JStr p"
      using assms JStr by (cases "getProp c ''platform''") (simp_all add: detectSpoofing_def Let_def)
    obtain q where q: "getProp c ''os'' = JStr q"
      using assms JStr True p by (cases "getProp c ''os''") (simp_all add: detectSpoofing_def Let_def)
    have ne: "p \<noteq> []" "q \<noteq> []" using True p q by simp_all
    have a: "a = clientSideCheck c (if platformMismatch (toLowerCase p) (toLowerCase q)
                                then (ws @ [''Platform-OS mismatch''], r + 25) else (ws, r))"
      using assms True by (simp add: detectSpoofing_def Let_def JStr p q acc cong: if_cong)
    show ?thesis
      unfolding a by (simp add: clientSideCheck_def additiveRisk_def JStr p q ne r Let_def)
  next
    case False
    have a: "a = clientSideCheck c (ws, r)"
      using assms False by (simp add: detectSpoofing_def Let_def JStr acc)
    have "(case (getProp c ''platform'', getProp c ''os'') of
             (JStr p, JStr os') \<Rightarrow>
               (if p \<noteq> [] \<and> os' \<noteq> [] \<and> platformMismatch (toLowerCase p) (toLowerCase os')
                then 25 else 0)
           | _ \<Rightarrow> (0::int)) = 0"
      using False by (cases "getProp c ''platform''"; cases "getProp c ''os''") auto
    then show ?thesis
      unfolding a by (simp add: clientSideCheck_def additiveRisk_def JStr r Let_def)
  qed
qed (use assms in \<open>simp_all add: detectSpoofing_def\<close>)

lemma block_threshold_implies_flag:
  assumes "detectSpoofing c = Inr sp" and "riskScore sp > 70"
  shows "isSuspicious sp"
  using detectSpoofing_additive[OF assms(1)] assms(2) by simp

lemma login_suspicious:
  assumes "db_users w (req_email req) = Some usr"
    and "bcrypt_compare e (req_password req) (u_password usr)"
    and "detectSpoofing (fp_components (generateEnhancedFingerprint e req (req_fingerprint req))) = Inr sp"
    and "riskScore sp > 70"
  shows "login col e req w = (SuspiciousActivity (warnings sp), blockUser (u_id usr) 3600 w)"
proof -
  obtain geoCk w1 where g: "checkGeoImpossibility e (u_id usr) (clientIp req) w = (geoCk, w1)"
    by (cases "checkGeoImpossibility e (u_id usr) (clientIp req) w")
  have "isSuspicious sp" using block_threshold_implies_flag assms(3,4) by blast
  then show ?thesis
    using assms(4) by (simp add: login_def login_try_credentials[OF assms(1,2) refl assms(3) g])
qed

lemma login_geo_impossible:
  assumes "db_users w (req_email req) = Some usr"
    and "bcrypt_compare e (req_password req) (u_password usr)"
    and "generateEnhancedFingerprint e req (req_fingerprint req) = fp"
    and "detectSpoofing (fp_components fp) = Inr sp"
    and "\<not> riskScore sp > 70"
    and "checkGeoImpossibility e (u_id usr) (clientIp req) w = (geoCk, w1)"
    and "gc_isImpossible geoCk"
  shows "login col e req w
           = (OtpRequiredLocation (gc_reason geoCk),
              issueOtp e usr
                (snd (evaluateRules col e (initialAlertContext usr fp (clientIp req) geoCk) w1)))"
proof -
  obtain alerts w2 where ev: "evaluateRules col e (initialAlertContext usr fp (clientIp req) geoCk) w1
                                = (Inr alerts, w2)"
    using evaluateRulesFrom_returns
            [of col e "rules e" "initialAlertContext usr fp (clientIp req) geoCk" "[]" w1]
    unfolding evaluateRules_def by blast
  show ?thesis
    using assms(5,7) ev
    by (simp add: login_def login_try_credentials[OF assms(1,2,3,4,6)] bindE_def)
qed

lemma login_reference_error:
  assumes "db_users w (req_email req) = Some usr"
    and "bcrypt_compare e (req_password req) (u_password usr)"
    and "generateEnhancedFingerprint e req (req_fingerprint req) = fp"
    and "detectSpoofing (fp_components fp) = Inr sp"
    and "\<not> riskScore sp > 70"
    and "checkGeoImpossibility e (u_id usr) (clientIp req) w = (geoCk, w1)"
    and "\<not> gc_isImpossible geoCk"
    and "calculateTrustScore e (u_id usr) (fp_deviceId fp) (clientIp req) w1 = (ts, w2)"
  shows "login_try col e req w = (Inl (ReferenceError tdzMessage), w2)"
    and "login col e req w
           = (LoginFailed tdzMessage, w2\<lparr> console := console w2 @ [''Login error: '' @ tdzMessage] \<rparr>)"
  using assms(5,7,8)
  by (simp_all add: login_def login_try_credentials[OF assms(1,2,3,4,6)] exn_message_def)

lemma checkGeo_world:
  "\<exists>m. snd (checkGeoImpossibility e u ip w) = w\<lparr> kv_last_location := m \<rparr>"
proof (cases "geoip_lookup e ip")
  case None
  have "snd (checkGeoImpossibility e u ip w) = w\<lparr> kv_last_location := kv_last_location w \<rparr>"
    using None by (simp add: checkGeoImpossibility_def)
  then show ?thesis by (rule exI[where x = "kv_last_location w"])
next
  case (Some g)
  then show ?thesis
    by (cases "kv_last_location w u") (auto simp: checkGeoImpossibility_def Let_def case_prod_beta)
qed

lemma geoScore_world:
  "\<exists>cs. snd (getGeoConsistencyScore e d ip w) = w\<lparr> kv_countries := cs \<rparr>"
proof (cases "\<exists>g. geoip_lookup e ip = Some g
                  \<and> (length (kv_countries w d) = 0 \<or> geo_country g \<notin> set (kv_countries w d))")
  case True
  then show ?thesis
    by (auto simp: getGeoConsistencyScore_def Let_def)
next
  case False
  then have "snd (getGeoConsistencyScore e d ip w) = w\<lparr> kv_countries := kv_countries w \<rparr>"
    by (cases "geoip_lookup e ip") (auto simp: getGeoConsistencyScore_def Let_def)
  then show ?thesis by (rule exI[where x = "kv_countries w"])
qed

lemma trust_world:
  "\<exists>cs t. snd (calculateTrustScore e u d ip w) = w\<lparr> kv_countries := cs, kv_trust := t \<rparr>"
proof -
  obtain cs where cs: "snd (getGeoConsistencyScore e d ip w) = w\<lparr> kv_countries := cs \<rparr>"
    using geoScore_world by blast
  show ?thesis
    by (auto simp: calculateTrustScore_def Let_def case_prod_beta storeTrustScore_def cs)
qed






text \<open>
  C2. A request that passes the credential check, whose spoofing risk does not exceed
  70 and whose travel is not impossible, runs until the trust score is stored; the next
  statement reads \<open>device\<close> before its declaration and throws. The handler answers
  500 with the message of that exception. No session is created or deleted, no
  one-time password is stored or mailed, no device is created, and the login counters
  stay as they were: the state differs from the initial one only in what the geographic
  check and the trust score stored, and in the console line of the error.
\<close>

theorem login_throws_before_device_lookup:
  assumes "db_users w (req_email req) = Some usr"
    and "bcrypt_compare e (req_password req) (u_password usr)"
    and "generateEnhancedFingerprint e req (req_fingerprint req) = fp"
    and "detectSpoofing (fp_components fp) = Inr sp"
    and "riskScore sp \<le> 70"
    and "checkGeoImpossibility e (u_id usr) (clientIp req) w = (geoCk, w1)"
    and "\<not> gc_isImpossible geoCk"
    and "calculateTrustScore e (u_id usr) (fp_deviceId fp) (clientIp req) w1 = (ts, w2)"
  shows "login_try col e req w = (Inl (ReferenceError tdzMessage), w2)
         \<and> login col e req w
             = (LoginFailed tdzMessage,
                w2\<lparr> console := console w2 @ [''Login error: '' @ tdzMessage] \<rparr>)
         \<and> status (fst (login col e req w)) = 500
         \<and> calls (snd (login col e req w)) = calls w
         \<and> kv_sessions (snd (login col e req w)) = kv_sessions w
         \<and> kv_user_sessions (snd (login col e req w)) = kv_user_sessions w
         \<and> db_sessions (snd (login col e req w)) = db_sessions w
         \<and> db_devices (snd (login col e req w)) = db_devices w
         \<and> db_users (snd (login col e req w)) = db_users w
         \<and> kv_login_count (snd (login col e req w)) = kv_login_count w
         \<and> kv_device_users (snd (login col e req w)) = kv_device_users w
         \<and> kv_alerts (snd (login col e req w)) = kv_alerts w"
proof -
  have below: "\<not> riskScore sp > 70" using assms(5) by simp
  obtain m where w1: "w1 = w\<lparr> kv_last_location := m \<rparr>"
    using checkGeo_world[of e "u_id usr" "clientIp req" w] assms(6) by auto
  obtain cs t where w2: "w2 = w1\<lparr> kv_countries := cs, kv_trust := t \<rparr>"
    using trust_world[of e "u_id usr" "fp_deviceId fp" "clientIp req" w1] assms(8) by auto
  note l = login_reference_error[OF assms(1,2,3,4) below assms(6,7,8), of col]
  show ?thesis
    unfolding l by (simp add: w1 w2)
qed



lemma fp_components_gen:
  "fp_components (generateEnhancedFingerprint e req f)
     = fingerprintComponents e req (case f of Some x \<Rightarrow> x | None \<Rightarrow> [])"
  by (simp add: generateEnhancedFingerprint_def Let_def)

lemma components_Ann:
  "fp_components (generateEnhancedFingerprint envAnn requestAnn (req_fingerprint requestAnn))
   = [(''userAgent'', JStr ''Mozilla/5.0 (Windows NT 10.0; Win64; x64) Firefox/120.0''),
      (''ip'', JStr ''203.0.113.7''),
      (''browser'', JStr ''Firefox''),
      (''browserVersion'', JStr ''120.0''),
      (''engine'', JStr []),
      (''os'', JStr ''Windows''),
      (''osVersion'', JStr ''10''),
      (''deviceType'', JStr ''desktop''),
      (''deviceVendor'', JStr []),
      (''deviceModel'', JStr []),
      (''cpu'', JStr []),
      (''acceptLanguage'', JStr []),
      (''acceptEncoding'', JStr []),
      (''accept'', JStr []),
      (''screenResolution'', JStr []),
      (''timezone'', JStr []),
      (''timezoneOffset'', JStr []),
      (''canvas'', JStr ''c4f3a1''),
      (''webgl'', JObj [(''vendor'', JStr ''Intel Inc.''), (''renderer'', JStr ''Intel Iris'')]),
      (''fonts'', JStr []),
      (''plugins'', JStr []),
      (''audioContext'', JStr []),
      (''platform'', JStr ''Win32''),
      (''hardwareConcurrency'', JStr []),
      (''deviceMemory'', JStr []),
      (''colorDepth'', JStr []),
      (''pixelRatio'', JStr [])]"
  by (simp add: fp_components_gen fingerprintComponents_def envAnn_def env0_def
        requestAnn_def fingerprintAnn_def noUa_def str_or_def js_or_def getProp_def clientIp_def)

lemma spoof_Ann:
  "detectSpoofing (fp_components (generateEnhancedFingerprint envAnn requestAnn
       (req_fingerprint requestAnn)))
     = Inr \<lparr> isSuspicious = False, riskScore = 0, warnings = [] \<rparr>"
  unfolding components_Ann by code_simp

lemma ip_Ann: "clientIp requestAnn = ''203.0.113.7''"
  by (simp add: clientIp_def requestAnn_def str_or_def)

lemma delhi: "geoip_lookup envAnn ''203.0.113.7''
    = Some \<lparr> geo_country = ''IN'', geo_city = ''Delhi'', geo_ll = (28.70, 77.10) \<rparr>"
  by (simp add: envAnn_def env0_def)

theorem login_throws_witness:
  "login (production envAnn) envAnn requestAnn worldNew
     = (LoginFailed tdzMessage,
        snd (login (production envAnn) envAnn requestAnn worldNew))
   \<and> status (fst (login (production envAnn) envAnn requestAnn worldNew)) = 500
   \<and> calls (snd (login (production envAnn) envAnn requestAnn worldNew)) = []
   \<and> kv_sessions (snd (login (production envAnn) envAnn requestAnn worldNew)) = Map.empty
   \<and> db_devices (snd (login (production envAnn) envAnn requestAnn worldNew)) = []"
proof -
  have h1: "db_users worldNew (req_email requestAnn) = Some userAnn"
    by (simp add: worldNew_def requestAnn_def)
  have h2: "bcrypt_compare envAnn (req_password requestAnn) (u_password userAnn)"
    by (simp add: envAnn_def env0_def requestAnn_def userAnn_def)
  have h5: "riskScore \<lparr> isSuspicious = False, riskScore = 0, warnings = [] \<rparr> \<le> 70"
    by simp
  have h6: "checkGeoImpossibility envAnn (u_id userAnn) (clientIp requestAnn) worldNew
              = (fst (checkGeoImpossibility envAnn (u_id userAnn) (clientIp requestAnn) worldNew),
                 snd (checkGeoImpossibility envAnn (u_id userAnn) (clientIp requestAnn) worldNew))"
    by simp
  have h7: "\<not> gc_isImpossible
               (fst (checkGeoImpossibility envAnn (u_id userAnn) (clientIp requestAnn) worldNew))"
    by (simp add: checkGeoImpossibility_def ip_Ann delhi Let_def worldNew_def emptyWorld_def
          userAnn_def)
  have h8: "calculateTrustScore envAnn (u_id userAnn)
              (fp_deviceId (generateEnhancedFingerprint envAnn requestAnn (req_fingerprint requestAnn)))
              (clientIp requestAnn)
              (snd (checkGeoImpossibility envAnn (u_id userAnn) (clientIp requestAnn) worldNew))
            = (fst (calculateTrustScore envAnn (u_id userAnn)
              (fp_deviceId (generateEnhancedFingerprint envAnn requestAnn (req_fingerprint requestAnn)))
              (clientIp requestAnn)
              (snd (checkGeoImpossibility envAnn (u_id userAnn) (clientIp requestAnn) worldNew))),
               snd (calculateTrustScore envAnn (u_id userAnn)
              (fp_deviceId (generateEnhancedFingerprint envAnn requestAnn (req_fingerprint requestAnn)))
              (clientIp requestAnn)
              (snd (checkGeoImpossibility envAnn (u_id userAnn) (clientIp requestAnn) worldNew))))"
    by simp
  have w: "calls worldNew = []" "kv_sessions worldNew = Map.empty" "db_devices worldNew = []"
    by (simp_all add: worldNew_def emptyWorld_def)
  show ?thesis
    using login_throws_before_device_lookup [OF h1 h2 refl spoof_Ann h5 h6 h7 h8, of "production envAnn"]
    by (elim conjE) (simp add: w)
qed





section \<open>Failures inside the alert rules engine\<close>

lemma travel_delhi_newyork:
  assumes "geoip_lookup e ip = Some g" and "kv_last_location w userId = Some prev"
    and "loc_lat prev = 287 / 10" and "loc_lon prev = 771 / 10"
    and "geo_ll g = (4071 / 100, - (7401 / 100))"
    and "date_now e - loc_timestamp prev = 7200000"
    and "accurate e"
  shows "gc_isImpossible (fst (checkGeoImpossibility e userId ip w))"
  by (rule checkGeo_delhi_newyork(1)[OF assms(1,2,7)]) (simp_all add: assms(3,4,5,6))

text \<open>
  C8. With any collaborators, failing ones included, \<open>evaluateRules\<close> and
  \<open>executeActions\<close> return normally. When the body of one rule throws (in its
  condition, its message, its actions or the storing of the alert), the loop logs the
  error and goes on with the remaining rules from the state the rule left and with the
  alerts collected so far. When one action throws, the loop logs the error and runs the
  remaining actions of the rule. The login handler goes on after the evaluation as it does
  after any evaluation: for a known device to the session enforcement, and when the
  travel is impossible to the answer that asks for a one-time password.
\<close>

theorem rule_and_action_failures_contained:
  "(\<exists>alerts w'. evaluateRules col e c w = (Inr alerts, w'))
   \<and> (\<exists>w'. executeActions col actions al c w = (Inr (), w'))
   \<and> (ruleBody col e r c acc w = (Inl err1, w1) \<longrightarrow>
        evaluateRulesFrom col e (r # rest) c acc w
          = evaluateRulesFrom col e rest c acc
              (w1\<lparr> console := console w1
                 @ [''Error evaluating rule '' @ r_id r @ '': '' @ exn_message err1] \<rparr>))
   \<and> (executeAction col a al c w = (Inl err2, w2) \<longrightarrow>
        executeActions col (a # later) al c w
          = executeActions col later al c
              (w2\<lparr> console := console w2
                 @ [''Error executing action '' @ a @ '': '' @ exn_message err2] \<rparr>))
   \<and> login_knownDevice col e req usr fp ipAddress geoCk ts c dev w
       = login_sessionEnforcement e req usr fp ipAddress geoCk ts
           (storeLocationHistory e (u_id usr) ipAddress (fp_deviceId fp)
             (trackDeviceUser (fp_deviceId fp) (u_id usr)
               (incrementLoginCount (fp_deviceId fp)
                 (Device_save (dev\<lparr> d_lastLogin := date_now e \<rparr>)
                   (snd (evaluateRules col e c w))))))
   \<and> (db_users w (req_email req) = Some usr
        \<and> bcrypt_compare e (req_password req) (u_password usr)
        \<and> detectSpoofing (fp_components (generateEnhancedFingerprint e req (req_fingerprint req)))
            = Inr sp
        \<and> riskScore sp \<le> 70
        \<and> gc_isImpossible (fst (checkGeoImpossibility e (u_id usr) (clientIp req) w))
        \<longrightarrow> fst (login col e req w)
              = OtpRequiredLocation
                  (gc_reason (fst (checkGeoImpossibility e (u_id usr) (clientIp req) w))))"
proof -
  have p1: "\<exists>alerts w'. evaluateRules col e c w = (Inr alerts, w')"
    unfolding evaluateRules_def by (rule evaluateRulesFrom_returns)
  have p2: "\<exists>w'. executeActions col actions al c w = (Inr (), w')"
    by (rule executeActions_returns)
  have p3: "ruleBody col e r c acc w = (Inl err1, w1) \<longrightarrow>
        evaluateRulesFrom col e (r # rest) c acc w
          = evaluateRulesFrom col e rest c acc
              (w1\<lparr> console := console w1
                 @ [''Error evaluating rule '' @ r_id r @ '': '' @ exn_message err1] \<rparr>)"
    using rule_failure_contained by blast
  have p4: "executeAction col a al c w = (Inl err2, w2) \<longrightarrow>
        executeActions col (a # later) al c w
          = executeActions col later al c
              (w2\<lparr> console := console w2
                 @ [''Error executing action '' @ a @ '': '' @ exn_message err2] \<rparr>)"
    using action_failure_contained by blast
  note p5 = login_knownDevice_continues[of col e req usr fp ipAddress geoCk ts c dev w]
  have p6: "db_users w (req_email req) = Some usr
        \<and> bcrypt_compare e (req_password req) (u_password usr)
        \<and> detectSpoofing (fp_components (generateEnhancedFingerprint e req (req_fingerprint req)))
            = Inr sp
        \<and> riskScore sp \<le> 70
        \<and> gc_isImpossible (fst (checkGeoImpossibility e (u_id usr) (clientIp req) w))
        \<longrightarrow> fst (login col e req w)
              = OtpRequiredLocation
                  (gc_reason (fst (checkGeoImpossibility e (u_id usr) (clientIp req) w)))"
  proof (intro impI, elim conjE)
    assume a: "db_users w (req_email req) = Some usr"
      "bcrypt_compare e (req_password req) (u_password usr)"
      "detectSpoofing (fp_components (generateEnhancedFingerprint e req (req_fingerprint req))) = Inr sp"
      "riskScore sp \<le> 70"
      "gc_isImpossible (fst (checkGeoImpossibility e (u_id usr) (clientIp req) w))"
    have below: "\<not> riskScore sp > 70" using a(4) by simp
    have g: "checkGeoImpossibility e (u_id usr) (clientIp req) w
               = (fst (checkGeoImpossibility e (u_id usr) (clientIp req) w),
                  snd (checkGeoImpossibility e (u_id usr) (clientIp req) w))"
      by simp
    show "fst (login col e req w)
              = OtpRequiredLocation
                  (gc_reason (fst (checkGeoImpossibility e (u_id usr) (clientIp req) w)))"
      by (simp add: login_geo_impossible[OF a(1,2) refl a(3) below g a(5)])
  qed
  show ?thesis
    by (rule conjI[OF p1 conjI[OF p2 conjI[OF p3 conjI[OF p4 conjI[OF p5 p6]]]]])
qed

lemma spoof_NY:
  "detectSpoofing (fp_components (generateEnhancedFingerprint envAnn requestNY
       (req_fingerprint requestNY)))
     = Inr \<lparr> isSuspicious = False, riskScore = 0, warnings = [] \<rparr>"
proof -
  have n: "fp_components (generateEnhancedFingerprint envAnn requestNY (req_fingerprint requestNY))
        = (fp_components (generateEnhancedFingerprint envAnn requestAnn (req_fingerprint requestAnn)))
            [1 := (''ip'', JStr ''198.51.100.9'')]"
    by (simp add: fp_components_gen fingerprintComponents_def envAnn_def env0_def requestNY_def
        requestAnn_def fingerprintAnn_def noUa_def str_or_def js_or_def getProp_def clientIp_def)
  show ?thesis
    unfolding n[unfolded components_Ann] by code_simp
qed

lemma impossible_NY:
  "gc_isImpossible (fst (checkGeoImpossibility envAnn (u_id userAnn) (clientIp requestNY)
      worldAnnDelhi))"
proof (rule travel_delhi_newyork)
  show "geoip_lookup envAnn (clientIp requestNY)
          = Some \<lparr> geo_country = ''US'', geo_city = ''New York'', geo_ll = (40.71, - 74.01) \<rparr>"
    by (simp add: envAnn_def env0_def clientIp_def requestNY_def requestAnn_def str_or_def)
  show "kv_last_location worldAnnDelhi (u_id userAnn)
          = Some \<lparr> loc_country = ''IN'', loc_city = ''Delhi'', loc_lat = 28.70,
                    loc_lon = 77.10, loc_timestamp = 1699992800000 \<rparr>"
    by (simp add: worldAnnDelhi_def worldDelhi_def emptyWorld_def userAnn_def)
  show "date_now envAnn
          - loc_timestamp \<lparr> loc_country = ''IN'', loc_city = ''Delhi'', loc_lat = 28.70,
                    loc_lon = 77.10, loc_timestamp = 1699992800000 \<rparr> = 7200000"
    by (simp add: envAnn_def env0_def)
  show "accurate envAnn"
    by (rule exact_accurate[OF exact_envAnn])
qed simp_all

theorem rule_and_action_failures_contained_witness:
  "executeActions brokenChannels [''email'', ''slack'', ''block_session''] alertGeo ctxGeo worldA
     = executeActions brokenChannels [''slack'', ''block_session''] alertGeo ctxGeo
         (worldA\<lparr> console := [''Error executing action email: SMTP connection refused''] \<rparr>)
   \<and> calls (snd (executeActions brokenChannels [''email'', ''slack'', ''block_session'']
                    alertGeo ctxGeo worldA))
       = [SlackAlert ''geo_impossibility'', SessionDeleted ''user-1'' ''device-A'']
   \<and> evaluateRules brokenChannels env0 ctxGeo worldA
       = evaluateRulesFrom brokenChannels env0 (tl (rules env0)) ctxGeo []
           (snd (executeActions brokenChannels [''email'', ''slack'', ''block_session'']
                    alertGeo ctxGeo worldA)
              \<lparr> console := [''Error executing action email: SMTP connection refused'',
                            ''Error evaluating rule geo_impossibility: store unavailable''] \<rparr>)
   \<and> fst (evaluateRules brokenChannels env0 ctxGeo worldA) = Inr []
   \<and> fst (login brokenChannels envAnn requestNY worldAnnDelhi)
       = OtpRequiredLocation
           (gc_reason (fst (checkGeoImpossibility envAnn ''user-1'' ''198.51.100.9'' worldAnnDelhi)))
   \<and> status (fst (login brokenChannels envAnn requestNY worldAnnDelhi)) = 200"
proof -
  have a1: "executeAction brokenChannels ''email'' alertGeo ctxGeo worldA
              = (Inl (Failure ''SMTP connection refused''), worldA)"
    by (simp add: executeAction_def brokenChannels_def throwE_def)
  have acts: "executeActions brokenChannels [''slack'', ''block_session''] alertGeo ctxGeo
         (worldA\<lparr> console := [''Error executing action email: SMTP connection refused''] \<rparr>)
      = (Inr (), worldA\<lparr> console := [''Error executing action email: SMTP connection refused''],
            calls := [SlackAlert ''geo_impossibility'', SessionDeleted ''user-1'' ''device-A''],
            kv_sessions := Map.empty,
            kv_user_sessions := (\<lambda>u. []) \<rparr>)"
    apply (simp add: executeAction_def brokenChannels_def production_def bindE_def tryCatch_def
          returnE_def modify_def sendSlackAlert_def deleteSession_def srem_def alertGeo_def
          makeAlert_def rules_def ctxGeo_def worldA_def emptyWorld_def)
    apply (rule ext)
    apply simp
    done
  have a2: "executeActions brokenChannels [''email'', ''slack'', ''block_session''] alertGeo ctxGeo worldA
      = executeActions brokenChannels [''slack'', ''block_session''] alertGeo ctxGeo
         (worldA\<lparr> console := [''Error executing action email: SMTP connection refused''] \<rparr>)"
    using rule_and_action_failures_contained [where col = brokenChannels and a = "''email''" and al = alertGeo and c = ctxGeo
                and w = worldA and ?err2.0 = "Failure ''SMTP connection refused''"
                and ?w2.0 = worldA and later = "[''slack'', ''block_session'']"] a1
    by (simp add: exn_message_def worldA_def emptyWorld_def)
  define W1 where "W1 = snd (executeActions brokenChannels [''email'', ''slack'', ''block_session'']
                    alertGeo ctxGeo worldA)"
  have W1: "executeActions brokenChannels [''email'', ''slack'', ''block_session''] alertGeo ctxGeo worldA
              = (Inr (), W1)"
    unfolding W1_def a2 acts by simp
  have W1c: "console W1 = [''Error executing action email: SMTP connection refused'']"
    unfolding W1_def a2 acts by simp
  have rs: "rules env0 = hd (rules env0) # tl (rules env0)"
    by (simp add: rules_def)
  have r0: "r_id (hd (rules env0)) = ''geo_impossibility''"
    by (simp add: rules_def)
  have rb: "ruleBody brokenChannels env0 (hd (rules env0)) ctxGeo [] worldA
              = (Inl (Failure ''store unavailable''), W1)"
  proof -
    have al: "makeAlert env0 (hd (rules env0)) ctxGeo
               ''User ann@example.com attempted login from impossible location: Impossible travel: 11760km in 120 minutes''
              = alertGeo"
      by (simp add: alertGeo_def)
    have acts0: "r_actions (hd (rules env0)) = [''email'', ''slack'', ''block_session'']"
      by (simp add: rules_def)
    have cond: "r_condition (hd (rules env0)) ctxGeo = Inr True"
      by (simp add: rules_def ctxGeo_def geoCheckImpossible_def)
    have msg: "r_message (hd (rules env0)) ctxGeo
             = Inr (''User ann@example.com attempted login from impossible location: ''
                 @ ''Impossible travel: 11760km in 120 minutes'')"
      by (simp add: rules_def ctxGeo_def geoCheckImpossible_def)
    have st: "c_storeAlert brokenChannels alertGeo W1 = (Inl (Failure ''store unavailable''), W1)"
      by (simp add: brokenChannels_def throwE_def)
    show ?thesis
      unfolding ruleBody_def cond msg
      by (simp add: liftE_def bindE_def Let_def al acts0 W1 st del: executeActions.simps)
  qed
  have e1: "evaluateRules brokenChannels env0 ctxGeo worldA
       = evaluateRulesFrom brokenChannels env0 (tl (rules env0)) ctxGeo []
           (W1\<lparr> console := [''Error executing action email: SMTP connection refused'',
                            ''Error evaluating rule geo_impossibility: store unavailable''] \<rparr>)"
    using rule_and_action_failures_contained [where col = brokenChannels and e = env0 and r = "hd (rules env0)"
                and rest = "tl (rules env0)" and c = ctxGeo and acc = "[]" and w = worldA
                and ?err1.0 = "Failure ''store unavailable''" and ?w1.0 = W1] rb
    unfolding evaluateRules_def rs[symmetric]
    by (simp add: exn_message_def W1c r0)
  have e2: "fst (evaluateRulesFrom brokenChannels env0 (tl (rules env0)) ctxGeo [] w') = Inr []"
    for w'
    by (simp add: rules_def ruleBody_def liftE_def bindE_def tryCatch_def returnE_def
          ctxGeo_def env0_def gt_num_def ge_num_def)
  have h1: "db_users worldAnnDelhi (req_email requestNY) = Some userAnn"
    by (simp add: worldAnnDelhi_def requestNY_def requestAnn_def)
  have h2: "bcrypt_compare envAnn (req_password requestNY) (u_password userAnn)"
    by (simp add: envAnn_def env0_def requestNY_def requestAnn_def userAnn_def)
  have ip: "clientIp requestNY = ''198.51.100.9''"
    by (simp add: clientIp_def requestNY_def requestAnn_def str_or_def)
  have u: "u_id userAnn = ''user-1''"
    by (simp add: userAnn_def)
  have l: "fst (login brokenChannels envAnn requestNY worldAnnDelhi)
       = OtpRequiredLocation
           (gc_reason (fst (checkGeoImpossibility envAnn ''user-1'' ''198.51.100.9'' worldAnnDelhi)))"
    using rule_and_action_failures_contained [where col = brokenChannels and e = envAnn and req = requestNY and w = worldAnnDelhi
                and usr = userAnn
                and sp = "\<lparr> isSuspicious = False, riskScore = 0, warnings = [] \<rparr>"]
          h1 h2 spoof_NY impossible_NY
    by (simp add: ip u)
  show ?thesis
    unfolding l e1 e2
    using a2 acts e1 by (simp add: W1_def)
qed

section \<open>The login of a returning user\<close>

lemma calculateDistance_same: "exact e \<Longrightarrow> calculateDistance e a b a b = Finite 0"
  by (simp add: exact_def calculateDistance_def calculateDistance_a_def toRad_def Math_sqrt_def
        atan2_def Let_def)

lemma evaluateRules_quiet:
  assumes "cx_geoCheck c = Some g" and "\<not> gc_isImpossible g" and "60 \<le> cx_trustScore c"
    and "cx_deviceUserCount c = Some n" and "n \<le> 2" and "cx_failedAttempts c = None"
    and "cx_activeSessions c = None" and "cx_isVPN c = None"
    and "cx_locationChangeCount c = None" and "cx_passwordChanged c = None"
    and "\<not> (2 \<le> date_hours e \<and> date_hours e \<le> 5)"
  shows "evaluateRules col e c w = (Inr [], w)"
proof -
  have hours: "(2 \<le> date_hours e \<and> date_hours e \<le> 5) = False"
    using assms(11) by simp
  show ?thesis
    using assms(1-10)
    by (simp add: evaluateRules_def rules_def ruleBody_def liftE_def bindE_def tryCatch_def
          returnE_def gt_num_def ge_num_def Let_def hours)
qed

lemma deviceAnn_other: "deviceAnn \<noteq> ''device-B''"
  by (simp add: deviceAnn_def generateEnhancedFingerprint_def Let_def envAnn_def env0_def)

text \<open>
  C1. A request by a user on the STANDARD plan from a known device, with a trust score
  of 72, one active session, and the credential, spoofing and geographic checks passing,
  does not succeed: the plan allows two sessions and the level is MEDIUM, but the handler
  throws where it reads \<open>device\<close> before its declaration and answers 500. It returns
  no token, and creates and deletes no session.
\<close>

theorem login_known_device_scenario_fails:
  assumes "db_users w (req_email req) = Some usr"
    and "bcrypt_compare e (req_password req) (u_password usr)"
    and "u_plan usr = ''STANDARD''"
    and "generateEnhancedFingerprint e req (req_fingerprint req) = fp"
    and "detectSpoofing (fp_components fp) = Inr sp"
    and "riskScore sp \<le> 70"
    and "checkGeoImpossibility e (u_id usr) (clientIp req) w = (geoCk, w1)"
    and "\<not> gc_isImpossible geoCk"
    and "calculateTrustScore e (u_id usr) (fp_deviceId fp) (clientIp req) w1 = (ts, w2)"
    and "ts_score ts = 72"
    and "Device_findOne (u_id usr) (fp_deviceId fp) w = Some dev"
    and "length (fst (getUserSessions (u_id usr) w)) = 1"
  shows "getMaxSessions (u_plan usr) = 2
         \<and> ts_level ts = ''MEDIUM''
         \<and> fst (login col e req w) = LoginFailed tdzMessage
         \<and> status (fst (login col e req w)) = 500
         \<and> (\<forall>ok. fst (login col e req w) \<noteq> LoginSuccessful ok)
         \<and> kv_sessions (snd (login col e req w)) = kv_sessions w
         \<and> kv_user_sessions (snd (login col e req w)) = kv_user_sessions w
         \<and> db_sessions (snd (login col e req w)) = db_sessions w
         \<and> calls (snd (login col e req w)) = calls w"
proof -
  have below: "\<not> riskScore sp > 70" using assms(6) by simp
  obtain m where w1: "w1 = w\<lparr> kv_last_location := m \<rparr>"
    using checkGeo_world[of e "u_id usr" "clientIp req" w] assms(7) by auto
  obtain cs t where w2: "w2 = w1\<lparr> kv_countries := cs, kv_trust := t \<rparr>"
    using trust_world[of e "u_id usr" "fp_deviceId fp" "clientIp req" w1] assms(9) by auto
  have lvl: "ts_level ts = ''MEDIUM''"
    using calculateTrustScore_level[of e "u_id usr" "fp_deviceId fp" "clientIp req" w1] assms(10)
    unfolding assms(9) by (simp add: getTrustLevel_def)
  have mx: "getMaxSessions (u_plan usr) = 2"
    unfolding assms(3) by (simp add: getMaxSessions_def)
  note l = login_reference_error(2)[OF assms(1,2,4,5) below assms(7,8,9), of col]
  show ?thesis
    unfolding l by (simp add: w1 w2 lvl mx)
qed

lemma geo_Ann: "\<not> gc_isImpossible geoCheckAnn"
proof -
  have prev: "kv_last_location worldAnn ''user-1''
          = Some \<lparr> loc_country = ''IN'', loc_city = ''Delhi'', loc_lat = 28.70,
                    loc_lon = 77.10, loc_timestamp = 1699913600000 \<rparr>"
    by (simp add: worldAnn_def emptyWorld_def)
  show ?thesis
    unfolding geoCheckAnn_def checkGeo_known(1)[OF delhi prev]
    by (simp add: calculateDistance_same[OF exact_envAnn])
qed

lemma worldAnn_located:
  "\<exists>m. snd (checkGeoImpossibility envAnn ''user-1'' ''203.0.113.7'' worldAnn)
         = worldAnn\<lparr> kv_last_location := m \<rparr>"
  by (rule checkGeo_world)

lemma trust_Ann:
  shows score_Ann: "trustAnn = \<lparr> ts_score = 72, ts_level = ''MEDIUM'',
       ts_factors = [(''Login Frequency'', 0), (''Device Age'', 12), (''Geo Consistency'', 25),
                     (''Failed Attempts'', - 15), (''Login Hours'', 0),
                     (''Device Sharing'', 0), (''VPN Usage'', 0)],
       ts_timestamp = 1700000000000 \<rparr>"
  and scored_Ann:
    "\<exists>m t. worldAnnScored = worldAnn\<lparr> kv_last_location := m, kv_trust := t \<rparr>"
proof -
  obtain m where w1: "snd (checkGeoImpossibility envAnn ''user-1'' ''203.0.113.7'' worldAnn)
         = worldAnn\<lparr> kv_last_location := m \<rparr>"
    using worldAnn_located by blast
  let ?w = "worldAnn\<lparr> kv_last_location := m \<rparr>"
  have f: "getLoginFrequencyScore deviceAnn ?w = 0"
    by (simp add: getLoginFrequencyScore_def worldAnn_def emptyWorld_def)
  have a: "getDeviceAgeScore envAnn ''user-1'' deviceAnn ?w = 12"
    by (simp add: getDeviceAgeScore_def Device_findOne_def worldAnn_def emptyWorld_def
          deviceRecordAnn_def envAnn_def env0_def)
  have g: "getGeoConsistencyScore envAnn deviceAnn ''203.0.113.7'' ?w = (25, ?w)"
    by (simp add: getGeoConsistencyScore_def delhi worldAnn_def emptyWorld_def)
  have x: "getFailedAttemptsScore deviceAnn ?w = - 15"
    by (simp add: getFailedAttemptsScore_def worldAnn_def emptyWorld_def)
  have h: "getSuspiciousHoursScore envAnn = 0"
    by (simp add: getSuspiciousHoursScore_def envAnn_def env0_def)
  have d: "getDeviceSharingScore deviceAnn ?w = 0"
    by (simp add: getDeviceSharingScore_def worldAnn_def emptyWorld_def)
  have v: "getVPNScore ''203.0.113.7'' = 0"
    by (simp add: getVPNScore_def startsWith_def)
  have n: "date_now envAnn = 1700000000000"
    by (simp add: envAnn_def env0_def)
  show "trustAnn = \<lparr> ts_score = 72, ts_level = ''MEDIUM'',
       ts_factors = [(''Login Frequency'', 0), (''Device Age'', 12), (''Geo Consistency'', 25),
                     (''Failed Attempts'', - 15), (''Login Hours'', 0),
                     (''Device Sharing'', 0), (''VPN Usage'', 0)],
       ts_timestamp = 1700000000000 \<rparr>"
    unfolding trustAnn_def w1
    by (simp add: calculateTrustScore_def f a g x h d v n getTrustLevel_def Let_def)
  have "worldAnnScored = worldAnn\<lparr> kv_last_location := m,
           kv_trust := kv_trust (storeTrustScore envAnn ''user-1'' deviceAnn 72
              [(''Login Frequency'', 0), (''Device Age'', 12), (''Geo Consistency'', 25),
                     (''Failed Attempts'', - 15), (''Login Hours'', 0),
                     (''Device Sharing'', 0), (''VPN Usage'', 0)] ?w) \<rparr>"
    unfolding worldAnnScored_def w1
    by (simp add: calculateTrustScore_def f a g x h d v n getTrustLevel_def Let_def
          storeTrustScore_def)
  then show "\<exists>m t. worldAnnScored = worldAnn\<lparr> kv_last_location := m, kv_trust := t \<rparr>"
    by blast
qed

theorem login_known_device_scenario_witness:
  "u_plan userAnn = ''STANDARD''
   \<and> Device_findOne ''user-1'' deviceAnn worldAnn = Some deviceRecordAnn
   \<and> fst (getUserSessions ''user-1'' worldAnn) = [sessionB]
   \<and> ts_score trustAnn = 72
   \<and> ts_level trustAnn = ''MEDIUM''
   \<and> fst (login (production envAnn) envAnn requestAnn worldAnn) = LoginFailed tdzMessage
   \<and> status (fst (login (production envAnn) envAnn requestAnn worldAnn)) = 500
   \<and> getSession ''user-1'' deviceAnn (snd (login (production envAnn) envAnn requestAnn worldAnn))
       = None
   \<and> calls (snd (login (production envAnn) envAnn requestAnn worldAnn)) = []"
proof -
  have h1: "db_users worldAnn (req_email requestAnn) = Some userAnn"
    by (simp add: worldAnn_def requestAnn_def)
  have h2: "bcrypt_compare envAnn (req_password requestAnn) (u_password userAnn)"
    by (simp add: envAnn_def env0_def requestAnn_def userAnn_def)
  have h3: "u_plan userAnn = ''STANDARD''"
    by (simp add: userAnn_def)
  have h6: "riskScore \<lparr> isSuspicious = False, riskScore = 0, warnings = [] \<rparr> \<le> 70"
    by simp
  have u: "u_id userAnn = ''user-1''"
    by (simp add: userAnn_def)
  have h7: "checkGeoImpossibility envAnn (u_id userAnn) (clientIp requestAnn) worldAnn
              = (geoCheckAnn, snd (checkGeoImpossibility envAnn ''user-1'' ''203.0.113.7'' worldAnn))"
    unfolding geoCheckAnn_def ip_Ann u by simp
  have h9: "calculateTrustScore envAnn (u_id userAnn)
              (fp_deviceId (generateEnhancedFingerprint envAnn requestAnn (req_fingerprint requestAnn)))
              (clientIp requestAnn)
              (snd (checkGeoImpossibility envAnn ''user-1'' ''203.0.113.7'' worldAnn))
            = (trustAnn, worldAnnScored)"
    unfolding trustAnn_def worldAnnScored_def ip_Ann u deviceAnn_def by simp
  have h10: "ts_score trustAnn = 72"
    unfolding score_Ann by simp
  have h11: "Device_findOne (u_id userAnn)
               (fp_deviceId (generateEnhancedFingerprint envAnn requestAnn (req_fingerprint requestAnn)))
               worldAnn = Some deviceRecordAnn"
    unfolding u deviceAnn_def[symmetric]
    by (simp add: Device_findOne_def worldAnn_def emptyWorld_def deviceRecordAnn_def)
  have sessions: "fst (getUserSessions ''user-1'' worldAnn) = [sessionB]"
    by (simp add: getUserSessions_def getSession_def worldAnn_def emptyWorld_def)
  have h12: "length (fst (getUserSessions (u_id userAnn) worldAnn)) = 1"
    unfolding u sessions by simp
  have w: "calls worldAnn = []" "kv_sessions worldAnn (''user-1'', deviceAnn) = None"
    using deviceAnn_other by (simp_all add: worldAnn_def emptyWorld_def)
  show ?thesis
    using login_known_device_scenario_fails [OF h1 h2 h3 refl spoof_Ann h6 h7 geo_Ann h9 h10 h11 h12, of "production envAnn"]
          h11 sessions
    unfolding u deviceAnn_def[symmetric]
    by (elim conjE) (simp add: w getSession_def h3 h10)
qed

text \<open>
  Had the read of \<open>device\<close> produced the stored device, the same request would have
  been answered with a token, two active sessions of two allowed, the session on the
  other device kept, one session created and no one-time password set.
\<close>

lemma login_after_device_lookup_succeeds:
  "case login_afterDeviceRead (production envAnn) envAnn requestAnn userAnn
          (generateEnhancedFingerprint envAnn requestAnn (req_fingerprint requestAnn))
          ''203.0.113.7'' geoCheckAnn trustAnn
          ((initialAlertContext userAnn
              (generateEnhancedFingerprint envAnn requestAnn (req_fingerprint requestAnn))
              ''203.0.113.7'' geoCheckAnn)\<lparr> cx_trustScore := ts_score trustAnn \<rparr>)
          (Device_findOne ''user-1'' deviceAnn worldAnnScored) worldAnnScored of
     (Inr (LoginSuccessful ok), w') \<Rightarrow>
        ok_token ok = ''jwt:user-1:'' @ deviceAnn
        \<and> ok_deviceId ok = deviceAnn
        \<and> ok_trustScore ok = 72 \<and> ok_trustLevel ok = ''MEDIUM''
        \<and> ok_activeSessions ok = 2 \<and> ok_maxSessions ok = 2
        \<and> getSession ''user-1'' ''device-B'' w' = Some sessionB
        \<and> (\<exists>created. getSession ''user-1'' deviceAnn w' = Some created)
        \<and> calls w' = [SessionCreated ''user-1'' deviceAnn]
        \<and> db_users w' = db_users worldAnn
   | _ \<Rightarrow> False"
proof -
  obtain m t where ws: "worldAnnScored = worldAnn\<lparr> kv_last_location := m, kv_trust := t \<rparr>"
    using scored_Ann by blast
  have dev: "Device_findOne ''user-1'' deviceAnn worldAnnScored = Some deviceRecordAnn"
    unfolding ws
    by (simp add: Device_findOne_def worldAnn_def emptyWorld_def deviceRecordAnn_def)
  have users: "kv_device_users worldAnnScored deviceAnn = [''user-1'']"
    unfolding ws by (simp add: worldAnn_def emptyWorld_def)
  have u: "u_id userAnn = ''user-1''" "u_plan userAnn = ''STANDARD''"
     "u_email userAnn = ''ann@example.com''"
    by (simp_all add: userAnn_def)
  have fp: "fp_deviceId (generateEnhancedFingerprint envAnn requestAnn (req_fingerprint requestAnn))
             = deviceAnn"
    by (simp add: deviceAnn_def)
  have quiet: "evaluateRules (production envAnn) envAnn
          ((initialAlertContext userAnn
              (generateEnhancedFingerprint envAnn requestAnn (req_fingerprint requestAnn))
              ''203.0.113.7'' geoCheckAnn)
             \<lparr> cx_trustScore := 72, cx_isNewDevice := False, cx_deviceUserCount := Some 1 \<rparr>)
          worldAnnScored = (Inr [], worldAnnScored)"
    by (rule evaluateRules_quiet[where g = geoCheckAnn and n = 1])
       (simp_all add: initialAlertContext_def geo_Ann envAnn_def env0_def)
  have sessions: "getUserSessions ''user-1'' w = ([sessionB], w)"
    if "kv_sessions w = kv_sessions worldAnn" "kv_user_sessions w = kv_user_sessions worldAnn"
    for w
    using that by (simp add: getUserSessions_def getSession_def worldAnn_def emptyWorld_def)
  let ?w4 = "storeLocationHistory envAnn ''user-1'' ''203.0.113.7'' deviceAnn
               (trackDeviceUser deviceAnn ''user-1''
                 (incrementLoginCount deviceAnn
                   (Device_save (deviceRecordAnn\<lparr> d_lastLogin := date_now envAnn \<rparr>)
                      worldAnnScored)))"
  have w4: "kv_sessions ?w4 = kv_sessions worldAnn" "kv_user_sessions ?w4 = kv_user_sessions worldAnn"
    "calls ?w4 = []" "db_users ?w4 = db_users worldAnn"
    unfolding ws
    by (simp_all add: storeLocationHistory_def trackDeviceUser_def incrementLoginCount_def
          Device_save_def worldAnn_def emptyWorld_def Let_def split: option.splits)
  have enforce: "login_sessionEnforcement envAnn requestAnn userAnn
          (generateEnhancedFingerprint envAnn requestAnn (req_fingerprint requestAnn))
          ''203.0.113.7'' geoCheckAnn trustAnn ?w4
        = (Inr (LoginSuccessful
             \<lparr> ok_token = ''jwt:user-1:'' @ deviceAnn, ok_deviceId = deviceAnn,
               ok_trustScore = 72, ok_trustLevel = ''MEDIUM'',
               ok_activeSessions = 2, ok_maxSessions = 2,
               ok_metadata = fp_meta (generateEnhancedFingerprint envAnn requestAnn
                                        (req_fingerprint requestAnn)) \<rparr>),
           Session_create envAnn ''user-1'' deviceAnn (''jwt:user-1:'' @ deviceAnn)
             (snd (createSession (date_now envAnn) ''user-1'' deviceAnn (''jwt:user-1:'' @ deviceAnn)
                \<lparr> md_ipAddress = Some ''203.0.113.7'',
                  md_userAgent = req_headers requestAnn ''user-agent'',
                  md_trustScore = Some 72,
                  md_location = gc_currentLocation geoCheckAnn \<rparr> ?w4)))"
    unfolding login_sessionEnforcement_def u fp sessions[OF w4(1,2)]
    by (simp add: getMaxSessions_def score_Ann envAnn_def env0_def Let_def case_prod_beta)
  show ?thesis
    unfolding login_afterDeviceRead_def dev users fp u
    using deviceAnn_other
    by (simp add: login_knownDevice_continues quiet score_Ann fp u enforce[unfolded score_Ann]
          createSession_def Session_create_def getSession_def w4 Let_def worldAnn_def emptyWorld_def)
qed

section \<open>Properties of the session limit\<close>

subsection \<open>Steps 9 to 12 of the handler\<close>

lemma collectSessions_sessions:
  "fst (collectSessions u ds acc w) = acc @ List.map_filter (\<lambda>d. kv_sessions w (u, d)) ds"
proof (induction ds arbitrary: acc w)
  case Nil
  show ?case by (simp add: List.map_filter_simps)
next
  case (Cons d ds)
  show ?case
    by (cases "kv_sessions w (u, d)") (simp_all add: Cons getSession_def List.map_filter_simps)
qed

lemma collectSessions_world:
  "\<exists>m. snd (collectSessions u ds acc w) = w\<lparr> kv_user_sessions := m \<rparr>"
proof (induction ds arbitrary: acc w)
  case Nil
  have "snd (collectSessions u [] acc w) = w\<lparr> kv_user_sessions := kv_user_sessions w \<rparr>"
    by simp
  then show ?case by (rule exI[where x = "kv_user_sessions w"])
next
  case (Cons d ds)
  show ?case
  proof (cases "getSession u d w")
    case None
    obtain m where "snd (collectSessions u ds acc
          (w\<lparr> kv_user_sessions := (kv_user_sessions w)(u := srem (kv_user_sessions w u) d) \<rparr>))
        = w\<lparr> kv_user_sessions := (kv_user_sessions w)(u := srem (kv_user_sessions w u) d) \<rparr>
            \<lparr> kv_user_sessions := m \<rparr>"
      using Cons by blast
    then have "snd (collectSessions u (d # ds) acc w) = w\<lparr> kv_user_sessions := m \<rparr>"
      using None by simp
    then show ?thesis by (rule exI[where x = m])
  next
    case (Some s)
    then show ?thesis using Cons by simp
  qed
qed

lemma getUserSessions_result:
  assumes "getUserSessions u w = (active, w1)"
  shows "sorted (map s_createdAt active)"
    and "set active = {s. \<exists>d\<in>set (kv_user_sessions w u). kv_sessions w (u, d) = Some s}"
    and "\<exists>m. w1 = w\<lparr> kv_user_sessions := m \<rparr>"
proof -
  have a: "active = sort_key s_createdAt (fst (collectSessions u (kv_user_sessions w u) [] w))"
    and w1: "w1 = snd (collectSessions u (kv_user_sessions w u) [] w)"
    using assms by (simp_all add: getUserSessions_def case_prod_beta)
  show "sorted (map s_createdAt active)"
    unfolding a by simp
  show "set active = {s. \<exists>d\<in>set (kv_user_sessions w u). kv_sessions w (u, d) = Some s}"
    unfolding a collectSessions_sessions by (force simp: List.map_filter_def)
  show "\<exists>m. w1 = w\<lparr> kv_user_sessions := m \<rparr>"
    unfolding w1 by (rule collectSessions_world)
qed

lemma sorted_head_least:
  assumes "sorted (map f xs)" and "x \<in> set xs"
  shows "f (hd xs) \<le> f x"
  using assms by (cases xs) auto

lemma getMaxSessions_positive: "1 \<le> getMaxSessions plan"
  by (simp add: getMaxSessions_def)

lemma enforcement_evicts:
  assumes "getUserSessions (u_id usr) w = (oldest # others, w1)"
    and "getMaxSessions (u_plan usr) \<le> Suc (length others)"
  shows "\<exists>ok w'. login_sessionEnforcement e req usr fp ip geoCk ts w = (Inr (LoginSuccessful ok), w')
           \<and> ok_activeSessions ok = length others + 2
           \<and> ok_maxSessions ok = getMaxSessions (u_plan usr)
           \<and> ok_deviceId ok = fp_deviceId fp
           \<and> calls w' = calls w @ [SessionDeleted (u_id usr) (s_deviceId oldest),
                                     SessionCreated (u_id usr) (fp_deviceId fp)]
           \<and> kv_sessions w'
               = ((kv_sessions w)((u_id usr, s_deviceId oldest) := None))
                   ((u_id usr, fp_deviceId fp) \<mapsto>
                     \<lparr> s_token = ok_token ok, s_deviceId = fp_deviceId fp, s_userId = u_id usr,
                       s_createdAt = date_now e, s_lastActivity = date_now e,
                       s_ipAddress = Some ip, s_userAgent = req_headers req ''user-agent'',
                       s_trustScore = Some (ts_score ts),
                       s_location = gc_currentLocation geoCk \<rparr>)"
proof -
  obtain m where w1: "w1 = w\<lparr> kv_user_sessions := m \<rparr>"
    using getUserSessions_result(3)[OF assms(1)] by blast
  show ?thesis
    using assms(2)
    by (simp add: login_sessionEnforcement_def assms(1) w1 Let_def createSession_def
          deleteSession_def Session_deactivate_def Session_create_def)
qed

lemma enforcement_admits:
  assumes "getUserSessions (u_id usr) w = (active, w1)"
    and "length active < getMaxSessions (u_plan usr)"
  shows "\<exists>ok w'. login_sessionEnforcement e req usr fp ip geoCk ts w = (Inr (LoginSuccessful ok), w')
           \<and> ok_activeSessions ok = length active + 1
           \<and> ok_maxSessions ok = getMaxSessions (u_plan usr)
           \<and> ok_deviceId ok = fp_deviceId fp
           \<and> calls w' = calls w @ [SessionCreated (u_id usr) (fp_deviceId fp)]
           \<and> kv_sessions w'
               = (kv_sessions w)
                   ((u_id usr, fp_deviceId fp) \<mapsto>
                     \<lparr> s_token = ok_token ok, s_deviceId = fp_deviceId fp, s_userId = u_id usr,
                       s_createdAt = date_now e, s_lastActivity = date_now e,
                       s_ipAddress = Some ip, s_userAgent = req_headers req ''user-agent'',
                       s_trustScore = Some (ts_score ts),
                       s_location = gc_currentLocation geoCk \<rparr>)"
proof -
  obtain m where w1: "w1 = w\<lparr> kv_user_sessions := m \<rparr>"
    using getUserSessions_result(3)[OF assms(1)] by blast
  show ?thesis
    using assms(2)
    by (simp add: login_sessionEnforcement_def assms(1) w1 Let_def createSession_def
          Session_create_def)
qed

lemma first_and_second_login:
  assumes "u_plan usr = ''BASIC''" and "kv_user_sessions w (u_id usr) = []"
    and "fp_deviceId fp1 \<noteq> fp_deviceId fp2"
  shows "\<exists>first. getSession (u_id usr) (fp_deviceId fp1)
             (snd (login_sessionEnforcement e1 req1 usr fp1 ip1 g1 t1 w)) = Some first"
    and "getSession (u_id usr) (fp_deviceId fp1)
           (snd (login_sessionEnforcement e2 req2 usr fp2 ip2 g2 t2
              (snd (login_sessionEnforcement e1 req1 usr fp1 ip1 g1 t1 w)))) = None"
    and "\<exists>second. getSession (u_id usr) (fp_deviceId fp2)
           (snd (login_sessionEnforcement e2 req2 usr fp2 ip2 g2 t2
              (snd (login_sessionEnforcement e1 req1 usr fp1 ip1 g1 t1 w)))) = Some second"
    and "calls (snd (login_sessionEnforcement e2 req2 usr fp2 ip2 g2 t2
              (snd (login_sessionEnforcement e1 req1 usr fp1 ip1 g1 t1 w))))
         = calls w @ [SessionCreated (u_id usr) (fp_deviceId fp1),
                      SessionDeleted (u_id usr) (fp_deviceId fp1),
                      SessionCreated (u_id usr) (fp_deviceId fp2)]"
proof -
  define w1 where "w1 = snd (login_sessionEnforcement e1 req1 usr fp1 ip1 g1 t1 w)"
  have g0: "getUserSessions (u_id usr) w = ([], w)"
    by (simp add: getUserSessions_def assms(2))
  have one: "0 < getMaxSessions (u_plan usr)"
    using getMaxSessions_positive[of "u_plan usr"] by simp
  obtain ok where r1: "login_sessionEnforcement e1 req1 usr fp1 ip1 g1 t1 w
                         = (Inr (LoginSuccessful ok), w1)"
    and c1: "calls w1 = calls w @ [SessionCreated (u_id usr) (fp_deviceId fp1)]"
    and k1: "kv_sessions w1 = (kv_sessions w)
                   ((u_id usr, fp_deviceId fp1) \<mapsto>
                     \<lparr> s_token = ok_token ok, s_deviceId = fp_deviceId fp1, s_userId = u_id usr,
                       s_createdAt = date_now e1, s_lastActivity = date_now e1,
                       s_ipAddress = Some ip1, s_userAgent = req_headers req1 ''user-agent'',
                       s_trustScore = Some (ts_score t1),
                       s_location = gc_currentLocation g1 \<rparr>)"
    using enforcement_admits[OF g0, of e1 req1 fp1 ip1 g1 t1] one unfolding w1_def by auto
  have idx: "kv_user_sessions w1 (u_id usr) = [fp_deviceId fp1]"
    unfolding w1_def
    by (simp add: login_sessionEnforcement_def g0 one Let_def createSession_def
          Session_create_def assms(2) sadd_def)
  have g1: "getUserSessions (u_id usr) w1
              = ([\<lparr> s_token = ok_token ok, s_deviceId = fp_deviceId fp1, s_userId = u_id usr,
                       s_createdAt = date_now e1, s_lastActivity = date_now e1,
                       s_ipAddress = Some ip1, s_userAgent = req_headers req1 ''user-agent'',
                       s_trustScore = Some (ts_score t1),
                       s_location = gc_currentLocation g1 \<rparr>], w1)"
    by (simp add: getUserSessions_def idx getSession_def k1)
  have full: "getMaxSessions (u_plan usr) \<le> Suc (length ([] :: session list))"
    unfolding assms(1) by (simp add: getMaxSessions_def)
  obtain ok2 w2 where r2: "login_sessionEnforcement e2 req2 usr fp2 ip2 g2 t2 w1
                         = (Inr (LoginSuccessful ok2), w2)"
    and c2: "calls w2 = calls w1 @ [SessionDeleted (u_id usr) (fp_deviceId fp1),
                                     SessionCreated (u_id usr) (fp_deviceId fp2)]"
    and k2: "kv_sessions w2
               = ((kv_sessions w1)((u_id usr, fp_deviceId fp1) := None))
                   ((u_id usr, fp_deviceId fp2) \<mapsto>
                     \<lparr> s_token = ok_token ok2, s_deviceId = fp_deviceId fp2, s_userId = u_id usr,
                       s_createdAt = date_now e2, s_lastActivity = date_now e2,
                       s_ipAddress = Some ip2, s_userAgent = req_headers req2 ''user-agent'',
                       s_trustScore = Some (ts_score t2),
                       s_location = gc_currentLocation g2 \<rparr>)"
    using enforcement_evicts[OF g1 full, of e2 req2 fp2 ip2 g2 t2] by auto
  show "\<exists>first. getSession (u_id usr) (fp_deviceId fp1)
             (snd (login_sessionEnforcement e1 req1 usr fp1 ip1 g1 t1 w)) = Some first"
    unfolding w1_def[symmetric] by (simp add: getSession_def k1)
  show "getSession (u_id usr) (fp_deviceId fp1)
           (snd (login_sessionEnforcement e2 req2 usr fp2 ip2 g2 t2
              (snd (login_sessionEnforcement e1 req1 usr fp1 ip1 g1 t1 w)))) = None"
    unfolding w1_def[symmetric] r2 using assms(3) by (simp add: getSession_def k2)
  show "\<exists>second. getSession (u_id usr) (fp_deviceId fp2)
           (snd (login_sessionEnforcement e2 req2 usr fp2 ip2 g2 t2
              (snd (login_sessionEnforcement e1 req1 usr fp1 ip1 g1 t1 w)))) = Some second"
    unfolding w1_def[symmetric] r2 by (simp add: getSession_def k2)
  show "calls (snd (login_sessionEnforcement e2 req2 usr fp2 ip2 g2 t2
              (snd (login_sessionEnforcement e1 req1 usr fp1 ip1 g1 t1 w))))
         = calls w @ [SessionCreated (u_id usr) (fp_deviceId fp1),
                      SessionDeleted (u_id usr) (fp_deviceId fp1),
                      SessionCreated (u_id usr) (fp_deviceId fp2)]"
    unfolding w1_def[symmetric] r2 by (simp add: c2 c1)
qed

text \<open>
  What steps 9 to 12 of the handler do in any state in which they are entered. The
  maximum is 1 for BASIC, 2 for STANDARD, 4 for PREMIUM and 1 for any other plan (the
  older controller's copy agrees on the three plans of the user schema). The active
  sessions are the stored sessions of the indexed devices, in ascending order of
  \<open>createdAt\<close>. When their number has reached the maximum, the first of them, whose
  \<open>createdAt\<close> is the smallest, is deleted and then the new session is created: the
  two calls happen in that order, the evicted session is absent afterwards unless it
  was on the device that logs in, the new session is stored with the time of the login,
  and every other session stays. Below the maximum the new session is created and
  nothing is deleted. On the BASIC plan, after the steps have run with no session stored
  and have run once more for another device, the first session is absent and the second
  is stored.
\<close>

lemma sessionEnforcement_evicts_oldest:
  assumes "getUserSessions (u_id usr) w = (active, w1)"
  shows
   "getMaxSessions ''BASIC'' = 1 \<and> getMaxSessions ''STANDARD'' = 2
    \<and> getMaxSessions ''PREMIUM'' = 4
    \<and> (plan \<noteq> ''BASIC'' \<and> plan \<noteq> ''STANDARD'' \<and> plan \<noteq> ''PREMIUM''
          \<longrightarrow> getMaxSessions plan = 1)
    \<and> (plan = ''BASIC'' \<or> plan = ''STANDARD'' \<or> plan = ''PREMIUM''
          \<longrightarrow> legacy_getMaxSessions plan = Some (getMaxSessions plan))
    \<and> sorted (map s_createdAt active)
    \<and> set active = {s. \<exists>d\<in>set (kv_user_sessions w (u_id usr)).
                            getSession (u_id usr) d w = Some s}
    \<and> (getMaxSessions (u_plan usr) \<le> length active \<longrightarrow>
          active \<noteq> []
          \<and> (\<forall>s\<in>set active. s_createdAt (hd active) \<le> s_createdAt s)
          \<and> (\<exists>ok. fst (login_sessionEnforcement e req usr fp ip geoCk ts w)
                      = Inr (LoginSuccessful ok)
                    \<and> ok_activeSessions ok = length active + 1
                    \<and> ok_maxSessions ok = getMaxSessions (u_plan usr))
          \<and> calls (snd (login_sessionEnforcement e req usr fp ip geoCk ts w))
              = calls w @ [SessionDeleted (u_id usr) (s_deviceId (hd active)),
                           SessionCreated (u_id usr) (fp_deviceId fp)]
          \<and> (s_deviceId (hd active) \<noteq> fp_deviceId fp \<longrightarrow>
                getSession (u_id usr) (s_deviceId (hd active))
                  (snd (login_sessionEnforcement e req usr fp ip geoCk ts w)) = None)
          \<and> (\<exists>created. getSession (u_id usr) (fp_deviceId fp)
                           (snd (login_sessionEnforcement e req usr fp ip geoCk ts w))
                         = Some created
                       \<and> s_createdAt created = date_now e)
          \<and> (\<forall>d. d \<noteq> s_deviceId (hd active) \<and> d \<noteq> fp_deviceId fp \<longrightarrow>
                getSession (u_id usr) d (snd (login_sessionEnforcement e req usr fp ip geoCk ts w))
                  = getSession (u_id usr) d w))
    \<and> (length active < getMaxSessions (u_plan usr) \<longrightarrow>
          (\<exists>ok. fst (login_sessionEnforcement e req usr fp ip geoCk ts w)
                      = Inr (LoginSuccessful ok)
                    \<and> ok_activeSessions ok = length active + 1
                    \<and> ok_maxSessions ok = getMaxSessions (u_plan usr))
          \<and> calls (snd (login_sessionEnforcement e req usr fp ip geoCk ts w))
              = calls w @ [SessionCreated (u_id usr) (fp_deviceId fp)]
          \<and> (\<exists>created. getSession (u_id usr) (fp_deviceId fp)
                           (snd (login_sessionEnforcement e req usr fp ip geoCk ts w))
                         = Some created
                       \<and> s_createdAt created = date_now e)
          \<and> (\<forall>d. d \<noteq> fp_deviceId fp \<longrightarrow>
                getSession (u_id usr) d (snd (login_sessionEnforcement e req usr fp ip geoCk ts w))
                  = getSession (u_id usr) d w))
    \<and> (u_plan usr = ''BASIC'' \<and> kv_user_sessions w0 (u_id usr) = []
          \<and> fp_deviceId fp1 \<noteq> fp_deviceId fp2 \<longrightarrow>
          (\<exists>first. getSession (u_id usr) (fp_deviceId fp1)
                     (snd (login_sessionEnforcement e1 req1 usr fp1 ip1 g1 t1 w0)) = Some first)
          \<and> getSession (u_id usr) (fp_deviceId fp1)
                (snd (login_sessionEnforcement e2 req2 usr fp2 ip2 g2 t2
                   (snd (login_sessionEnforcement e1 req1 usr fp1 ip1 g1 t1 w0)))) = None
          \<and> (\<exists>second. getSession (u_id usr) (fp_deviceId fp2)
                (snd (login_sessionEnforcement e2 req2 usr fp2 ip2 g2 t2
                   (snd (login_sessionEnforcement e1 req1 usr fp1 ip1 g1 t1 w0)))) = Some second)
          \<and> calls (snd (login_sessionEnforcement e2 req2 usr fp2 ip2 g2 t2
                   (snd (login_sessionEnforcement e1 req1 usr fp1 ip1 g1 t1 w0))))
              = calls w0 @ [SessionCreated (u_id usr) (fp_deviceId fp1),
                            SessionDeleted (u_id usr) (fp_deviceId fp1),
                            SessionCreated (u_id usr) (fp_deviceId fp2)])"
proof -
  have plans: "getMaxSessions ''BASIC'' = 1 \<and> getMaxSessions ''STANDARD'' = 2
    \<and> getMaxSessions ''PREMIUM'' = 4"
    by (simp add: getMaxSessions_def)
  have other: "plan \<noteq> ''BASIC'' \<and> plan \<noteq> ''STANDARD'' \<and> plan \<noteq> ''PREMIUM''
          \<longrightarrow> getMaxSessions plan = 1"
    by (simp add: getMaxSessions_def)
  have legacy: "plan = ''BASIC'' \<or> plan = ''STANDARD'' \<or> plan = ''PREMIUM''
          \<longrightarrow> legacy_getMaxSessions plan = Some (getMaxSessions plan)"
    by (auto simp: getMaxSessions_def legacy_getMaxSessions_def)
  note srt = getUserSessions_result(1)[OF assms]
  have st: "set active = {s. \<exists>d\<in>set (kv_user_sessions w (u_id usr)).
                            getSession (u_id usr) d w = Some s}"
    unfolding getSession_def by (rule getUserSessions_result(2)[OF assms])
  have evict: "getMaxSessions (u_plan usr) \<le> length active \<longrightarrow>
          active \<noteq> []
          \<and> (\<forall>s\<in>set active. s_createdAt (hd active) \<le> s_createdAt s)
          \<and> (\<exists>ok. fst (login_sessionEnforcement e req usr fp ip geoCk ts w)
                      = Inr (LoginSuccessful ok)
                    \<and> ok_activeSessions ok = length active + 1
                    \<and> ok_maxSessions ok = getMaxSessions (u_plan usr))
          \<and> calls (snd (login_sessionEnforcement e req usr fp ip geoCk ts w))
              = calls w @ [SessionDeleted (u_id usr) (s_deviceId (hd active)),
                           SessionCreated (u_id usr) (fp_deviceId fp)]
          \<and> (s_deviceId (hd active) \<noteq> fp_deviceId fp \<longrightarrow>
                getSession (u_id usr) (s_deviceId (hd active))
                  (snd (login_sessionEnforcement e req usr fp ip geoCk ts w)) = None)
          \<and> (\<exists>created. getSession (u_id usr) (fp_deviceId fp)
                           (snd (login_sessionEnforcement e req usr fp ip geoCk ts w))
                         = Some created
                       \<and> s_createdAt created = date_now e)
          \<and> (\<forall>d. d \<noteq> s_deviceId (hd active) \<and> d \<noteq> fp_deviceId fp \<longrightarrow>
                getSession (u_id usr) d (snd (login_sessionEnforcement e req usr fp ip geoCk ts w))
                  = getSession (u_id usr) d w)"
  proof
    assume full: "getMaxSessions (u_plan usr) \<le> length active"
    then have ne: "active \<noteq> []"
      using getMaxSessions_positive[of "u_plan usr"] by auto
    then obtain oldest others where split: "active = oldest # others"
      by (cases active) auto
    have least: "\<forall>s\<in>set active. s_createdAt (hd active) \<le> s_createdAt s"
      using sorted_head_least[OF srt] by blast
    have full': "getMaxSessions (u_plan usr) \<le> Suc (length others)"
      using full unfolding split by simp
    obtain ok w' where r: "login_sessionEnforcement e req usr fp ip geoCk ts w
                             = (Inr (LoginSuccessful ok), w')"
      and n: "ok_activeSessions ok = length others + 2"
             "ok_maxSessions ok = getMaxSessions (u_plan usr)"
      and c: "calls w' = calls w @ [SessionDeleted (u_id usr) (s_deviceId oldest),
                                     SessionCreated (u_id usr) (fp_deviceId fp)]"
      and k: "kv_sessions w'
               = ((kv_sessions w)((u_id usr, s_deviceId oldest) := None))
                   ((u_id usr, fp_deviceId fp) \<mapsto>
                     \<lparr> s_token = ok_token ok, s_deviceId = fp_deviceId fp, s_userId = u_id usr,
                       s_createdAt = date_now e, s_lastActivity = date_now e,
                       s_ipAddress = Some ip, s_userAgent = req_headers req ''user-agent'',
                       s_trustScore = Some (ts_score ts),
                       s_location = gc_currentLocation geoCk \<rparr>)"
      using enforcement_evicts[OF assms[unfolded split] full', of e req fp ip geoCk ts] by auto
    show "active \<noteq> []
          \<and> (\<forall>s\<in>set active. s_createdAt (hd active) \<le> s_createdAt s)
          \<and> (\<exists>ok. fst (login_sessionEnforcement e req usr fp ip geoCk ts w)
                      = Inr (LoginSuccessful ok)
                    \<and> ok_activeSessions ok = length active + 1
                    \<and> ok_maxSessions ok = getMaxSessions (u_plan usr))
          \<and> calls (snd (login_sessionEnforcement e req usr fp ip geoCk ts w))
              = calls w @ [SessionDeleted (u_id usr) (s_deviceId (hd active)),
                           SessionCreated (u_id usr) (fp_deviceId fp)]
          \<and> (s_deviceId (hd active) \<noteq> fp_deviceId fp \<longrightarrow>
                getSession (u_id usr) (s_deviceId (hd active))
                  (snd (login_sessionEnforcement e req usr fp ip geoCk ts w)) = None)
          \<and> (\<exists>created. getSession (u_id usr) (fp_deviceId fp)
                           (snd (login_sessionEnforcement e req usr fp ip geoCk ts w))
                         = Some created
                       \<and> s_createdAt created = date_now e)
          \<and> (\<forall>d. d \<noteq> s_deviceId (hd active) \<and> d \<noteq> fp_deviceId fp \<longrightarrow>
                getSession (u_id usr) d (snd (login_sessionEnforcement e req usr fp ip geoCk ts w))
                  = getSession (u_id usr) d w)"
      using ne least unfolding r by (simp add: n c k getSession_def split)
  qed
  have admit: "length active < getMaxSessions (u_plan usr) \<longrightarrow>
          (\<exists>ok. fst (login_sessionEnforcement e req usr fp ip geoCk ts w)
                      = Inr (LoginSuccessful ok)
                    \<and> ok_activeSessions ok = length active + 1
                    \<and> ok_maxSessions ok = getMaxSessions (u_plan usr))
          \<and> calls (snd (login_sessionEnforcement e req usr fp ip geoCk ts w))
              = calls w @ [SessionCreated (u_id usr) (fp_deviceId fp)]
          \<and> (\<exists>created. getSession (u_id usr) (fp_deviceId fp)
                           (snd (login_sessionEnforcement e req usr fp ip geoCk ts w))
                         = Some created
                       \<and> s_createdAt created = date_now e)
          \<and> (\<forall>d. d \<noteq> fp_deviceId fp \<longrightarrow>
                getSession (u_id usr) d (snd (login_sessionEnforcement e req usr fp ip geoCk ts w))
                  = getSession (u_id usr) d w)"
  proof
    assume room: "length active < getMaxSessions (u_plan usr)"
    obtain ok w' where r: "login_sessionEnforcement e req usr fp ip geoCk ts w
                             = (Inr (LoginSuccessful ok), w')"
      and n: "ok_activeSessions ok = length active + 1"
             "ok_maxSessions ok = getMaxSessions (u_plan usr)"
      and c: "calls w' = calls w @ [SessionCreated (u_id usr) (fp_deviceId fp)]"
      and k: "kv_sessions w'
               = (kv_sessions w)
                   ((u_id usr, fp_deviceId fp) \<mapsto>
                     \<lparr> s_token = ok_token ok, s_deviceId = fp_deviceId fp, s_userId = u_id usr,
                       s_createdAt = date_now e, s_lastActivity = date_now e,
                       s_ipAddress = Some ip, s_userAgent = req_headers req ''user-agent'',
                       s_trustScore = Some (ts_score ts),
                       s_location = gc_currentLocation geoCk \<rparr>)"
      using enforcement_admits[OF assms room, of e req fp ip geoCk ts] by auto
    show "(\<exists>ok. fst (login_sessionEnforcement e req usr fp ip geoCk ts w)
                      = Inr (LoginSuccessful ok)
                    \<and> ok_activeSessions ok = length active + 1
                    \<and> ok_maxSessions ok = getMaxSessions (u_plan usr))
          \<and> calls (snd (login_sessionEnforcement e req usr fp ip geoCk ts w))
              = calls w @ [SessionCreated (u_id usr) (fp_deviceId fp)]
          \<and> (\<exists>created. getSession (u_id usr) (fp_deviceId fp)
                           (snd (login_sessionEnforcement e req usr fp ip geoCk ts w))
                         = Some created
                       \<and> s_createdAt created = date_now e)
          \<and> (\<forall>d. d \<noteq> fp_deviceId fp \<longrightarrow>
                getSession (u_id usr) d (snd (login_sessionEnforcement e req usr fp ip geoCk ts w))
                  = getSession (u_id usr) d w)"
      unfolding r by (simp add: n c k getSession_def)
  qed
  have twice: "u_plan usr = ''BASIC'' \<and> kv_user_sessions w0 (u_id usr) = []
          \<and> fp_deviceId fp1 \<noteq> fp_deviceId fp2 \<longrightarrow>
          (\<exists>first. getSession (u_id usr) (fp_deviceId fp1)
                     (snd (login_sessionEnforcement e1 req1 usr fp1 ip1 g1 t1 w0)) = Some first)
          \<and> getSession (u_id usr) (fp_deviceId fp1)
                (snd (login_sessionEnforcement e2 req2 usr fp2 ip2 g2 t2
                   (snd (login_sessionEnforcement e1 req1 usr fp1 ip1 g1 t1 w0)))) = None
          \<and> (\<exists>second. getSession (u_id usr) (fp_deviceId fp2)
                (snd (login_sessionEnforcement e2 req2 usr fp2 ip2 g2 t2
                   (snd (login_sessionEnforcement e1 req1 usr fp1 ip1 g1 t1 w0)))) = Some second)
          \<and> calls (snd (login_sessionEnforcement e2 req2 usr fp2 ip2 g2 t2
                   (snd (login_sessionEnforcement e1 req1 usr fp1 ip1 g1 t1 w0))))
              = calls w0 @ [SessionCreated (u_id usr) (fp_deviceId fp1),
                            SessionDeleted (u_id usr) (fp_deviceId fp1),
                            SessionCreated (u_id usr) (fp_deviceId fp2)]"
  proof (intro impI, elim conjE)
    assume b: "u_plan usr = ''BASIC''" "kv_user_sessions w0 (u_id usr) = []"
      "fp_deviceId fp1 \<noteq> fp_deviceId fp2"
    show "(\<exists>first. getSession (u_id usr) (fp_deviceId fp1)
                     (snd (login_sessionEnforcement e1 req1 usr fp1 ip1 g1 t1 w0)) = Some first)
          \<and> getSession (u_id usr) (fp_deviceId fp1)
                (snd (login_sessionEnforcement e2 req2 usr fp2 ip2 g2 t2
                   (snd (login_sessionEnforcement e1 req1 usr fp1 ip1 g1 t1 w0)))) = None
          \<and> (\<exists>second. getSession (u_id usr) (fp_deviceId fp2)
                (snd (login_sessionEnforcement e2 req2 usr fp2 ip2 g2 t2
                   (snd (login_sessionEnforcement e1 req1 usr fp1 ip1 g1 t1 w0)))) = Some second)
          \<and> calls (snd (login_sessionEnforcement e2 req2 usr fp2 ip2 g2 t2
                   (snd (login_sessionEnforcement e1 req1 usr fp1 ip1 g1 t1 w0))))
              = calls w0 @ [SessionCreated (u_id usr) (fp_deviceId fp1),
                            SessionDeleted (u_id usr) (fp_deviceId fp1),
                            SessionCreated (u_id usr) (fp_deviceId fp2)]"
      by (intro conjI first_and_second_login(1)[OF b] first_and_second_login(2)[OF b]
            first_and_second_login(3)[OF b] first_and_second_login(4)[OF b])
  qed
  show ?thesis
    by (rule conjI[OF conjunct1[OF plans] conjI[OF conjunct1[OF conjunct2[OF plans]]
          conjI[OF conjunct2[OF conjunct2[OF plans]] conjI[OF other conjI[OF legacy
          conjI[OF srt conjI[OF st conjI[OF evict conjI[OF admit twice]]]]]]]]])
qed

text \<open>
  The session created first is evicted although it is the one used last; below the
  maximum nothing is evicted.
\<close>

lemma sessionEnforcement_fifo_example:
  "fst (getUserSessions ''user-1'' worldFifo)
     = [sessionA\<lparr> s_lastActivity := 1699999000000 \<rparr>, sessionB]
   \<and> s_lastActivity sessionB < s_lastActivity (sessionA\<lparr> s_lastActivity := 1699999000000 \<rparr>)
   \<and> calls (snd (login_sessionEnforcement envAnn requestAnn userAnn fingerprintC ''203.0.113.7''
                    geoCheckFirst trustAnn worldFifo))
       = [SessionDeleted ''user-1'' ''device-A'', SessionCreated ''user-1'' ''device-C'']
   \<and> getSession ''user-1'' ''device-A''
         (snd (login_sessionEnforcement envAnn requestAnn userAnn fingerprintC ''203.0.113.7''
                 geoCheckFirst trustAnn worldFifo)) = None
   \<and> getSession ''user-1'' ''device-B''
         (snd (login_sessionEnforcement envAnn requestAnn userAnn fingerprintC ''203.0.113.7''
                 geoCheckFirst trustAnn worldFifo)) = Some sessionB
   \<and> calls (snd (login_sessionEnforcement envAnn requestAnn userAnn fingerprintC ''203.0.113.7''
                    geoCheckFirst trustAnn worldA))
       = [SessionCreated ''user-1'' ''device-C'']
   \<and> getSession ''user-1'' ''device-A''
         (snd (login_sessionEnforcement envAnn requestAnn userAnn fingerprintC ''203.0.113.7''
                 geoCheckFirst trustAnn worldA)) = Some sessionA
   \<and> getMaxSessions ''GOLD'' = 1
   \<and> legacy_getMaxSessions ''PREMIUM'' = Some 4
   \<and> getSession ''user-1'' ''device-C''
         (snd (login_sessionEnforcement envAnn requestAnn (userAnn\<lparr> u_plan := ''BASIC'' \<rparr>)
                 (fingerprintC\<lparr> fp_deviceId := ''device-D'' \<rparr>) ''203.0.113.7''
                 geoCheckFirst trustAnn
            (snd (login_sessionEnforcement envAnn requestAnn (userAnn\<lparr> u_plan := ''BASIC'' \<rparr>)
                 fingerprintC ''203.0.113.7'' geoCheckFirst trustAnn worldNew)))) = None
   \<and> getSession ''user-1'' ''device-D''
         (snd (login_sessionEnforcement envAnn requestAnn (userAnn\<lparr> u_plan := ''BASIC'' \<rparr>)
                 (fingerprintC\<lparr> fp_deviceId := ''device-D'' \<rparr>) ''203.0.113.7''
                 geoCheckFirst trustAnn
            (snd (login_sessionEnforcement envAnn requestAnn (userAnn\<lparr> u_plan := ''BASIC'' \<rparr>)
                 fingerprintC ''203.0.113.7'' geoCheckFirst trustAnn worldNew)))) \<noteq> None"
proof -
  have u: "u_id userAnn = ''user-1''" "u_plan userAnn = ''STANDARD''"
    by (simp_all add: userAnn_def)
  have fifo: "getUserSessions (u_id userAnn) worldFifo
                = ([sessionA\<lparr> s_lastActivity := 1699999000000 \<rparr>, sessionB], worldFifo)"
    by (simp add: getUserSessions_def getSession_def worldFifo_def emptyWorld_def u
          sessionA_def sessionB_def)
  have one: "getUserSessions (u_id userAnn) worldA = ([sessionA], worldA)"
    by (simp add: getUserSessions_def getSession_def worldA_def emptyWorld_def u)
  have none: "getUserSessions (u_id (userAnn\<lparr> u_plan := ''BASIC'' \<rparr>)) worldNew = ([], worldNew)"
    by (simp add: getUserSessions_def worldNew_def emptyWorld_def)
  have w: "calls worldFifo = []" "calls worldA = []"
    "getSession ''user-1'' ''device-B'' worldFifo = Some sessionB"
    "getSession ''user-1'' ''device-A'' worldA = Some sessionA"
    "kv_user_sessions worldNew ''user-1'' = []"
    by (simp_all add: worldFifo_def worldA_def worldNew_def emptyWorld_def getSession_def)
  have d: "fp_deviceId fingerprintC = ''device-C''"
    by (simp add: fingerprintC_def)
  have t1: "s_deviceId (sessionA\<lparr> s_lastActivity := 1699999000000 \<rparr>) = ''device-A''"
    by (simp add: sessionA_def)
  have first: "fst (getUserSessions ''user-1'' worldFifo)
     = [sessionA\<lparr> s_lastActivity := 1699999000000 \<rparr>, sessionB]"
    using fifo unfolding u by simp
  have act: "s_lastActivity sessionB < s_lastActivity (sessionA\<lparr> s_lastActivity := 1699999000000 \<rparr>)"
    by (simp add: sessionB_def)
  have evicted:
    "calls (snd (login_sessionEnforcement envAnn requestAnn userAnn fingerprintC ''203.0.113.7''
                    geoCheckFirst trustAnn worldFifo))
       = [SessionDeleted ''user-1'' ''device-A'', SessionCreated ''user-1'' ''device-C'']
     \<and> getSession ''user-1'' ''device-A''
         (snd (login_sessionEnforcement envAnn requestAnn userAnn fingerprintC ''203.0.113.7''
                 geoCheckFirst trustAnn worldFifo)) = None
     \<and> getSession ''user-1'' ''device-B''
         (snd (login_sessionEnforcement envAnn requestAnn userAnn fingerprintC ''203.0.113.7''
                 geoCheckFirst trustAnn worldFifo)) = Some sessionB
     \<and> getMaxSessions ''GOLD'' = 1
     \<and> legacy_getMaxSessions ''PREMIUM'' = Some 4"
    using sessionEnforcement_evicts_oldest [OF fifo, where e = envAnn and req = requestAnn and fp = fingerprintC
                and ip = "''203.0.113.7''" and geoCk = geoCheckFirst and ts = trustAnn
                and plan = "''GOLD''"]
          sessionEnforcement_evicts_oldest [OF fifo, where plan = "''PREMIUM''"]
    by (simp add: u d t1 w)
  have admitted:
    "calls (snd (login_sessionEnforcement envAnn requestAnn userAnn fingerprintC ''203.0.113.7''
                    geoCheckFirst trustAnn worldA))
       = [SessionCreated ''user-1'' ''device-C'']
     \<and> getSession ''user-1'' ''device-A''
         (snd (login_sessionEnforcement envAnn requestAnn userAnn fingerprintC ''203.0.113.7''
                 geoCheckFirst trustAnn worldA)) = Some sessionA"
    using sessionEnforcement_evicts_oldest [OF one, where e = envAnn and req = requestAnn and fp = fingerprintC
                and ip = "''203.0.113.7''" and geoCk = geoCheckFirst and ts = trustAnn]
    by (simp add: u d w)
  have twice:
    "getSession ''user-1'' ''device-C''
         (snd (login_sessionEnforcement envAnn requestAnn (userAnn\<lparr> u_plan := ''BASIC'' \<rparr>)
                 (fingerprintC\<lparr> fp_deviceId := ''device-D'' \<rparr>) ''203.0.113.7''
                 geoCheckFirst trustAnn
            (snd (login_sessionEnforcement envAnn requestAnn (userAnn\<lparr> u_plan := ''BASIC'' \<rparr>)
                 fingerprintC ''203.0.113.7'' geoCheckFirst trustAnn worldNew)))) = None
     \<and> getSession ''user-1'' ''device-D''
         (snd (login_sessionEnforcement envAnn requestAnn (userAnn\<lparr> u_plan := ''BASIC'' \<rparr>)
                 (fingerprintC\<lparr> fp_deviceId := ''device-D'' \<rparr>) ''203.0.113.7''
                 geoCheckFirst trustAnn
            (snd (login_sessionEnforcement envAnn requestAnn (userAnn\<lparr> u_plan := ''BASIC'' \<rparr>)
                 fingerprintC ''203.0.113.7'' geoCheckFirst trustAnn worldNew)))) \<noteq> None"
    using sessionEnforcement_evicts_oldest [OF none, where ?w0.0 = worldNew and ?fp1.0 = fingerprintC
                and ?fp2.0 = "fingerprintC\<lparr> fp_deviceId := ''device-D'' \<rparr>"
                and ?e1.0 = envAnn and ?e2.0 = envAnn and ?req1.0 = requestAnn
                and ?req2.0 = requestAnn and ?ip1.0 = "''203.0.113.7''"
                and ?ip2.0 = "''203.0.113.7''" and ?g1.0 = geoCheckFirst
                and ?g2.0 = geoCheckFirst and ?t1.0 = trustAnn and ?t2.0 = trustAnn]
    by (auto simp: u d w)
  show ?thesis
    using first act evicted admitted twice by simp
qed

subsection \<open>The handler never enters the block\<close>

lemma foldl_actions_invariant:
  assumes "\<And>a w. Q w \<Longrightarrow> Q (actionEffect e a al c w)" and "Q w"
  shows "Q (foldl (\<lambda>w a. actionEffect e a al c w) w as)"
  using assms(2) by (induction as arbitrary: w) (simp_all add: assms(1))

lemma ruleStep_invariant:
  assumes acts: "\<And>a al w. Q w \<Longrightarrow> Q (actionEffect e a al c w)"
    and store: "\<And>al w. Q w \<Longrightarrow> Q (storeAlert e al w)"
    and cons: "\<And>m w. Q w \<Longrightarrow> Q (w\<lparr> console := m \<rparr>)"
    and start: "Q w"
  shows "Q (snd (ruleStep e r c (acc, w)))"
proof (cases "r_condition r c")
  case (Inl err)
  then show ?thesis by (simp add: ruleStep_def cons[OF start])
next
  case (Inr holds)
  show ?thesis
  proof (cases holds)
    case False
    then show ?thesis using Inr start by (simp add: ruleStep_def)
  next
    case True
    show ?thesis
    proof (cases "r_message r c")
      case (Inl err)
      then show ?thesis using Inr True by (simp add: ruleStep_def cons[OF start])
    next
      case msg: (Inr m)
      have "Q (foldl (\<lambda>w a. actionEffect e a (makeAlert e r c m) c w) w (r_actions r))"
        by (rule foldl_actions_invariant[OF acts start])
      then have "Q (storeAlert e (makeAlert e r c m)
                     (foldl (\<lambda>w a. actionEffect e a (makeAlert e r c m) c w) w (r_actions r)))"
        by (rule store)
      then show ?thesis using Inr True msg by (simp add: ruleStep_def Let_def cons)
    qed
  qed
qed

lemma rules_invariant:
  assumes acts: "\<And>a al w. Q w \<Longrightarrow> Q (actionEffect e a al c w)"
    and store: "\<And>al w. Q w \<Longrightarrow> Q (storeAlert e al w)"
    and cons: "\<And>m w. Q w \<Longrightarrow> Q (w\<lparr> console := m \<rparr>)"
    and start: "Q w"
  shows "Q (snd (foldl (\<lambda>s r. ruleStep e r c s) (acc, w) rs))"
  using start
proof (induction rs arbitrary: acc w)
  case Nil
  then show ?case by simp
next
  case (Cons r rs)
  have "Q (snd (ruleStep e r c (acc, w)))"
    by (rule ruleStep_invariant[OF acts store cons Cons.prems])
  then have "Q (snd (foldl (\<lambda>s r. ruleStep e r c s)
                       (fst (ruleStep e r c (acc, w)), snd (ruleStep e r c (acc, w))) rs))"
    by (rule Cons.IH)
  then show ?case by simp
qed

lemma evaluateRules_production_invariant:
  assumes acts: "\<And>a al w. Q w \<Longrightarrow> Q (actionEffect e a al c w)"
    and store: "\<And>al w. Q w \<Longrightarrow> Q (storeAlert e al w)"
    and cons: "\<And>m w. Q w \<Longrightarrow> Q (w\<lparr> console := m \<rparr>)"
    and start: "Q w"
  shows "Q (snd (evaluateRules (production e) e c w))"
  unfolding evaluateRules_def evaluateRulesFrom_production snd_conv
  by (rule rules_invariant[OF acts store cons start])

lemma login_outcomes:
  "(\<exists>w'. login col e req w = (InvalidCredentials, w'))
   \<or> (\<exists>details w'. login col e req w = (LoginFailed details, w'))
   \<or> (\<exists>ws w'. login col e req w = (SuspiciousActivity ws, w'))
   \<or> (\<exists>reason w'. login col e req w = (OtpRequiredLocation reason, w'))"
proof (cases "db_users w (req_email req)")
  case None
  then show ?thesis by (simp add: login_def login_try_def)
next
  case (Some usr)
  show ?thesis
  proof (cases "bcrypt_compare e (req_password req) (u_password usr)")
    case False
    then show ?thesis using Some by (simp add: login_def login_try_def)
  next
    case True
    show ?thesis
    proof (cases "detectSpoofing (fp_components
                    (generateEnhancedFingerprint e req (req_fingerprint req)))")
      case (Inl err)
      then show ?thesis using Some True by (simp add: login_def login_try_def Let_def)
    next
      case (Inr sp)
      obtain geoCk w1 where g: "checkGeoImpossibility e (u_id usr) (clientIp req) w = (geoCk, w1)"
        by (cases "checkGeoImpossibility e (u_id usr) (clientIp req) w")
      obtain ts w2 where t: "calculateTrustScore e (u_id usr)
            (fp_deviceId (generateEnhancedFingerprint e req (req_fingerprint req)))
            (clientIp req) w1 = (ts, w2)"
        by (cases "calculateTrustScore e (u_id usr)
            (fp_deviceId (generateEnhancedFingerprint e req (req_fingerprint req)))
            (clientIp req) w1")
      show ?thesis
      proof (cases "riskScore sp > 70")
        case high: True
        show ?thesis unfolding login_suspicious[OF Some True Inr high] by simp
      next
        case low: False
        show ?thesis
        proof (cases "gc_isImpossible geoCk")
          case imp: True
          show ?thesis unfolding login_geo_impossible[OF Some True refl Inr low g imp] by simp
        next
          case poss: False
          show ?thesis
            unfolding login_reference_error(2)[OF Some True refl Inr low g poss t] by simp
        qed
      qed
    qed
  qed
qed

lemma login_production_invariant:
  assumes acts: "\<And>a al c w.
        cx_deviceId c = fp_deviceId (generateEnhancedFingerprint e req (req_fingerprint req))
        \<Longrightarrow> Q w \<Longrightarrow> Q (actionEffect e a al c w)"
    and store: "\<And>al w. Q w \<Longrightarrow> Q (storeAlert e al w)"
    and cons: "\<And>m w. Q w \<Longrightarrow> Q (w\<lparr> console := m \<rparr>)"
    and block: "\<And>u n w. Q w \<Longrightarrow> Q (blockUser u n w)"
    and loc: "\<And>m w. Q w \<Longrightarrow> Q (w\<lparr> kv_last_location := m \<rparr>)"
    and trust: "\<And>cs t w. Q w \<Longrightarrow> Q (w\<lparr> kv_countries := cs, kv_trust := t \<rparr>)"
    and otp: "\<And>usr w. Q w \<Longrightarrow> Q (issueOtp e usr w)"
    and start: "Q w"
  shows "Q (snd (login (production e) e req w))"
proof (cases "db_users w (req_email req)")
  case None
  then show ?thesis using start by (simp add: login_def login_try_def)
next
  case (Some usr)
  show ?thesis
  proof (cases "bcrypt_compare e (req_password req) (u_password usr)")
    case False
    then show ?thesis using Some start by (simp add: login_def login_try_def)
  next
    case True
    show ?thesis
    proof (cases "detectSpoofing (fp_components
                    (generateEnhancedFingerprint e req (req_fingerprint req)))")
      case (Inl err)
      then show ?thesis using Some True by (simp add: login_def login_try_def Let_def cons[OF start])
    next
      case (Inr sp)
      obtain geoCk w1 where g: "checkGeoImpossibility e (u_id usr) (clientIp req) w = (geoCk, w1)"
        by (cases "checkGeoImpossibility e (u_id usr) (clientIp req) w")
      obtain m where w1: "w1 = w\<lparr> kv_last_location := m \<rparr>"
        using checkGeo_world[of e "u_id usr" "clientIp req" w] g by auto
      obtain ts w2 where t: "calculateTrustScore e (u_id usr)
            (fp_deviceId (generateEnhancedFingerprint e req (req_fingerprint req)))
            (clientIp req) w1 = (ts, w2)"
        by (cases "calculateTrustScore e (u_id usr)
            (fp_deviceId (generateEnhancedFingerprint e req (req_fingerprint req)))
            (clientIp req) w1")
      obtain cs tr where w2: "w2 = w1\<lparr> kv_countries := cs, kv_trust := tr \<rparr>"
        using trust_world[of e "u_id usr"
                "fp_deviceId (generateEnhancedFingerprint e req (req_fingerprint req))"
                "clientIp req" w1] t by auto
      have q1: "Q w1" unfolding w1 by (rule loc[OF start])
      have q2: "Q w2" unfolding w2 by (rule trust[OF q1])
      show ?thesis
      proof (cases "riskScore sp > 70")
        case high: True
        show ?thesis
          unfolding login_suspicious[OF Some True Inr high] snd_conv by (rule block[OF start])
      next
        case low: False
        show ?thesis
        proof (cases "gc_isImpossible geoCk")
          case imp: True
          have "Q (snd (evaluateRules (production e) e
                     (initialAlertContext usr
                        (generateEnhancedFingerprint e req (req_fingerprint req))
                        (clientIp req) geoCk) w1))"
            by (rule evaluateRules_production_invariant[OF acts store cons q1])
               (simp add: initialAlertContext_def)
          then show ?thesis
            unfolding login_geo_impossible[OF Some True refl Inr low g imp] snd_conv
            by (rule otp)
        next
          case poss: False
          show ?thesis
            unfolding login_reference_error(2)[OF Some True refl Inr low g poss t] snd_conv
            by (rule cons[OF q2])
        qed
      qed
    qed
  qed
qed

lemma login_other_sessions:
  assumes "d \<noteq> fp_deviceId (generateEnhancedFingerprint e req (req_fingerprint req))"
  shows "kv_sessions (snd (login (production e) e req w)) (u, d) = kv_sessions w (u, d)"
  by (rule login_production_invariant[where Q = "\<lambda>w'. kv_sessions w' (u, d) = kv_sessions w (u, d)"])
     (use assms in \<open>simp_all add: actionEffect_def deleteSession_def blockUser_def flagUser_def
        storeAlert_def issueOtp_def Let_def\<close>)

lemma login_creates_nothing:
  "(\<forall>k s. kv_sessions (snd (login (production e) e req w)) k = Some s \<longrightarrow> kv_sessions w k = Some s)
   \<and> (\<forall>u d. SessionCreated u d \<in> set (calls (snd (login (production e) e req w)))
          \<longrightarrow> SessionCreated u d \<in> set (calls w))
   \<and> db_sessions (snd (login (production e) e req w)) = db_sessions w"
  by (rule login_production_invariant
        [where Q = "\<lambda>w'. (\<forall>k s. kv_sessions w' k = Some s \<longrightarrow> kv_sessions w k = Some s)
                      \<and> (\<forall>u d. SessionCreated u d \<in> set (calls w')
                            \<longrightarrow> SessionCreated u d \<in> set (calls w))
                      \<and> db_sessions w' = db_sessions w"])
     (auto simp: actionEffect_def deleteSession_def blockUser_def flagUser_def
        storeAlert_def issueOtp_def Let_def split: if_splits)

lemma login_keeps_calls:
  assumes "x \<in> set (calls w)"
  shows "x \<in> set (calls (snd (login (production e) e req w)))"
  by (rule login_production_invariant[where Q = "\<lambda>w'. x \<in> set (calls w')"])
     (use assms in \<open>simp_all add: actionEffect_def deleteSession_def blockUser_def flagUser_def
        storeAlert_def issueOtp_def Let_def\<close>)

lemma login_Basic:
  "login col envAnn requestAnn worldBasic
     = (LoginFailed tdzMessage, snd (login col envAnn requestAnn worldBasic))"
proof -
  have h1: "db_users worldBasic (req_email requestAnn) = Some userBasic"
    by (simp add: worldBasic_def requestAnn_def)
  have h2: "bcrypt_compare envAnn (req_password requestAnn) (u_password userBasic)"
    by (simp add: envAnn_def env0_def requestAnn_def userBasic_def userAnn_def)
  have low: "\<not> riskScore \<lparr> isSuspicious = False, riskScore = 0, warnings = [] \<rparr> > 70"
    by simp
  have u: "u_id userBasic = ''user-1''"
    by (simp add: userBasic_def userAnn_def)
  have prev: "kv_last_location worldBasic ''user-1''
          = Some \<lparr> loc_country = ''IN'', loc_city = ''Delhi'', loc_lat = 28.70,
                    loc_lon = 77.10, loc_timestamp = 1699913600000 \<rparr>"
    by (simp add: worldBasic_def worldAnn_def emptyWorld_def)
  have poss: "\<not> gc_isImpossible (fst (checkGeoImpossibility envAnn (u_id userBasic)
                                         (clientIp requestAnn) worldBasic))"
    unfolding u ip_Ann checkGeo_known(1)[OF delhi prev]
    by (simp add: calculateDistance_same[OF exact_envAnn])
  note l = login_reference_error(2)[OF h1 h2 refl spoof_Ann low prod.collapse[symmetric] poss
             prod.collapse[symmetric], of col]
  show ?thesis unfolding l by simp
qed

text \<open>
  C4. No login reaches the enforcement of the session limit. \<open>exports.login\<close> never
  answers with a token, whatever the collaborators: it answers invalid credentials,
  suspicious activity, a request for a one-time password after impossible travel, or
  500, because the read of \<open>device\<close> before its declaration throws before steps 9 to 12.
  In the running system a login leaves the session of every other device as it was, so
  that the oldest session is not evicted, and stores and creates no session, neither in
  the registry nor in the backup collection; the same holds after a second login, so
  that a user with no session has none after two logins. The plan mapping itself is 1
  for BASIC, 2 for STANDARD, 4 for PREMIUM and 1 for any other plan, where the copy of
  the older controller returns \<open>undefined\<close>.
\<close>

theorem login_never_enforces_session_limit:
  "fst (login col e req w) \<noteq> LoginSuccessful ok
   \<and> (d \<noteq> fp_deviceId (generateEnhancedFingerprint e req (req_fingerprint req))
        \<longrightarrow> getSession u d (snd (login (production e) e req w)) = getSession u d w)
   \<and> (getSession u d (snd (login (production e) e req w)) = Some s
        \<longrightarrow> getSession u d w = Some s)
   \<and> (SessionCreated u d \<in> set (calls (snd (login (production e) e req w)))
        \<longleftrightarrow> SessionCreated u d \<in> set (calls w))
   \<and> db_sessions (snd (login (production e) e req w)) = db_sessions w
   \<and> fst (login col2 e2 req2 (snd (login col e req w))) \<noteq> LoginSuccessful ok2
   \<and> (kv_sessions w = Map.empty
        \<longrightarrow> getSession u d (snd (login (production e2) e2 req2
                                 (snd (login (production e) e req w)))) = None)
   \<and> getMaxSessions ''BASIC'' = 1 \<and> getMaxSessions ''STANDARD'' = 2
   \<and> getMaxSessions ''PREMIUM'' = 4
   \<and> (plan \<noteq> ''BASIC'' \<and> plan \<noteq> ''STANDARD'' \<and> plan \<noteq> ''PREMIUM''
        \<longrightarrow> getMaxSessions plan = 1 \<and> legacy_getMaxSessions plan = None)"
proof -
  have no: "fst (login col e req w) \<noteq> LoginSuccessful ok" for col e req w ok
    using login_outcomes[of col e req w] by auto
  have other: "d \<noteq> fp_deviceId (generateEnhancedFingerprint e req (req_fingerprint req))
        \<longrightarrow> getSession u d (snd (login (production e) e req w)) = getSession u d w"
    by (simp add: getSession_def login_other_sessions)
  note c = login_creates_nothing[of e req w]
  have within: "getSession u d (snd (login (production e) e req w)) = Some s
        \<longrightarrow> getSession u d w = Some s"
    using conjunct1[OF c] by (simp add: getSession_def)
  have created: "SessionCreated u d \<in> set (calls (snd (login (production e) e req w)))
        \<longleftrightarrow> SessionCreated u d \<in> set (calls w)"
    using conjunct1[OF conjunct2[OF c]] login_keeps_calls[of "SessionCreated u d" w e req]
    by blast
  have backup: "db_sessions (snd (login (production e) e req w)) = db_sessions w"
    by (rule conjunct2[OF conjunct2[OF c]])
  have twice: "kv_sessions w = Map.empty
        \<longrightarrow> getSession u d (snd (login (production e2) e2 req2
                                 (snd (login (production e) e req w)))) = None"
  proof
    assume empty: "kv_sessions w = Map.empty"
    show "getSession u d (snd (login (production e2) e2 req2
                                 (snd (login (production e) e req w)))) = None"
    proof (cases "getSession u d (snd (login (production e2) e2 req2
                                 (snd (login (production e) e req w))))")
      case None
      then show ?thesis .
    next
      case (Some s)
      then have "kv_sessions (snd (login (production e) e req w)) (u, d) = Some s"
        using conjunct1[OF login_creates_nothing[of e2 req2 "snd (login (production e) e req w)"]]
        by (simp add: getSession_def)
      then have "kv_sessions w (u, d) = Some s"
        using conjunct1[OF c] by simp
      then show ?thesis using empty by simp
    qed
  qed
  have plans: "getMaxSessions ''BASIC'' = 1" "getMaxSessions ''STANDARD'' = 2"
    "getMaxSessions ''PREMIUM'' = 4"
    by (simp_all add: getMaxSessions_def)
  have unknown: "plan \<noteq> ''BASIC'' \<and> plan \<noteq> ''STANDARD'' \<and> plan \<noteq> ''PREMIUM''
        \<longrightarrow> getMaxSessions plan = 1 \<and> legacy_getMaxSessions plan = None"
    by (simp add: getMaxSessions_def legacy_getMaxSessions_def)
  show ?thesis
    by (rule conjI[OF no conjI[OF other conjI[OF within conjI[OF created conjI[OF backup
          conjI[OF no conjI[OF twice conjI[OF plans(1) conjI[OF plans(2) conjI[OF plans(3)
          unknown]]]]]]]]]])
qed

theorem login_never_enforces_session_limit_witness:
  "u_plan userBasic = ''BASIC''
   \<and> length (fst (getUserSessions ''user-1'' worldBasic)) = getMaxSessions (u_plan userBasic)
   \<and> fst (login (production envAnn) envAnn requestAnn worldBasic) = LoginFailed tdzMessage
   \<and> status (fst (login (production envAnn) envAnn requestAnn worldBasic)) = 500
   \<and> getSession ''user-1'' ''device-B'' worldBasic = Some sessionB
   \<and> getSession ''user-1'' ''device-B''
        (snd (login (production envAnn) envAnn requestAnn worldBasic)) = Some sessionB
   \<and> getSession ''user-1'' deviceAnn
        (snd (login (production envAnn) envAnn requestAnn worldBasic)) = None
   \<and> SessionCreated ''user-1'' deviceAnn
        \<notin> set (calls (snd (login (production envAnn) envAnn requestAnn worldBasic)))
   \<and> db_sessions (snd (login (production envAnn) envAnn requestAnn worldBasic)) = []
   \<and> (\<forall>ok. fst (login (production envAnn) envAnn requestNY
                   (snd (login (production envAnn) envAnn requestAnn worldBasicNew)))
              \<noteq> LoginSuccessful ok)
   \<and> getSession ''user-1'' deviceAnn
        (snd (login (production envAnn) envAnn requestNY
                (snd (login (production envAnn) envAnn requestAnn worldBasicNew)))) = None
   \<and> getSession ''user-1''
        (fp_deviceId (generateEnhancedFingerprint envAnn requestNY (req_fingerprint requestNY)))
        (snd (login (production envAnn) envAnn requestNY
                (snd (login (production envAnn) envAnn requestAnn worldBasicNew)))) = None
   \<and> getMaxSessions ''GOLD'' = 1
   \<and> legacy_getMaxSessions ''GOLD'' = None"
proof -
  have plan: "u_plan userBasic = ''BASIC''"
    by (simp add: userBasic_def)
  have full: "length (fst (getUserSessions ''user-1'' worldBasic)) = getMaxSessions (u_plan userBasic)"
    by (simp add: getUserSessions_def getSession_def worldBasic_def worldAnn_def emptyWorld_def
          plan getMaxSessions_def)
  have failed: "fst (login (production envAnn) envAnn requestAnn worldBasic) = LoginFailed tdzMessage"
    using arg_cong[OF login_Basic[of "production envAnn"], of fst] by simp
  have w: "getSession ''user-1'' ''device-B'' worldBasic = Some sessionB"
    "getSession ''user-1'' deviceAnn worldBasic = None"
    "calls worldBasic = []" "db_sessions worldBasic = []"
    "kv_sessions worldBasicNew = Map.empty"
    using deviceAnn_other
    by (simp_all add: getSession_def worldBasic_def worldBasicNew_def worldAnn_def emptyWorld_def)
  have dev: "''device-B''
               \<noteq> fp_deviceId (generateEnhancedFingerprint envAnn requestAnn (req_fingerprint requestAnn))"
    using deviceAnn_other by (simp add: deviceAnn_def)
  note T = login_never_enforces_session_limit
             [where col = "production envAnn" and e = envAnn and req = requestAnn
                and w = worldBasic and u = "''user-1''" and d = "''device-B''" and s = sessionB
                and ?col2.0 = "production envAnn" and ?e2.0 = envAnn and ?req2.0 = requestNY
                and plan = "''GOLD''"]
  have kept: "getSession ''user-1'' ''device-B''
        (snd (login (production envAnn) envAnn requestAnn worldBasic)) = Some sessionB"
    using mp [OF conjunct1 [OF conjunct2 [OF T]] dev] w(1) by simp
  have before: "getSession ''user-1'' ''device-B'' worldBasic = Some sessionB"
    by (rule mp [OF conjunct1 [OF conjunct2 [OF conjunct2 [OF T]]] kept])
  have absent: "getSession ''user-1'' deviceAnn
        (snd (login (production envAnn) envAnn requestAnn worldBasic)) = None"
  proof (cases "getSession ''user-1'' deviceAnn
        (snd (login (production envAnn) envAnn requestAnn worldBasic))")
    case None
    then show ?thesis .
  next
    case (Some s)
    have "getSession ''user-1'' deviceAnn worldBasic = Some s"
      by (rule mp [OF conjunct1 [OF conjunct2 [OF conjunct2
            [OF login_never_enforces_session_limit
                  [where col = "production envAnn" and e = envAnn and req = requestAnn
                     and w = worldBasic and u = "''user-1''" and d = deviceAnn and s = s
                     and ?col2.0 = "production envAnn" and ?e2.0 = envAnn and ?req2.0 = requestNY
                     and plan = "''GOLD''"]]]] Some])
    then show ?thesis using w(2) by simp
  qed
  have uncreated: "SessionCreated ''user-1'' deviceAnn
        \<notin> set (calls (snd (login (production envAnn) envAnn requestAnn worldBasic)))"
    using conjunct1 [OF conjunct2 [OF conjunct2 [OF conjunct2
            [OF login_never_enforces_session_limit
                  [where col = "production envAnn" and e = envAnn and req = requestAnn
                     and w = worldBasic and u = "''user-1''" and d = deviceAnn and s = sessionB
                     and ?col2.0 = "production envAnn" and ?e2.0 = envAnn and ?req2.0 = requestNY
                     and plan = "''GOLD''"]]]]]
          w(3)
    by simp
  have backup: "db_sessions (snd (login (production envAnn) envAnn requestAnn worldBasic)) = []"
    using conjunct1 [OF conjunct2 [OF conjunct2 [OF conjunct2 [OF conjunct2 [OF T]]]]] w(4) by simp
  have second: "\<forall>ok. fst (login (production envAnn) envAnn requestNY
                   (snd (login (production envAnn) envAnn requestAnn worldBasicNew)))
              \<noteq> LoginSuccessful ok"
  proof
    fix ok
    show "fst (login (production envAnn) envAnn requestNY
                   (snd (login (production envAnn) envAnn requestAnn worldBasicNew)))
              \<noteq> LoginSuccessful ok"
      by (rule conjunct1 [OF conjunct2 [OF conjunct2 [OF conjunct2 [OF conjunct2 [OF conjunct2
            [OF login_never_enforces_session_limit
                  [where col = "production envAnn" and e = envAnn and req = requestAnn
                     and w = worldBasicNew and u = "''user-1''" and d = deviceAnn and s = sessionB
                     and ?col2.0 = "production envAnn" and ?e2.0 = envAnn and ?req2.0 = requestNY
                     and ?ok2.0 = ok and plan = "''GOLD''"]]]]]]])
  qed
  have none: "getSession ''user-1'' d
        (snd (login (production envAnn) envAnn requestNY
                (snd (login (production envAnn) envAnn requestAnn worldBasicNew)))) = None" for d
    by (rule mp [OF conjunct1 [OF conjunct2 [OF conjunct2 [OF conjunct2 [OF conjunct2
          [OF conjunct2 [OF conjunct2
            [OF login_never_enforces_session_limit
                  [where col = "production envAnn" and e = envAnn and req = requestAnn
                     and w = worldBasicNew and u = "''user-1''" and d = d and s = sessionB
                     and ?col2.0 = "production envAnn" and ?e2.0 = envAnn and ?req2.0 = requestNY
                     and plan = "''GOLD''"]]]]]]]] w(5)])
  have gold: "''GOLD'' \<noteq> ''BASIC'' \<and> ''GOLD'' \<noteq> ''STANDARD'' \<and> ''GOLD'' \<noteq> ''PREMIUM''"
    by simp
  note G = mp [OF conjunct2 [OF conjunct2 [OF conjunct2 [OF conjunct2 [OF conjunct2
          [OF conjunct2 [OF conjunct2 [OF conjunct2 [OF conjunct2 [OF conjunct2 [OF T]]]]]]]]]] gold]
  have st: "status (fst (login (production envAnn) envAnn requestAnn worldBasic)) = 500"
    unfolding failed by simp
  show ?thesis
    by (rule conjI [OF plan conjI [OF full conjI [OF failed conjI [OF st conjI [OF before conjI [OF kept
          conjI [OF absent conjI [OF uncreated conjI [OF backup conjI [OF second
          conjI [OF none conjI [OF none conjI [OF conjunct1 [OF G] conjunct2 [OF G]]]]]]]]]]]]]])
qed

section \<open>Properties of the device fingerprint\<close>

lemma map_insort_key: "map f (insort_key f x xs) = insort (f x) (map f xs)"
  by (induction xs) simp_all

lemma map_sort_key: "map f (sort_key f xs) = sort (map f xs)"
  by (induction xs) (simp_all add: map_insort_key)

lemma sort_key_distinct_keys:
  assumes "distinct (map fst cs)"
  shows "sort_key fst cs = map (\<lambda>k. (k, getProp cs k)) (sort (map fst cs))"
proof -
  have "map (\<lambda>x. (fst x, getProp cs (fst x))) (sort_key fst cs) = sort_key fst cs"
  proof (rule map_idI)
    fix x assume "x \<in> set (sort_key fst cs)"
    then have "x \<in> set cs" by simp
    then have "(fst x, snd x) \<in> set cs" by simp
    then have "map_of cs (fst x) = Some (snd x)"
      using assms by (simp only: map_of_eq_Some_iff)
    then show "(fst x, getProp cs (fst x)) = x"
      by (simp add: getProp_def)
  qed
  then have "sort_key fst cs = map (\<lambda>k. (k, getProp cs k)) (map fst (sort_key fst cs))"
    by (simp add: comp_def)
  then show ?thesis
    unfolding map_sort_key .
qed

lemma component_keys:
  "map fst (fingerprintComponents e req f) = componentKeys"
  by (simp add: fingerprintComponents_def componentKeys_def Let_def)

lemma distinct_componentKeys: "distinct componentKeys"
  by (simp add: componentKeys_def)

lemma fingerprintString_by_key:
  "fingerprintString e (fingerprintComponents e' req f)
     = join ''|'' (map (\<lambda>k. k @ '':'' @ js_toString (numToString e)
                                  (getProp (fingerprintComponents e' req f) k))
                      (sort componentKeys))"
proof -
  have d: "distinct (map fst (fingerprintComponents e' req f))"
    unfolding component_keys by (rule distinct_componentKeys)
  show ?thesis
    unfolding fingerprintString_def sort_key_distinct_keys[OF d] component_keys
    by (simp add: comp_def)
qed

lemma concat_single_difference:
  assumes "distinct K" and "k \<in> set K" and "\<forall>j\<in>set K. j \<noteq> k \<longrightarrow> F j = G j"
    and "F k \<noteq> G k"
  shows "concat (map (\<lambda>j. sep @ F j) K) \<noteq> concat (map (\<lambda>j. sep @ G j) K)"
  using assms
proof (induction K)
  case Nil
  then show ?case by simp
next
  case (Cons j K)
  show ?case
  proof (cases "j = k")
    case True
    have "k \<notin> set K" using Cons.prems(1) True by simp
    then have "map (\<lambda>j. sep @ F j) K = map (\<lambda>j. sep @ G j) K"
      using Cons.prems(3) by (intro map_cong) auto
    then have c: "concat (map (\<lambda>j. sep @ F j) K) = concat (map (\<lambda>j. sep @ G j) K)"
      by (rule arg_cong)
    show ?thesis using Cons.prems(4) unfolding True by (simp add: c)
  next
    case False
    then have "F j = G j" "k \<in> set K" using Cons.prems by auto
    then show ?thesis using Cons by simp
  qed
qed

lemma join_single_difference:
  assumes "distinct K" and "k \<in> set K" and "\<forall>j\<in>set K. j \<noteq> k \<longrightarrow> F j = G j"
    and "F k \<noteq> G k"
  shows "join sep (map F K) \<noteq> join sep (map G K)"
proof (cases K)
  case Nil
  then show ?thesis using assms(2) by simp
next
  case (Cons j K')
  show ?thesis
  proof (cases "j = k")
    case True
    have "k \<notin> set K'" using assms(1) True Cons by simp
    then have "map (\<lambda>j. sep @ F j) K' = map (\<lambda>j. sep @ G j) K'"
      using assms(3) Cons by (intro map_cong) auto
    then have c: "concat (map (\<lambda>j. sep @ F j) K') = concat (map (\<lambda>j. sep @ G j) K')"
      by (rule arg_cong)
    show ?thesis using assms(4) unfolding Cons True by (simp add: join_def comp_def c)
  next
    case False
    then have same: "F j = G j" and k: "k \<in> set K'" using assms Cons by auto
    have "concat (map (\<lambda>j. sep @ F j) K') \<noteq> concat (map (\<lambda>j. sep @ G j) K')"
      using concat_single_difference[OF _ k, of F G sep] assms(1,3,4) Cons by auto
    then show ?thesis using same Cons by (simp add: join_def comp_def)
  qed
qed

lemma fingerprintString_single_change:
  assumes "\<forall>j. j \<noteq> k \<longrightarrow> getProp (fingerprintComponents e1 req1 f1) j
                              = getProp (fingerprintComponents e2 req2 f2) j"
    and "getProp (fingerprintComponents e1 req1 f1) k \<noteq> getProp (fingerprintComponents e2 req2 f2) k"
  shows "fingerprintString e (fingerprintComponents e1 req1 f1)
           = fingerprintString e (fingerprintComponents e2 req2 f2)
         \<longleftrightarrow> js_toString (numToString e) (getProp (fingerprintComponents e1 req1 f1) k)
             = js_toString (numToString e) (getProp (fingerprintComponents e2 req2 f2) k)"
proof
  assume r: "js_toString (numToString e) (getProp (fingerprintComponents e1 req1 f1) k)
             = js_toString (numToString e) (getProp (fingerprintComponents e2 req2 f2) k)"
  have "(\<lambda>j. j @ '':'' @ js_toString (numToString e) (getProp (fingerprintComponents e1 req1 f1) j))
        = (\<lambda>j. j @ '':'' @ js_toString (numToString e) (getProp (fingerprintComponents e2 req2 f2) j))"
  proof
    fix j
    show "j @ '':'' @ js_toString (numToString e) (getProp (fingerprintComponents e1 req1 f1) j)
        = j @ '':'' @ js_toString (numToString e) (getProp (fingerprintComponents e2 req2 f2) j)"
      using assms(1) r by (cases "j = k") simp_all
  qed
  then show "fingerprintString e (fingerprintComponents e1 req1 f1)
           = fingerprintString e (fingerprintComponents e2 req2 f2)"
    unfolding fingerprintString_by_key by simp
next
  assume s: "fingerprintString e (fingerprintComponents e1 req1 f1)
           = fingerprintString e (fingerprintComponents e2 req2 f2)"
  have k: "k \<in> set (sort componentKeys)"
  proof (rule ccontr)
    assume "k \<notin> set (sort componentKeys)"
    then have "k \<notin> set (map fst (fingerprintComponents e1 req1 f1))"
      "k \<notin> set (map fst (fingerprintComponents e2 req2 f2))"
      unfolding component_keys by simp_all
    then have "map_of (fingerprintComponents e1 req1 f1) k = None"
      "map_of (fingerprintComponents e2 req2 f2) k = None"
      by (simp_all add: map_of_eq_None_iff)
    then show False using assms(2) by (simp add: getProp_def)
  qed
  show "js_toString (numToString e) (getProp (fingerprintComponents e1 req1 f1) k)
             = js_toString (numToString e) (getProp (fingerprintComponents e2 req2 f2) k)"
  proof (rule ccontr)
    assume n: "js_toString (numToString e) (getProp (fingerprintComponents e1 req1 f1) k)
             \<noteq> js_toString (numToString e) (getProp (fingerprintComponents e2 req2 f2) k)"
    have "join ''|'' (map (\<lambda>j. j @ '':'' @ js_toString (numToString e)
                                  (getProp (fingerprintComponents e1 req1 f1) j))
                      (sort componentKeys))
        \<noteq> join ''|'' (map (\<lambda>j. j @ '':'' @ js_toString (numToString e)
                                  (getProp (fingerprintComponents e2 req2 f2) j))
                      (sort componentKeys))"
    proof (rule join_single_difference[OF _ k])
      show "distinct (sort componentKeys)"
        using distinct_componentKeys by simp
      show "\<forall>j\<in>set (sort componentKeys). j \<noteq> k \<longrightarrow>
              j @ '':'' @ js_toString (numToString e) (getProp (fingerprintComponents e1 req1 f1) j)
            = j @ '':'' @ js_toString (numToString e) (getProp (fingerprintComponents e2 req2 f2) j)"
        using assms(1) by simp
      show "k @ '':'' @ js_toString (numToString e) (getProp (fingerprintComponents e1 req1 f1) k)
            \<noteq> k @ '':'' @ js_toString (numToString e) (getProp (fingerprintComponents e2 req2 f2) k)"
        using n by simp
    qed
    then show False using s unfolding fingerprintString_by_key by simp
  qed
qed

lemma deviceId_single_change:
  assumes "\<forall>j. j \<noteq> k \<longrightarrow> getProp (fp_components (generateEnhancedFingerprint e req1 f1)) j
                              = getProp (fp_components (generateEnhancedFingerprint e req2 f2)) j"
    and "getProp (fp_components (generateEnhancedFingerprint e req1 f1)) k
           \<noteq> getProp (fp_components (generateEnhancedFingerprint e req2 f2)) k"
  shows "js_toString (numToString e) (getProp (fp_components (generateEnhancedFingerprint e req1 f1)) k)
           = js_toString (numToString e) (getProp (fp_components (generateEnhancedFingerprint e req2 f2)) k)
         \<Longrightarrow> fp_deviceId (generateEnhancedFingerprint e req1 f1)
               = fp_deviceId (generateEnhancedFingerprint e req2 f2)"
    and "js_toString (numToString e) (getProp (fp_components (generateEnhancedFingerprint e req1 f1)) k)
           \<noteq> js_toString (numToString e) (getProp (fp_components (generateEnhancedFingerprint e req2 f2)) k)
         \<Longrightarrow> inj (sha256_hex e)
         \<Longrightarrow> fp_deviceId (generateEnhancedFingerprint e req1 f1)
               \<noteq> fp_deviceId (generateEnhancedFingerprint e req2 f2)"
proof -
  note iff = fingerprintString_single_change[OF assms[unfolded fp_components_gen], of e]
  have id: "fp_deviceId (generateEnhancedFingerprint e req f)
              = sha256_hex e (fingerprintString e
                  (fingerprintComponents e req (case f of Some x \<Rightarrow> x | None \<Rightarrow> [])))" for req f
    by (simp add: generateEnhancedFingerprint_def Let_def)
  show "js_toString (numToString e) (getProp (fp_components (generateEnhancedFingerprint e req1 f1)) k)
           = js_toString (numToString e) (getProp (fp_components (generateEnhancedFingerprint e req2 f2)) k)
         \<Longrightarrow> fp_deviceId (generateEnhancedFingerprint e req1 f1)
               = fp_deviceId (generateEnhancedFingerprint e req2 f2)"
    unfolding id fp_components_gen using iff by simp
  show "js_toString (numToString e) (getProp (fp_components (generateEnhancedFingerprint e req1 f1)) k)
           \<noteq> js_toString (numToString e) (getProp (fp_components (generateEnhancedFingerprint e req2 f2)) k)
         \<Longrightarrow> inj (sha256_hex e)
         \<Longrightarrow> fp_deviceId (generateEnhancedFingerprint e req1 f1)
               \<noteq> fp_deviceId (generateEnhancedFingerprint e req2 f2)"
    unfolding id fp_components_gen using iff by (simp add: inj_eq)
qed

text \<open>
  C9. The device id is the digest of the fingerprint string of the component mapping
  and does not depend on the time of the call, so equal component mappings give equal
  ids. The mapping always has the same 27 keys. When two mappings differ in the value of
  one key only, their ids are equal if the two values are rendered as the same text, and
  differ if the texts differ and the digest is injective. Every object is rendered as
  \<open>[object Object]\<close>: two mappings that differ only in the object under \<open>webgl\<close>
  are different mappings with the same id. The id of the older controller is the digest
  of the user agent followed by the address.
\<close>

theorem deviceId_depends_on_rendered_components:
  "fp_deviceId (generateEnhancedFingerprint e req f)
     = sha256_hex e (fingerprintString e (fp_components (generateEnhancedFingerprint e req f)))
   \<and> fp_deviceId (generateEnhancedFingerprint (e\<lparr> date_now := t \<rparr>) req f)
       = fp_deviceId (generateEnhancedFingerprint e req f)
   \<and> (fp_components (generateEnhancedFingerprint e req1 f1)
          = fp_components (generateEnhancedFingerprint e req2 f2)
        \<longrightarrow> fp_deviceId (generateEnhancedFingerprint e req1 f1)
              = fp_deviceId (generateEnhancedFingerprint e req2 f2))
   \<and> map fst (fp_components (generateEnhancedFingerprint e req f)) = componentKeys
   \<and> ((\<forall>j. j \<noteq> k \<longrightarrow> getProp (fp_components (generateEnhancedFingerprint e req1 f1)) j
                          = getProp (fp_components (generateEnhancedFingerprint e req2 f2)) j)
        \<and> getProp (fp_components (generateEnhancedFingerprint e req1 f1)) k
              \<noteq> getProp (fp_components (generateEnhancedFingerprint e req2 f2)) k
        \<longrightarrow>
          (js_toString (numToString e)
               (getProp (fp_components (generateEnhancedFingerprint e req1 f1)) k)
             = js_toString (numToString e)
                 (getProp (fp_components (generateEnhancedFingerprint e req2 f2)) k)
           \<longrightarrow> fp_deviceId (generateEnhancedFingerprint e req1 f1)
                 = fp_deviceId (generateEnhancedFingerprint e req2 f2))
          \<and> (js_toString (numToString e)
                 (getProp (fp_components (generateEnhancedFingerprint e req1 f1)) k)
               \<noteq> js_toString (numToString e)
                   (getProp (fp_components (generateEnhancedFingerprint e req2 f2)) k)
               \<and> inj (sha256_hex e)
             \<longrightarrow> fp_deviceId (generateEnhancedFingerprint e req1 f1)
                   \<noteq> fp_deviceId (generateEnhancedFingerprint e req2 f2)))
   \<and> ((\<forall>j. j \<noteq> ''webgl'' \<longrightarrow>
              getProp (fp_components (generateEnhancedFingerprint e req1 f1)) j
                = getProp (fp_components (generateEnhancedFingerprint e req2 f2)) j)
        \<and> getProp (fp_components (generateEnhancedFingerprint e req1 f1)) ''webgl'' = JObj o1
        \<and> getProp (fp_components (generateEnhancedFingerprint e req2 f2)) ''webgl'' = JObj o2
        \<and> o1 \<noteq> o2
        \<longrightarrow> fp_components (generateEnhancedFingerprint e req1 f1)
              \<noteq> fp_components (generateEnhancedFingerprint e req2 f2)
            \<and> fp_deviceId (generateEnhancedFingerprint e req1 f1)
                = fp_deviceId (generateEnhancedFingerprint e req2 f2))
   \<and> generateDeviceId e userAgent ip = sha256_hex e (userAgent @ ip)
   \<and> (inj (sha256_hex e) \<and> userAgent \<noteq> userAgent'
        \<longrightarrow> generateDeviceId e userAgent ip \<noteq> generateDeviceId e userAgent' ip)"
proof -
  have p1: "fp_deviceId (generateEnhancedFingerprint e req f)
     = sha256_hex e (fingerprintString e (fp_components (generateEnhancedFingerprint e req f)))"
    for req f
    by (simp add: generateEnhancedFingerprint_def Let_def)
  have p2: "fp_deviceId (generateEnhancedFingerprint (e\<lparr> date_now := t \<rparr>) req f)
       = fp_deviceId (generateEnhancedFingerprint e req f)"
    by (simp add: generateEnhancedFingerprint_def fingerprintString_def
          fingerprintComponents_def Let_def)
  have p3: "fp_components (generateEnhancedFingerprint e req1 f1)
          = fp_components (generateEnhancedFingerprint e req2 f2)
        \<longrightarrow> fp_deviceId (generateEnhancedFingerprint e req1 f1)
              = fp_deviceId (generateEnhancedFingerprint e req2 f2)"
    unfolding p1 by simp
  have p4: "map fst (fp_components (generateEnhancedFingerprint e req f)) = componentKeys"
    unfolding fp_components_gen by (rule component_keys)
  have p5: "(\<forall>j. j \<noteq> k \<longrightarrow> getProp (fp_components (generateEnhancedFingerprint e req1 f1)) j
                          = getProp (fp_components (generateEnhancedFingerprint e req2 f2)) j)
        \<and> getProp (fp_components (generateEnhancedFingerprint e req1 f1)) k
              \<noteq> getProp (fp_components (generateEnhancedFingerprint e req2 f2)) k
        \<longrightarrow>
          (js_toString (numToString e)
               (getProp (fp_components (generateEnhancedFingerprint e req1 f1)) k)
             = js_toString (numToString e)
                 (getProp (fp_components (generateEnhancedFingerprint e req2 f2)) k)
           \<longrightarrow> fp_deviceId (generateEnhancedFingerprint e req1 f1)
                 = fp_deviceId (generateEnhancedFingerprint e req2 f2))
          \<and> (js_toString (numToString e)
                 (getProp (fp_components (generateEnhancedFingerprint e req1 f1)) k)
               \<noteq> js_toString (numToString e)
                   (getProp (fp_components (generateEnhancedFingerprint e req2 f2)) k)
               \<and> inj (sha256_hex e)
             \<longrightarrow> fp_deviceId (generateEnhancedFingerprint e req1 f1)
                   \<noteq> fp_deviceId (generateEnhancedFingerprint e req2 f2))"
    using deviceId_single_change[of k e req1 f1 req2 f2] by blast
  have p6: "(\<forall>j. j \<noteq> ''webgl'' \<longrightarrow>
              getProp (fp_components (generateEnhancedFingerprint e req1 f1)) j
                = getProp (fp_components (generateEnhancedFingerprint e req2 f2)) j)
        \<and> getProp (fp_components (generateEnhancedFingerprint e req1 f1)) ''webgl'' = JObj o1
        \<and> getProp (fp_components (generateEnhancedFingerprint e req2 f2)) ''webgl'' = JObj o2
        \<and> o1 \<noteq> o2
        \<longrightarrow> fp_components (generateEnhancedFingerprint e req1 f1)
              \<noteq> fp_components (generateEnhancedFingerprint e req2 f2)
            \<and> fp_deviceId (generateEnhancedFingerprint e req1 f1)
                = fp_deviceId (generateEnhancedFingerprint e req2 f2)"
  proof (intro impI, elim conjE)
    assume a: "\<forall>j. j \<noteq> ''webgl'' \<longrightarrow>
              getProp (fp_components (generateEnhancedFingerprint e req1 f1)) j
                = getProp (fp_components (generateEnhancedFingerprint e req2 f2)) j"
      and b: "getProp (fp_components (generateEnhancedFingerprint e req1 f1)) ''webgl'' = JObj o1"
        "getProp (fp_components (generateEnhancedFingerprint e req2 f2)) ''webgl'' = JObj o2"
        "o1 \<noteq> o2"
    have ne: "getProp (fp_components (generateEnhancedFingerprint e req1 f1)) ''webgl''
              \<noteq> getProp (fp_components (generateEnhancedFingerprint e req2 f2)) ''webgl''"
      unfolding b(1,2) using b(3) by simp
    have r: "js_toString (numToString e)
               (getProp (fp_components (generateEnhancedFingerprint e req1 f1)) ''webgl'')
             = js_toString (numToString e)
                 (getProp (fp_components (generateEnhancedFingerprint e req2 f2)) ''webgl'')"
      unfolding b(1,2) by simp
    have "fp_components (generateEnhancedFingerprint e req1 f1)
              \<noteq> fp_components (generateEnhancedFingerprint e req2 f2)"
      using ne by auto
    then show "fp_components (generateEnhancedFingerprint e req1 f1)
              \<noteq> fp_components (generateEnhancedFingerprint e req2 f2)
            \<and> fp_deviceId (generateEnhancedFingerprint e req1 f1)
                = fp_deviceId (generateEnhancedFingerprint e req2 f2)"
      using deviceId_single_change(1)[OF a ne r] by simp
  qed
  have p7: "generateDeviceId e userAgent ip = sha256_hex e (userAgent @ ip)"
    by (simp add: generateDeviceId_def)
  have p8: "inj (sha256_hex e) \<and> userAgent \<noteq> userAgent'
        \<longrightarrow> generateDeviceId e userAgent ip \<noteq> generateDeviceId e userAgent' ip"
    by (simp add: generateDeviceId_def inj_eq)
  show ?thesis
    by (rule conjI[OF p1 conjI[OF p2 conjI[OF p3 conjI[OF p4 conjI[OF p5 conjI[OF p6
          conjI[OF p7 p8]]]]]]])
qed

theorem deviceId_webgl_collision_witness:
  "fp_components (generateEnhancedFingerprint envAnn requestAnn (Some fingerprintAnn))
     \<noteq> fp_components (generateEnhancedFingerprint envAnn requestAnn (Some fingerprintNvidia))
   \<and> fp_deviceId (generateEnhancedFingerprint envAnn requestAnn (Some fingerprintAnn))
       = fp_deviceId (generateEnhancedFingerprint envAnn requestAnn (Some fingerprintNvidia))
   \<and> fp_deviceId (generateEnhancedFingerprint envAnn requestAnn (Some fingerprintAnn))
       \<noteq> fp_deviceId (generateEnhancedFingerprint envAnn requestAnn (Some fingerprintCanvas))
   \<and> generateDeviceId envAnn ''Mozilla/5.0'' ''203.0.113.7''
       \<noteq> generateDeviceId envAnn ''Mozilla/4.0'' ''203.0.113.7''"
proof -
  have injective: "inj (sha256_hex envAnn)"
    by (simp add: inj_def envAnn_def env0_def)
  have gpu: "\<forall>j. j \<noteq> ''webgl'' \<longrightarrow>
      getProp (fp_components (generateEnhancedFingerprint envAnn requestAnn (Some fingerprintAnn))) j
      = getProp (fp_components (generateEnhancedFingerprint envAnn requestAnn (Some fingerprintNvidia))) j"
    by (simp add: fp_components_gen fingerprintComponents_def getProp_def fingerprintAnn_def
          fingerprintNvidia_def js_or_def Let_def)
  have gA: "getProp (fp_components (generateEnhancedFingerprint envAnn requestAnn (Some fingerprintAnn)))
              ''webgl'' = JObj [(''vendor'', JStr ''Intel Inc.''), (''renderer'', JStr ''Intel Iris'')]"
    by (simp add: fp_components_gen fingerprintComponents_def getProp_def fingerprintAnn_def
          js_or_def Let_def)
  have gN: "getProp (fp_components (generateEnhancedFingerprint envAnn requestAnn (Some fingerprintNvidia)))
              ''webgl'' = JObj [(''vendor'', JStr ''NVIDIA Corporation''),
                                (''renderer'', JStr ''GeForce RTX 3080'')]"
    by (simp add: fp_components_gen fingerprintComponents_def getProp_def fingerprintNvidia_def
          js_or_def Let_def)
  have canvas: "\<forall>j. j \<noteq> ''canvas'' \<longrightarrow>
      getProp (fp_components (generateEnhancedFingerprint envAnn requestAnn (Some fingerprintAnn))) j
      = getProp (fp_components (generateEnhancedFingerprint envAnn requestAnn (Some fingerprintCanvas))) j"
    by (simp add: fp_components_gen fingerprintComponents_def getProp_def fingerprintAnn_def
          fingerprintCanvas_def js_or_def Let_def)
  have cA: "getProp (fp_components (generateEnhancedFingerprint envAnn requestAnn (Some fingerprintAnn)))
              ''canvas'' = JStr ''c4f3a1''"
    by (simp add: fp_components_gen fingerprintComponents_def getProp_def fingerprintAnn_def
          js_or_def Let_def)
  have cC: "getProp (fp_components (generateEnhancedFingerprint envAnn requestAnn (Some fingerprintCanvas)))
              ''canvas'' = JStr ''9be027''"
    by (simp add: fp_components_gen fingerprintComponents_def getProp_def fingerprintCanvas_def
          js_or_def Let_def)
  note gpus = deviceId_depends_on_rendered_components [where e = envAnn and ?req1.0 = requestAnn and ?req2.0 = requestAnn
                and ?f1.0 = "Some fingerprintAnn" and ?f2.0 = "Some fingerprintNvidia"
                and ?o1.0 = "[(''vendor'', JStr ''Intel Inc.''), (''renderer'', JStr ''Intel Iris'')]"
                and ?o2.0 = "[(''vendor'', JStr ''NVIDIA Corporation''),
                              (''renderer'', JStr ''GeForce RTX 3080'')]"
                and k = "''webgl''"
                and req = requestAnn and f = "Some fingerprintAnn" and t = 0
                and userAgent = "''Mozilla/5.0''" and userAgent' = "''Mozilla/4.0''"
                and ip = "''203.0.113.7''"]
  note canvases = deviceId_depends_on_rendered_components [where e = envAnn and ?req1.0 = requestAnn and ?req2.0 = requestAnn
                and ?f1.0 = "Some fingerprintAnn" and ?f2.0 = "Some fingerprintCanvas"
                and k = "''canvas''" and ?o1.0 = "[]" and ?o2.0 = "[]"
                and req = requestAnn and f = "Some fingerprintAnn" and t = 0
                and userAgent = "''Mozilla/5.0''" and userAgent' = "''Mozilla/4.0''"
                and ip = "''203.0.113.7''"]
  have two_gpus:
    "(\<forall>j. j \<noteq> ''webgl'' \<longrightarrow>
      getProp (fp_components (generateEnhancedFingerprint envAnn requestAnn (Some fingerprintAnn))) j
      = getProp (fp_components (generateEnhancedFingerprint envAnn requestAnn (Some fingerprintNvidia))) j)
     \<and> getProp (fp_components (generateEnhancedFingerprint envAnn requestAnn (Some fingerprintAnn)))
              ''webgl'' = JObj [(''vendor'', JStr ''Intel Inc.''), (''renderer'', JStr ''Intel Iris'')]
     \<and> getProp (fp_components (generateEnhancedFingerprint envAnn requestAnn (Some fingerprintNvidia)))
              ''webgl'' = JObj [(''vendor'', JStr ''NVIDIA Corporation''),
                                (''renderer'', JStr ''GeForce RTX 3080'')]
     \<and> [(''vendor'', JStr ''Intel Inc.''), (''renderer'', JStr ''Intel Iris'')]
           \<noteq> [(''vendor'', JStr ''NVIDIA Corporation''), (''renderer'', JStr ''GeForce RTX 3080'')]"
    using gpu gA gN by simp
  have two_canvases:
    "(\<forall>j. j \<noteq> ''canvas'' \<longrightarrow>
      getProp (fp_components (generateEnhancedFingerprint envAnn requestAnn (Some fingerprintAnn))) j
      = getProp (fp_components (generateEnhancedFingerprint envAnn requestAnn (Some fingerprintCanvas))) j)
     \<and> getProp (fp_components (generateEnhancedFingerprint envAnn requestAnn (Some fingerprintAnn)))
              ''canvas''
         \<noteq> getProp (fp_components (generateEnhancedFingerprint envAnn requestAnn (Some fingerprintCanvas)))
              ''canvas''"
    using canvas unfolding cA cC by simp
  have rendered:
    "js_toString (numToString envAnn)
        (getProp (fp_components (generateEnhancedFingerprint envAnn requestAnn (Some fingerprintAnn)))
              ''canvas'')
       \<noteq> js_toString (numToString envAnn)
          (getProp (fp_components (generateEnhancedFingerprint envAnn requestAnn (Some fingerprintCanvas)))
              ''canvas'')
     \<and> inj (sha256_hex envAnn)"
    unfolding cA cC using injective by simp
  have agents: "inj (sha256_hex envAnn) \<and> ''Mozilla/5.0'' \<noteq> ''Mozilla/4.0''"
    using injective by simp
  note t1 = mp [OF conjunct1 [OF conjunct2 [OF conjunct2 [OF conjunct2 [OF conjunct2
                  [OF conjunct2 [OF gpus]]]]]] two_gpus]
  note t2 = mp [OF conjunct2 [OF mp [OF conjunct1 [OF conjunct2 [OF conjunct2 [OF conjunct2
                  [OF conjunct2 [OF canvases]]]]] two_canvases]] rendered]
  note t3 = mp [OF conjunct2 [OF conjunct2 [OF conjunct2 [OF conjunct2 [OF conjunct2
                  [OF conjunct2 [OF conjunct2 [OF gpus]]]]]]] agents]
  show ?thesis
    by (rule conjI[OF conjunct1[OF t1] conjI[OF conjunct2[OF t1] conjI[OF t2 t3]]])
qed

end
